theory Spec2Isabelle
  imports Complex_Main "HOL-Library.Char_ord" "HOL-Library.List_Lexorder"
begin

section \<open>Data model\<close>

text \<open>
  The crossing-ways validation of \<^verbatim>\<open>src/modules/services/keepRight.js\<close>
  (function \<^verbatim>\<open>validationCrossingWays\<close>).  An OSM entity is a JavaScript
  object read by duck typing; it is one record here, with the fields the validation
  reads.  A tag object is a partial map from keys to values: a missing key is
  \<^verbatim>\<open>undefined\<close> in the source and \<open>None\<close> here.  Coordinates are
  JavaScript numbers; they are reals here, and every geometric computation is done by a
  collaborator that the validation imports and that is a parameter of the model.
\<close>

type_synonym tags = "string \<rightharpoonup> string"

type_synonym loc = "real \<times> real"

type_synonym segment = "loc \<times> loc"

type_synonym edge = "string \<times> string"

datatype entityType = TypeNode | TypeWay | TypeRelation

text \<open>
  The field \<open>layer\<close> holds \<^verbatim>\<open>way.layer().toString()\<close>: the method
  \<^verbatim>\<open>layer\<close> belongs to the OSM way class, which is imported, so its value is
  part of the input.
\<close>

record entity =
  eid :: string
  etype :: entityType
  tags :: tags
  nodes :: "string list"
  members :: "string list"
  loc :: loc
  layer :: string

text \<open>The graph collaborator, as the interface the validation consumes.\<close>

record graph =
  entity :: "string \<Rightarrow> entity"
  childNodes :: "entity \<Rightarrow> entity list"
  parentRelations :: "entity \<Rightarrow> entity list"

datatype featureType = Building | Highway | Railway | Waterway

fun featureTypeName :: "featureType \<Rightarrow> string" where
  "featureTypeName Building = ''building''"
| "featureTypeName Highway = ''highway''"
| "featureTypeName Railway = ''railway''"
| "featureTypeName Waterway = ''waterway''"


section \<open>Feature classifier\<close>

definition hasTag :: "tags \<Rightarrow> string \<Rightarrow> bool" where
  "hasTag ts key \<longleftrightarrow> ts key \<noteq> None \<and> ts key \<noteq> Some ''no''"

definition tagsImplyIndoors :: "tags \<Rightarrow> bool" where
  "tagsImplyIndoors ts \<longleftrightarrow> hasTag ts ''level'' \<or> ts ''highway'' = Some ''corridor''"

definition allowsBridge :: "featureType \<Rightarrow> bool" where
  "allowsBridge ft \<longleftrightarrow> ft = Highway \<or> ft = Railway"

definition allowsTunnel :: "featureType \<Rightarrow> bool" where
  "allowsTunnel ft \<longleftrightarrow> ft = Highway \<or> ft = Railway \<or> ft = Waterway"

definition allowsStructures :: "featureType \<Rightarrow> bool" where
  "allowsStructures ft \<longleftrightarrow> allowsBridge ft \<or> allowsTunnel ft"

definition canCover :: "featureType \<Rightarrow> bool" where
  "canCover ft \<longleftrightarrow> ft = Building"

definition waterways :: "string list" where
  "waterways = [''canal'', ''ditch'', ''drain'', ''river'', ''stream'']"

definition ignoredHighways :: "string list" where
  "ignoredHighways = [''rest_area'', ''services'']"

definition ignoredRailways :: "string list" where
  "ignoredRailways = [''train_wash'']"

text \<open>
  \<^verbatim>\<open>list.indexOf(v) !== -1\<close> for a tag value \<open>v\<close> that may be
  \<^verbatim>\<open>undefined\<close>: \<^verbatim>\<open>undefined\<close> is in no list of strings.
\<close>

definition indexOfFound :: "string list \<Rightarrow> string option \<Rightarrow> bool" where
  "indexOfFound xs v = (case v of None \<Rightarrow> False | Some s \<Rightarrow> s \<in> set xs)"

definition getFeatureTypeForTags :: "tags \<Rightarrow> featureType option" where
  "getFeatureTypeForTags ts =
     (if hasTag ts ''building'' then Some Building
      else if hasTag ts ''area'' then None
      else if hasTag ts ''highway'' \<and> \<not> indexOfFound ignoredHighways (ts ''highway'')
        then Some Highway
      else if hasTag ts ''railway'' \<and> \<not> indexOfFound ignoredRailways (ts ''railway'')
        then Some Railway
      else if hasTag ts ''waterway'' \<and> indexOfFound waterways (ts ''waterway'')
        then Some Waterway
      else None)"

text \<open>The way, or the first of its parent relations that has a feature type.\<close>

definition getFeatureWithFeatureTypeTagsForWay :: "entity \<Rightarrow> graph \<Rightarrow> entity" where
  "getFeatureWithFeatureTypeTagsForWay w g =
     (if getFeatureTypeForTags (tags w) = None then
        (case find (\<lambda>rel. getFeatureTypeForTags (tags rel) \<noteq> None) (parentRelations g w) of
           Some rel \<Rightarrow> rel
         | None \<Rightarrow> w)
      else w)"

definition getFeatureTypeForCrossingCheck :: "entity \<Rightarrow> graph \<Rightarrow> featureType option" where
  "getFeatureTypeForCrossingCheck w g =
     getFeatureTypeForTags (tags (getFeatureWithFeatureTypeTagsForWay w g))"


section \<open>Legitimacy rules\<close>

definition extendTagsByInferredLayer :: "tags \<Rightarrow> entity \<Rightarrow> tags" where
  "extendTagsByInferredLayer ts w =
     (if \<not> hasTag ts ''layer'' then ts(''layer'' \<mapsto> layer w) else ts)"

definition isLegitCrossing ::
  "entity \<Rightarrow> featureType \<Rightarrow> entity \<Rightarrow> featureType \<Rightarrow> graph \<Rightarrow> bool" where
  "isLegitCrossing way1 featureType1 way2 featureType2 g =
     (let tags1 = extendTagsByInferredLayer (tags (getFeatureWithFeatureTypeTagsForWay way1 g)) way1;
          tags2 = extendTagsByInferredLayer (tags (getFeatureWithFeatureTypeTagsForWay way2 g)) way2
      in
        if tagsImplyIndoors tags1 \<and> tagsImplyIndoors tags2 \<and> tags1 ''level'' \<noteq> tags2 ''level''
          then True
        else if
          (if allowsBridge featureType1 \<and> allowsBridge featureType2 then
             (hasTag tags1 ''bridge'' \<and> \<not> hasTag tags2 ''bridge'') \<or>
             (\<not> hasTag tags1 ''bridge'' \<and> hasTag tags2 ''bridge'') \<or>
             (hasTag tags1 ''bridge'' \<and> hasTag tags2 ''bridge'' \<and> tags1 ''layer'' \<noteq> tags2 ''layer'')
           else if allowsBridge featureType1 \<and> hasTag tags1 ''bridge'' then True
           else allowsBridge featureType2 \<and> hasTag tags2 ''bridge'')
          then True
        else if
          (if allowsTunnel featureType1 \<and> allowsTunnel featureType2 then
             (hasTag tags1 ''tunnel'' \<and> \<not> hasTag tags2 ''tunnel'') \<or>
             (\<not> hasTag tags1 ''tunnel'' \<and> hasTag tags2 ''tunnel'') \<or>
             (hasTag tags1 ''tunnel'' \<and> hasTag tags2 ''tunnel'' \<and> tags1 ''layer'' \<noteq> tags2 ''layer'')
           else if allowsTunnel featureType1 \<and> hasTag tags1 ''tunnel'' then True
           else allowsTunnel featureType2 \<and> hasTag tags2 ''tunnel'')
          then True
        else if
          (if canCover featureType1 \<and> canCover featureType2 then
             hasTag tags1 ''covered'' \<and> hasTag tags2 ''covered'' \<and> tags1 ''layer'' \<noteq> tags2 ''layer''
           else if canCover featureType1 \<and> hasTag tags2 ''covered'' then True
           else canCover featureType2 \<and> hasTag tags1 ''covered'')
          then True
        else if \<not> allowsStructures featureType1 \<and> \<not> allowsStructures featureType2
                \<and> tags1 ''layer'' \<noteq> tags2 ''layer''
          then True
        else False)"


section \<open>Connection tags\<close>

definition highwaysDisallowingFords :: "string list" where
  "highwaysDisallowingFords =
     [''motorway'', ''motorway_link'', ''trunk'', ''trunk_link'',
      ''primary'', ''primary_link'', ''secondary'', ''secondary_link'']"

definition pathHighways :: "string list" where
  "pathHighways =
     [''path'', ''footway'', ''cycleway'', ''bridleway'', ''pedestrian'', ''steps'', ''corridor'']"

text \<open>
  The result is \<^verbatim>\<open>null\<close> (\<open>None\<close>) or a tag object, which may be the empty
  object \<^verbatim>\<open>{}\<close> (\<open>Some Map.empty\<close>).
\<close>

definition tagsForConnectionNodeIfAllowed :: "entity \<Rightarrow> entity \<Rightarrow> tags option" where
  "tagsForConnectionNodeIfAllowed entity1 entity2 =
     (let featureType1 = getFeatureTypeForTags (tags entity1);
          featureType2 = getFeatureTypeForTags (tags entity2)
      in
        if featureType1 = featureType2 then
          (if featureType1 = Some Highway then
             (let entity1IsPath = indexOfFound pathHighways (tags entity1 ''highway'');
                  entity2IsPath = indexOfFound pathHighways (tags entity2 ''highway'')
              in
                if (entity1IsPath \<or> entity2IsPath) \<and> entity1IsPath \<noteq> entity2IsPath then
                  (let pathFeature = (if entity1IsPath then entity1 else entity2)
                   in
                     if tags pathFeature ''highway'' = Some ''footway'' \<and>
                        tags pathFeature ''footway'' = Some ''crossing'' \<and>
                        indexOfFound [''marked'', ''unmarked''] (tags pathFeature ''crossing'')
                     then Some [''highway'' \<mapsto> ''crossing'',
                                ''crossing'' \<mapsto> the (tags pathFeature ''crossing'')]
                     else Some [''highway'' \<mapsto> ''crossing''])
                else Some Map.empty)
           else if featureType1 = Some Waterway then Some Map.empty
           else if featureType1 = Some Railway then Some Map.empty
           else None)
        else
          (if featureType1 = Some Highway \<or> featureType2 = Some Highway then
             (if featureType1 = Some Railway \<or> featureType2 = Some Railway then
                (if indexOfFound pathHighways (tags entity1 ''highway'') \<or>
                    indexOfFound pathHighways (tags entity2 ''highway'')
                 then Some [''railway'' \<mapsto> ''crossing'']
                 else Some [''railway'' \<mapsto> ''level_crossing''])
              else if featureType1 = Some Waterway \<or> featureType2 = Some Waterway then
                (if hasTag (tags entity1) ''tunnel'' \<and> hasTag (tags entity2) ''tunnel'' then None
                 else if hasTag (tags entity1) ''bridge'' \<and> hasTag (tags entity2) ''bridge'' then None
                 else if indexOfFound highwaysDisallowingFords (tags entity1 ''highway'') \<or>
                         indexOfFound highwaysDisallowingFords (tags entity2 ''highway'')
                   then None
                 else Some [''ford'' \<mapsto> ''yes''])
              else None)
           else None))"


section \<open>Imported collaborators\<close>

text \<open>
  The validation imports its geometry, its labels, its localisation and the generic graph
  actions from other modules, and it sorts an array with the
  \<^verbatim>\<open>Array.prototype.sort\<close> of the engine that runs it.  They are parameters of
  the model, gathered in one record: every theorem below holds for all of them.
  \<^item> \<open>geoLineIntersection\<close>: the intersection point of two segments, or
    \<^verbatim>\<open>null\<close>;
  \<^item> \<open>geoSphericalClosestNode\<close>: the closest of a list of nodes to a point, with its
    distance;
  \<^item> \<open>utilDisplayLabel\<close>: the label of an entity;
  \<^item> \<open>translate\<close>: the function \<^verbatim>\<open>t\<close>, the localised text of a key, with
    replacements;
  \<^item> \<open>osmNode\<close>: a new node (with a fresh id) at a location, with tags;
  \<^item> \<open>replace\<close>, \<open>actionAddMidpoint\<close>, \<open>actionMergeNodes\<close>: the graph
    transformations the connect action is built from;
  \<^item> \<open>arraySort\<close>: \<^verbatim>\<open>Array.prototype.sort\<close> on an array of two ways, given
    the comparison function as a function to numbers.  Which of the two comparisons an
    engine asks for, and what it does with an answer, is the engine's own: the language
    fixes the result only for a comparison function that answers with a negative number,
    zero or a positive number consistently.
\<close>

record closestNodeInfo =
  closestNode :: entity
  distance :: real

record collaborators =
  geoLineIntersection :: "segment \<Rightarrow> segment \<Rightarrow> loc option"
  geoSphericalClosestNode :: "entity list \<Rightarrow> loc \<Rightarrow> closestNodeInfo"
  utilDisplayLabel :: "entity \<Rightarrow> string"
  translate :: "string \<Rightarrow> (string \<times> string) list \<Rightarrow> string"
  osmNode :: "loc \<Rightarrow> tags \<Rightarrow> entity"
  replace :: "entity \<Rightarrow> graph \<Rightarrow> graph"
  actionAddMidpoint :: "loc \<Rightarrow> edge \<Rightarrow> entity \<Rightarrow> graph \<Rightarrow> graph"
  actionMergeNodes :: "string list \<Rightarrow> loc \<Rightarrow> graph \<Rightarrow> graph"
  arraySort :: "(entity \<Rightarrow> entity \<Rightarrow> int) \<Rightarrow> entity \<times> entity \<Rightarrow> entity \<times> entity"

text \<open>The spatial index: the entities whose extent meets a bounding box.\<close>

type_synonym extent = "loc \<times> loc"

type_synonym tree = "extent \<Rightarrow> graph \<Rightarrow> entity list"

record validationContext =
  graph :: graph
  tree :: tree
  hasEntity :: "string \<Rightarrow> bool"


section \<open>Segment intersection finder\<close>

record crossCoord =
  edge :: edge
  point :: loc

text \<open>
  The loop of \<^verbatim>\<open>findEdgeToWayCrossCoords\<close> over the consecutive nodes
  \<open>nA\<close>, \<open>nB\<close> of the candidate way: \<^verbatim>\<open>continue\<close> on a shared
  node, \<^verbatim>\<open>break\<close> after the first crossing when \<open>oneOnly\<close>.
\<close>

fun crossCoordsLoop :: "collaborators \<Rightarrow> entity \<Rightarrow> entity \<Rightarrow> bool \<Rightarrow> entity list \<Rightarrow> crossCoord list" where
  "crossCoordsLoop c n1 n2 oneOnly (nA # nB # rest) =
     (if eid nA = eid n1 \<or> eid nA = eid n2 \<or> eid nB = eid n1 \<or> eid nB = eid n2
        then crossCoordsLoop c n1 n2 oneOnly (nB # rest)
      else
        (case geoLineIntersection c (loc n1, loc n2) (loc nA, loc nB) of
           None \<Rightarrow> crossCoordsLoop c n1 n2 oneOnly (nB # rest)
         | Some p \<Rightarrow>
             \<lparr>edge = (eid nA, eid nB), point = p\<rparr> #
               (if oneOnly then [] else crossCoordsLoop c n1 n2 oneOnly (nB # rest))))"
| "crossCoordsLoop c n1 n2 oneOnly nds = []"

definition findEdgeToWayCrossCoords ::
  "collaborators \<Rightarrow> entity \<Rightarrow> entity \<Rightarrow> entity \<Rightarrow> graph \<Rightarrow> bool \<Rightarrow> crossCoord list" where
  "findEdgeToWayCrossCoords c n1 n2 w g oneOnly = crossCoordsLoop c n1 n2 oneOnly (childNodes g w)"

record edgeCrossInfo =
  ways :: "entity \<times> entity"
  featureTypes :: "featureType \<times> featureType"
  edges :: "edge \<times> edge"
  crossPoint :: loc

text \<open>
  The body of the loop over the candidates of one primary edge, up to the search for
  crossings: \<open>None\<close> is one of the \<^verbatim>\<open>continue\<close> statements (the
  candidate is skipped), \<open>Some (oneOnly, infos)\<close> carries the crossings that are pushed.
  \<open>checked\<close> is the object \<^verbatim>\<open>checkedSingleCrossingWays\<close>, as the set of
  its keys.
\<close>

definition candidateCrossings ::
  "collaborators \<Rightarrow> entity \<Rightarrow> featureType \<Rightarrow> entity \<Rightarrow> entity \<Rightarrow> graph \<Rightarrow> string set \<Rightarrow> entity
     \<Rightarrow> (bool \<times> edgeCrossInfo list) option" where
  "candidateCrossings c primaryWay primaryFeatureType n1 n2 g checked w =
     (if etype w \<noteq> TypeWay then None
      else if eid w \<in> checked then None
      else if eid w = eid primaryWay then None
      else
        (case getFeatureTypeForCrossingCheck w g of
           None \<Rightarrow> None
         | Some wayFeatureType \<Rightarrow>
             if isLegitCrossing primaryWay primaryFeatureType w wayFeatureType g \<or>
                isLegitCrossing w wayFeatureType primaryWay primaryFeatureType g
             then None
             else
               (let oneOnly = (primaryFeatureType = Building \<or> wayFeatureType = Building)
                in Some (oneOnly,
                     map (\<lambda>crossingInfo.
                            \<lparr>ways = (primaryWay, w),
                             featureTypes = (primaryFeatureType, wayFeatureType),
                             edges = ((eid n1, eid n2), edge crossingInfo),
                             crossPoint = point crossingInfo\<rparr>)
                         (findEdgeToWayCrossCoords c n1 n2 w g oneOnly)))))"

type_synonym crossState = "edgeCrossInfo list \<times> string set"

fun intersectedLoop ::
  "collaborators \<Rightarrow> entity \<Rightarrow> featureType \<Rightarrow> entity \<Rightarrow> entity \<Rightarrow> graph \<Rightarrow> entity list
     \<Rightarrow> crossState \<Rightarrow> crossState" where
  "intersectedLoop c primaryWay pft n1 n2 g [] st = st"
| "intersectedLoop c primaryWay pft n1 n2 g (w # rest) (edgeCrossInfos, checked) =
     (case candidateCrossings c primaryWay pft n1 n2 g checked w of
        None \<Rightarrow> intersectedLoop c primaryWay pft n1 n2 g rest (edgeCrossInfos, checked)
      | Some (oneOnly, infos) \<Rightarrow>
          intersectedLoop c primaryWay pft n1 n2 g rest
            (edgeCrossInfos @ infos,
             if oneOnly \<and> infos \<noteq> [] then insert (eid w) checked else checked))"

definition edgeExtent :: "entity \<Rightarrow> entity \<Rightarrow> extent" where
  "edgeExtent n1 n2 =
     ((min (fst (loc n1)) (fst (loc n2)), min (snd (loc n1)) (snd (loc n2))),
      (max (fst (loc n1)) (fst (loc n2)), max (snd (loc n1)) (snd (loc n2))))"

fun primaryEdgesLoop ::
  "collaborators \<Rightarrow> entity \<Rightarrow> featureType \<Rightarrow> graph \<Rightarrow> tree \<Rightarrow> string list
     \<Rightarrow> crossState \<Rightarrow> crossState" where
  "primaryEdgesLoop c primaryWay pft g tr (nid1 # nid2 # rest) st =
     (let n1 = entity g nid1;
          n2 = entity g nid2;
          intersected = tr (edgeExtent n1 n2) g
      in primaryEdgesLoop c primaryWay pft g tr (nid2 # rest)
           (intersectedLoop c primaryWay pft n1 n2 g intersected st))"
| "primaryEdgesLoop c primaryWay pft g tr nids st = st"

definition findCrossingsByWay ::
  "collaborators \<Rightarrow> entity \<Rightarrow> graph \<Rightarrow> tree \<Rightarrow> edgeCrossInfo list" where
  "findCrossingsByWay c primaryWay g tr =
     (if etype primaryWay \<noteq> TypeWay then []
      else
        (case getFeatureTypeForCrossingCheck primaryWay g of
           None \<Rightarrow> []
         | Some primaryFeatureType \<Rightarrow>
             fst (primaryEdgesLoop c primaryWay primaryFeatureType g tr (nodes primaryWay) ([], {}))))"


section \<open>Connect-ways action\<close>

definition mergeThresholdInMeters :: real where
  "mergeThresholdInMeters = 0.75"

text \<open>
  The body of \<^verbatim>\<open>edges.forEach\<close>: the state is the graph and the array
  \<^verbatim>\<open>nodesToMerge\<close>.
\<close>

fun connectEdgesLoop ::
  "collaborators \<Rightarrow> loc \<Rightarrow> entity \<Rightarrow> edge list \<Rightarrow> graph \<times> string list \<Rightarrow> graph \<times> string list" where
  "connectEdgesLoop c l newNode [] st = st"
| "connectEdgesLoop c l newNode (e # rest) (g, nodesToMerge) =
     (let edgeNodes = [entity g (fst e), entity g (snd e)];
          closest = geoSphericalClosestNode c edgeNodes l
      in
        if distance closest < mergeThresholdInMeters
          then connectEdgesLoop c l newNode rest (g, nodesToMerge @ [eid (closestNode closest)])
        else connectEdgesLoop c l newNode rest (actionAddMidpoint c l e newNode g, nodesToMerge))"

definition actionConnectCrossingWays ::
  "collaborators \<Rightarrow> loc \<Rightarrow> tags \<Rightarrow> edge list \<Rightarrow> graph \<Rightarrow> graph" where
  "actionConnectCrossingWays c l connTags es g =
     (let newNode = osmNode c l connTags;
          g1 = replace c newNode g;
          (g2, nodesToMerge) = connectEdgesLoop c l newNode es (g1, [eid newNode])
      in
        if length nodesToMerge > 1 then actionMergeNodes c nodesToMerge l g2 else g2)"


section \<open>Crossing classifier and fix generator\<close>

text \<open>
  A fix is a title and, for an executable fix, the graph transformation that its
  \<^verbatim>\<open>onClick\<close> hands to \<^verbatim>\<open>context.perform\<close>.
\<close>

record validationIssueFix =
  title :: string
  onClick :: "(graph \<Rightarrow> graph) option"

record issueInfo =
  infoEdges :: "edge \<times> edge"
  connectionTags :: "tags option"

record validationIssue =
  issueType :: string
  severity :: string
  message :: string
  tooltip :: string
  entities :: "entity \<times> entity"
  info :: issueInfo
  issueLoc :: loc
  issueFixes :: "validationIssueFix list"

text \<open>
  The comparison function that \<^verbatim>\<open>createIssue\<close> passes to
  \<^verbatim>\<open>crossing.ways.sort\<close>.  It returns a boolean.  The last line compares
  two feature type names as strings; with a \<^verbatim>\<open>null\<close> on either side
  \<^verbatim>\<open><\<close> is false.
\<close>

definition compareWays :: "collaborators \<Rightarrow> graph \<Rightarrow> entity \<Rightarrow> entity \<Rightarrow> bool" where
  "compareWays c g entity1 entity2 =
     (let type1 = getFeatureTypeForCrossingCheck entity1 g;
          type2 = getFeatureTypeForCrossingCheck entity2 g
      in
        if type1 = type2 then utilDisplayLabel c entity1 > utilDisplayLabel c entity2
        else if type1 = Some Waterway then True
        else if type2 = Some Waterway then False
        else
          (case (type1, type2) of
             (Some a, Some b) \<Rightarrow> featureTypeName a < featureTypeName b
           | _ \<Rightarrow> False))"

text \<open>
  \<^verbatim>\<open>Array.prototype.sort\<close> converts the result of the comparison function to
  a number: \<^verbatim>\<open>true\<close> is 1 and \<^verbatim>\<open>false\<close> is 0.  The comparison function
  of \<^verbatim>\<open>createIssue\<close> therefore never answers with a negative number.
\<close>

definition toNumber :: "bool \<Rightarrow> int" where
  "toNumber b = (if b then 1 else 0)"

text \<open>\<^verbatim>\<open>crossing.featureTypes.sort().join('-')\<close>: the default order of strings.\<close>

definition sortedJoin :: "featureType \<times> featureType \<Rightarrow> string" where
  "sortedJoin fts =
     (let a = featureTypeName (fst fts); b = featureTypeName (snd fts)
      in if b < a then b @ ''-'' @ a else a @ ''-'' @ b)"

definition createIssue :: "collaborators \<Rightarrow> edgeCrossInfo \<Rightarrow> validationContext \<Rightarrow> validationIssue" where
  "createIssue c crossing ctx =
     (let g = graph ctx;
          sorted = arraySort c (\<lambda>entity1 entity2. toNumber (compareWays c g entity1 entity2))
                     (ways crossing);
          ents = (getFeatureWithFeatureTypeTagsForWay (fst sorted) g,
                  getFeatureWithFeatureTypeTagsForWay (snd sorted) g);
          connTags = tagsForConnectionNodeIfAllowed (fst ents) (snd ents);
          featureType1 = fst (featureTypes crossing);
          featureType2 = snd (featureTypes crossing);
          isCrossingIndoors = (tagsImplyIndoors (tags (fst ents)) \<and> tagsImplyIndoors (tags (snd ents)));
          isCrossingTunnels = (allowsTunnel featureType1 \<and> hasTag (tags (fst ents)) ''tunnel'' \<and>
                               allowsTunnel featureType2 \<and> hasTag (tags (snd ents)) ''tunnel'');
          isCrossingBridges = (allowsBridge featureType1 \<and> hasTag (tags (fst ents)) ''bridge'' \<and>
                               allowsBridge featureType2 \<and> hasTag (tags (snd ents)) ''bridge'');
          crossingTypeID0 =
            (if isCrossingIndoors then ''indoor-indoor''
             else if isCrossingTunnels then ''tunnel-tunnel''
             else if isCrossingBridges then ''bridge-bridge''
             else sortedJoin (featureTypes crossing));
          crossingTypeID =
            (if connTags \<noteq> None \<and> (isCrossingIndoors \<or> isCrossingTunnels \<or> isCrossingBridges)
             then crossingTypeID0 @ ''_connectable'' else crossingTypeID0);
          messageDict = [(''feature'', utilDisplayLabel c (fst ents)),
                         (''feature2'', utilDisplayLabel c (snd ents))];
          connectFixes =
            (case connTags of
               None \<Rightarrow> []
             | Some ct \<Rightarrow>
                 [\<lparr>title = translate c ''issues.fix.connect_features.title'' [],
                   onClick = Some (actionConnectCrossingWays c (crossPoint crossing) ct
                                     [fst (edges crossing), snd (edges crossing)])\<rparr>]);
          useFixID =
            (if isCrossingIndoors then ''use_different_levels''
             else if isCrossingTunnels \<or> isCrossingBridges then ''use_different_layers''
             else if allowsBridge featureType1 \<or> allowsBridge featureType2 then ''use_bridge_or_tunnel''
             else if allowsTunnel featureType1 \<or> allowsTunnel featureType2 then ''use_tunnel''
             else ''use_different_layers'')
      in
        \<lparr>issueType = ''crossing_ways'',
         severity = ''warning'',
         message = translate c ''issues.crossing_ways.message'' messageDict,
         tooltip = translate c (''issues.crossing_ways.'' @ crossingTypeID @ ''.tip'') [],
         entities = ents,
         info = \<lparr>infoEdges = edges crossing, connectionTags = connTags\<rparr>,
         issueLoc = crossPoint crossing,
         issueFixes = connectFixes @
           [\<lparr>title = translate c (''issues.fix.'' @ useFixID @ ''.title'') [], onClick = None\<rparr>,
            \<lparr>title = translate c ''issues.fix.reposition_features.title'' [], onClick = None\<rparr>]\<rparr>)"


section \<open>The validation\<close>

text \<open>
  The ways that one run checks: the entity itself when it is a way with a feature type of
  its own, the member ways of a building multipolygon, nothing otherwise.  A member that
  is not a way of the graph contributes an empty array, which the flattening leaves in
  the list and on which \<^verbatim>\<open>findCrossingsByWay\<close> returns no crossing (it has
  no type \<^verbatim>\<open>way\<close>); it is left out here.
\<close>

definition waysToCheck :: "entity \<Rightarrow> validationContext \<Rightarrow> entity list" where
  "waysToCheck ent ctx =
     (if getFeatureTypeForTags (tags ent) = None then []
      else if etype ent = TypeWay then [ent]
      else if etype ent = TypeRelation \<and> tags ent ''type'' = Some ''multipolygon'' \<and>
              hasTag (tags ent) ''building''
        then concat (map (\<lambda>memberId.
                            if hasEntity ctx memberId then
                              (let member = entity (graph ctx) memberId
                               in if etype member = TypeWay then [member] else [])
                            else [])
                         (members ent))
      else [])"

definition validationCrossings :: "collaborators \<Rightarrow> entity \<Rightarrow> validationContext \<Rightarrow> edgeCrossInfo list" where
  "validationCrossings c ent ctx =
     foldl (\<lambda>array w. array @ findCrossingsByWay c w (graph ctx) (tree ctx)) [] (waysToCheck ent ctx)"

definition validation :: "collaborators \<Rightarrow> entity \<Rightarrow> validationContext \<Rightarrow> validationIssue list" where
  "validation c ent ctx = map (\<lambda>crossing. createIssue c crossing ctx) (validationCrossings c ent ctx)"


section \<open>The generic graph actions\<close>

text \<open>
  The graph and the generic actions (\<^verbatim>\<open>graph.replace\<close>,
  \<^verbatim>\<open>actionAddMidpoint\<close>, \<^verbatim>\<open>actionMergeNodes\<close>) are imported from
  \<^verbatim>\<open>../actions\<close> and \<^verbatim>\<open>../osm\<close>.  The definitions of this section give
  them the behaviour that the design describes, on graphs whose
  \<^verbatim>\<open>childNodes\<close> resolves the node ids of a way.
\<close>

definition resolvesChildNodes :: "graph \<Rightarrow> bool" where
  "resolvesChildNodes g \<longleftrightarrow> childNodes g = (\<lambda>w. map (entity g) (nodes w))"

text \<open>
  Modelled from the spec: the graph collaborator's \<^verbatim>\<open>replace\<close> is missing from
  the source; it is a persistent update that returns a new snapshot in which the entity
  is found under its id.
\<close>

definition modelReplace :: "entity \<Rightarrow> graph \<Rightarrow> graph" where
  "modelReplace e g =
     g\<lparr>entity := (entity g)(eid e := e),
       childNodes := (\<lambda>w. map ((entity g)(eid e := e)) (nodes w))\<rparr>"

text \<open>The same update applied to every entity of the graph at once.\<close>

definition mapEntities :: "(entity \<Rightarrow> entity) \<Rightarrow> graph \<Rightarrow> graph" where
  "mapEntities f g =
     g\<lparr>entity := (\<lambda>i. f (entity g i)),
       childNodes := (\<lambda>w. map (\<lambda>i. f (entity g i)) (nodes w))\<rparr>"

fun insertMidpoint :: "edge \<Rightarrow> string \<Rightarrow> string list \<Rightarrow> string list" where
  "insertMidpoint e n (x # y # rest) =
     (if (x = fst e \<and> y = snd e) \<or> (x = snd e \<and> y = fst e)
        then x # n # insertMidpoint e n (y # rest)
      else x # insertMidpoint e n (y # rest))"
| "insertMidpoint e n xs = xs"

text \<open>
  Modelled from the spec: \<^verbatim>\<open>actionAddMidpoint\<close> is missing from the source; it
  splits the edge by inserting the new node, placed at the location, as a midpoint
  between the two nodes of the edge in the ways that have this edge.
\<close>

definition modelAddMidpoint :: "loc \<Rightarrow> edge \<Rightarrow> entity \<Rightarrow> graph \<Rightarrow> graph" where
  "modelAddMidpoint l e n g =
     mapEntities
       (\<lambda>x. if etype x = TypeWay then x\<lparr>nodes := insertMidpoint e (eid n) (nodes x)\<rparr> else x)
       (modelReplace (n\<lparr>loc := l\<rparr>) g)"

text \<open>
  Modelled from the spec: \<^verbatim>\<open>actionMergeNodes\<close> is missing from the source; it
  merges the nodes into one node at the location.  The node that remains is the last of
  the list here, and every way refers to it in place of the others.
\<close>

definition modelMergeNodes :: "string list \<Rightarrow> loc \<Rightarrow> graph \<Rightarrow> graph" where
  "modelMergeNodes nodeIDs l g =
     (if length nodeIDs < 2 then g
      else
        (let survivor = last nodeIDs
         in mapEntities
              (\<lambda>x. if etype x = TypeWay
                      then x\<lparr>nodes := map (\<lambda>i. if i \<in> set nodeIDs then survivor else i) (nodes x)\<rparr>
                    else if eid x = survivor then x\<lparr>loc := l\<rparr>
                    else x)
              g))"


section \<open>An example map\<close>

text \<open>
  A small map on which the theorems are applied.  A residential road \<open>w1\<close> runs along
  the x axis.  A stream \<open>w2\<close>, a footway \<open>w3\<close>, a path \<open>w4\<close> and a building
  outline \<open>w5\<close> cross it; the path and the building cross it twice.  Away from them,
  the untagged ways \<open>w6\<close> and \<open>w7\<close> cross each other and are the members of the
  building multipolygon \<open>r1\<close>.  A side road \<open>w8\<close> ends at the last node of the
  road, a footbridge \<open>w9\<close> passes over the road, and a ditch \<open>w12\<close> and a track
  \<open>w13\<close> cross the stream.
\<close>

definition mkNode :: "string \<Rightarrow> loc \<Rightarrow> entity" where
  "mkNode i l =
     \<lparr>eid = i, etype = TypeNode, tags = Map.empty, nodes = [], members = [], loc = l, layer = ''0''\<rparr>"

definition mkWay :: "string \<Rightarrow> tags \<Rightarrow> string list \<Rightarrow> entity" where
  "mkWay i ts ns =
     \<lparr>eid = i, etype = TypeWay, tags = ts, nodes = ns, members = [], loc = (0, 0), layer = ''0''\<rparr>"

definition mkRelation :: "string \<Rightarrow> tags \<Rightarrow> string list \<Rightarrow> entity" where
  "mkRelation i ts ms =
     \<lparr>eid = i, etype = TypeRelation, tags = ts, nodes = [], members = ms, loc = (0, 0), layer = ''0''\<rparr>"

definition exampleRoad :: entity where
  "exampleRoad = mkWay ''w1'' [''highway'' \<mapsto> ''residential''] [''n1'', ''n2'']"

definition exampleStream :: entity where
  "exampleStream = mkWay ''w2'' [''waterway'' \<mapsto> ''stream''] [''n3'', ''n4'']"

definition exampleFootway :: entity where
  "exampleFootway = mkWay ''w3'' [''highway'' \<mapsto> ''footway''] [''n5'', ''n6'']"

definition examplePath :: entity where
  "examplePath = mkWay ''w4'' [''highway'' \<mapsto> ''path''] [''n7'', ''n8'', ''n9'', ''n10'']"

definition exampleBuilding :: entity where
  "exampleBuilding =
     mkWay ''w5'' [''building'' \<mapsto> ''yes''] [''n11'', ''n12'', ''n13'', ''n14'', ''n11'']"

definition exampleOuter1 :: entity where
  "exampleOuter1 = mkWay ''w6'' Map.empty [''n15'', ''n16'']"

definition exampleOuter2 :: entity where
  "exampleOuter2 = mkWay ''w7'' Map.empty [''n17'', ''n18'']"

definition exampleMultipolygon :: entity where
  "exampleMultipolygon =
     mkRelation ''r1'' [''type'' \<mapsto> ''multipolygon'', ''building'' \<mapsto> ''yes''] [''w6'', ''w7'']"

definition exampleSideRoad :: entity where
  "exampleSideRoad = mkWay ''w8'' [''highway'' \<mapsto> ''residential''] [''n19'', ''n2'']"

definition exampleFootbridge :: entity where
  "exampleFootbridge =
     mkWay ''w9'' [''highway'' \<mapsto> ''footway'', ''bridge'' \<mapsto> ''yes''] [''n20'', ''n21'']"

definition exampleDitch :: entity where
  "exampleDitch = mkWay ''w12'' [''waterway'' \<mapsto> ''ditch''] [''n26'', ''n27'']"

definition exampleTrack :: entity where
  "exampleTrack = mkWay ''w13'' [''highway'' \<mapsto> ''track''] [''n28'', ''n29'']"

definition exampleEntities :: "entity list" where
  "exampleEntities =
     [mkNode ''n1'' (0, 0), mkNode ''n2'' (4, 0),
      mkNode ''n3'' (1/2, -1/2), mkNode ''n4'' (1/2, 4),
      mkNode ''n5'' (2, -2), mkNode ''n6'' (2, 2),
      mkNode ''n7'' (1, -1), mkNode ''n8'' (1, 1), mkNode ''n9'' (3/2, 1), mkNode ''n10'' (3/2, -1),
      mkNode ''n11'' (3, -1), mkNode ''n12'' (3, 1), mkNode ''n13'' (7/2, 1), mkNode ''n14'' (7/2, -1),
      mkNode ''n15'' (10, 10), mkNode ''n16'' (12, 12),
      mkNode ''n17'' (10, 12), mkNode ''n18'' (12, 10),
      mkNode ''n19'' (4, 3), mkNode ''n20'' (5/2, -2), mkNode ''n21'' (5/2, 2),
      mkNode ''n26'' (0, 3), mkNode ''n27'' (1, 3),
      mkNode ''n28'' (0, 7/2), mkNode ''n29'' (1, 7/2),
      exampleRoad, exampleStream, exampleFootway, examplePath, exampleBuilding,
      exampleOuter1, exampleOuter2, exampleSideRoad, exampleFootbridge, exampleDitch,
      exampleTrack, exampleMultipolygon]"

definition lookupEntity :: "entity list \<Rightarrow> string \<Rightarrow> entity" where
  "lookupEntity es i =
     (case find (\<lambda>e. eid e = i) es of Some e \<Rightarrow> e | None \<Rightarrow> mkNode i (0, 0))"

definition exampleGraph :: graph where
  "exampleGraph =
     \<lparr>entity = lookupEntity exampleEntities,
      childNodes = (\<lambda>w. map (lookupEntity exampleEntities) (nodes w)),
      parentRelations = (\<lambda>w. if eid w = ''w6'' \<or> eid w = ''w7'' then [exampleMultipolygon] else [])\<rparr>"

text \<open>The intersection of two segments of the plane, where they properly meet.\<close>

definition vecCross :: "loc \<Rightarrow> loc \<Rightarrow> real" where
  "vecCross a b = fst a * snd b - snd a * fst b"

definition planarLineIntersection :: "segment \<Rightarrow> segment \<Rightarrow> loc option" where
  "planarLineIntersection a b =
     (let p = fst a; p2 = snd a; q = fst b; q2 = snd b;
          r = (fst p2 - fst p, snd p2 - snd p);
          s = (fst q2 - fst q, snd q2 - snd q);
          qp = (fst q - fst p, snd q - snd p);
          uNumerator = vecCross qp r;
          denominator = vecCross r s
      in
        if uNumerator \<noteq> 0 \<and> denominator \<noteq> 0 then
          (let u = uNumerator / denominator;
               v = vecCross qp s / denominator
           in if 0 \<le> v \<and> v \<le> 1 \<and> 0 \<le> u \<and> u \<le> 1
                then Some (fst p + v * fst r, snd p + v * snd r)
              else None)
        else None)"

text \<open>The closer of two nodes to a point, by the sum of the coordinate differences.\<close>

definition planarDistance :: "loc \<Rightarrow> loc \<Rightarrow> real" where
  "planarDistance a b = \<bar>fst a - fst b\<bar> + \<bar>snd a - snd b\<bar>"

fun planarClosestNode :: "entity list \<Rightarrow> loc \<Rightarrow> closestNodeInfo" where
  "planarClosestNode [n] l = \<lparr>closestNode = n, distance = planarDistance (loc n) l\<rparr>"
| "planarClosestNode (n # ns) l =
     (let best = planarClosestNode ns l
      in if planarDistance (loc n) l \<le> distance best
           then \<lparr>closestNode = n, distance = planarDistance (loc n) l\<rparr>
         else best)"
| "planarClosestNode [] l = \<lparr>closestNode = mkNode [] l, distance = 0\<rparr>"

text \<open>
  Two sorts of an array of two elements.  Both put the elements in ascending order when
  the comparison function answers consistently.  The first asks for the comparison of the
  second element with the first and exchanges the two on a negative answer; the second
  asks for the comparison of the first element with the second and exchanges the two on a
  positive answer.
\<close>

definition sortAskingSecondFirst ::
  "('a \<Rightarrow> 'a \<Rightarrow> int) \<Rightarrow> 'a \<times> 'a \<Rightarrow> 'a \<times> 'a" where
  "sortAskingSecondFirst comparefn p =
     (if comparefn (snd p) (fst p) < 0 then (snd p, fst p) else p)"


definition exampleCollaborators :: collaborators where
  "exampleCollaborators =
     \<lparr>geoLineIntersection = planarLineIntersection,
      geoSphericalClosestNode = planarClosestNode,
      utilDisplayLabel = eid,
      translate = (\<lambda>key dict. key),
      osmNode = (\<lambda>l ts. (mkNode ''n-1'' l)\<lparr>tags := ts\<rparr>),
      replace = modelReplace,
      actionAddMidpoint = modelAddMidpoint,
      actionMergeNodes = modelMergeNodes,
      arraySort = sortAskingSecondFirst\<rparr>"

text \<open>A spatial index over the ways of the example: the ways whose box meets the query box.\<close>

definition extentOfLocs :: "loc list \<Rightarrow> extent option" where
  "extentOfLocs ls =
     (case ls of
        [] \<Rightarrow> None
      | l # rest \<Rightarrow>
          Some (fold (\<lambda>m b. ((min (fst (fst b)) (fst m), min (snd (fst b)) (snd m)),
                              (max (fst (snd b)) (fst m), max (snd (snd b)) (snd m))))
                     rest (l, l)))"

definition extentsMeet :: "extent \<Rightarrow> extent \<Rightarrow> bool" where
  "extentsMeet a b \<longleftrightarrow>
     fst (fst a) \<le> fst (snd b) \<and> snd (fst a) \<le> snd (snd b) \<and>
     fst (fst b) \<le> fst (snd a) \<and> snd (fst b) \<le> snd (snd a)"

definition exampleWayIds :: "string list" where
  "exampleWayIds = [''w1'', ''w2'', ''w3'', ''w4'', ''w5'', ''w6'', ''w7'', ''w8'', ''w9'', ''w12'', ''w13'']"

definition exampleTree :: tree where
  "exampleTree ext g =
     filter (\<lambda>w. case extentOfLocs (map loc (childNodes g w)) of
                   None \<Rightarrow> False
                 | Some b \<Rightarrow> extentsMeet ext b)
            (map (entity g) exampleWayIds)"

definition exampleContext :: validationContext where
  "exampleContext = \<lparr>graph = exampleGraph, tree = exampleTree, hasEntity = (\<lambda>i. i \<in> set (map eid exampleEntities))\<rparr>"


text \<open>
  Two corridors that are not part of the map; the first has a level tag with the value
  "no".
\<close>

definition exampleCorridorLevelNo :: entity where
  "exampleCorridorLevelNo =
     mkWay ''w10'' [''highway'' \<mapsto> ''corridor'', ''level'' \<mapsto> ''no''] [''n22'', ''n23'']"

definition exampleCorridor :: entity where
  "exampleCorridor = mkWay ''w11'' [''highway'' \<mapsto> ''corridor''] [''n24'', ''n25'']"


text \<open>The crossings that the detection finds for the track and for the ditch.\<close>

definition exampleTrackCrossing :: edgeCrossInfo where
  "exampleTrackCrossing =
     \<lparr>ways = (exampleTrack, exampleStream), featureTypes = (Highway, Waterway),
      edges = ((''n28'', ''n29''), (''n3'', ''n4'')), crossPoint = (1/2, 7/2)\<rparr>"

definition exampleDitchCrossing :: edgeCrossInfo where
  "exampleDitchCrossing =
     \<lparr>ways = (exampleDitch, exampleStream), featureTypes = (Waterway, Waterway),
      edges = ((''n26'', ''n27''), (''n3'', ''n4'')), crossPoint = (1/2, 3)\<rparr>"


section \<open>Consecutive nodes of a way\<close>

text \<open>
  \<^verbatim>\<open>hasEdge e ns\<close>: the two node ids of the edge \<^verbatim>\<open>e\<close> are consecutive, in
  this order, in the node list \<^verbatim>\<open>ns\<close> of a way.
\<close>

fun hasEdge :: "edge \<Rightarrow> string list \<Rightarrow> bool" where
  "hasEdge e (x # y # rest) \<longleftrightarrow> (x = fst e \<and> y = snd e) \<or> hasEdge e (y # rest)"
| "hasEdge e xs \<longleftrightarrow> False"

section \<open>The example map after connecting the road and the footway\<close>

text \<open>
  The crossing of the road \<^verbatim>\<open>w1\<close> and the footway \<^verbatim>\<open>w3\<close> at (2, 0), and the
  graph that the connect-ways action of its fix makes of the example map.
\<close>

definition exampleFootwayCrossing :: edgeCrossInfo where
  "exampleFootwayCrossing =
     \<lparr>ways = (exampleRoad, exampleFootway), featureTypes = (Highway, Highway),
      edges = ((''n1'', ''n2''), (''n5'', ''n6'')), crossPoint = (2, 0)\<rparr>"

definition exampleConnectedGraph :: graph where
  "exampleConnectedGraph =
     actionConnectCrossingWays exampleCollaborators (2, 0) [''highway'' \<mapsto> ''crossing'']
       [(''n1'', ''n2''), (''n5'', ''n6'')] exampleGraph"

section \<open>Facts about the detection loops\<close>

lemma crossCoordsLoop_no_shared_node:
  "ci \<in> set (crossCoordsLoop c n1 n2 oneOnly nds) \<Longrightarrow>
     fst (edge ci) \<noteq> eid n1 \<and> fst (edge ci) \<noteq> eid n2 \<and>
     snd (edge ci) \<noteq> eid n1 \<and> snd (edge ci) \<noteq> eid n2"
  by (induction c n1 n2 oneOnly nds rule: crossCoordsLoop.induct)
     (auto split: if_splits option.splits)

lemma crossCoordsLoop_oneOnly_length:
  "length (crossCoordsLoop c n1 n2 True nds) \<le> 1"
  by (induction c n1 n2 "True" nds rule: crossCoordsLoop.induct)
     (auto split: if_splits option.splits)

lemma candidateCrossings_Some:
  assumes "candidateCrossings c primaryWay pft n1 n2 g checked w = Some (oneOnly, infos)"
  shows "etype w = TypeWay \<and> eid w \<notin> checked \<and> eid w \<noteq> eid primaryWay \<and>
     (\<exists>wft. getFeatureTypeForCrossingCheck w g = Some wft \<and>
        \<not> isLegitCrossing primaryWay pft w wft g \<and>
        \<not> isLegitCrossing w wft primaryWay pft g \<and>
        oneOnly = (pft = Building \<or> wft = Building) \<and>
        infos = map (\<lambda>ci. \<lparr>ways = (primaryWay, w), featureTypes = (pft, wft),
                            edges = ((eid n1, eid n2), edge ci), crossPoint = point ci\<rparr>)
                    (findEdgeToWayCrossCoords c n1 n2 w g oneOnly))"
  using assms
  by (auto simp: candidateCrossings_def Let_def split: if_splits option.splits)

lemma intersectedLoop_all:
  assumes "\<forall>cr \<in> set (fst st). Q cr"
    and "\<And>w checked oneOnly infos cr.
           candidateCrossings c primaryWay pft n1 n2 g checked w = Some (oneOnly, infos) \<Longrightarrow>
           cr \<in> set infos \<Longrightarrow> Q cr"
  shows "\<forall>cr \<in> set (fst (intersectedLoop c primaryWay pft n1 n2 g ws st)). Q cr"
  using assms(1)
proof (induction ws arbitrary: st)
  case Nil
  then show ?case by simp
next
  case (Cons w ws)
  obtain infos0 checked where st: "st = (infos0, checked)" by (cases st)
  show ?case
  proof (cases "candidateCrossings c primaryWay pft n1 n2 g checked w")
    case None
    then show ?thesis using Cons.IH[of "(infos0, checked)"] Cons.prems st by simp
  next
    case (Some r)
    obtain oneOnly infos where r: "r = (oneOnly, infos)" by (cases r)
    have "\<forall>cr \<in> set infos. Q cr"
      using assms(2) Some r by blast
    then have "\<forall>cr \<in> set (fst (infos0 @ infos,
        if oneOnly \<and> infos \<noteq> [] then insert (eid w) checked else checked)). Q cr"
      using Cons.prems st by auto
    from Cons.IH[OF this] show ?thesis using Some r st by simp
  qed
qed

lemma primaryEdgesLoop_all:
  assumes "\<forall>cr \<in> set (fst st). Q cr"
    and "\<And>n1 n2 w checked oneOnly infos cr.
           candidateCrossings c primaryWay pft n1 n2 g checked w = Some (oneOnly, infos) \<Longrightarrow>
           cr \<in> set infos \<Longrightarrow> Q cr"
  shows "\<forall>cr \<in> set (fst (primaryEdgesLoop c primaryWay pft g tr nids st)). Q cr"
  using assms(1)
proof (induction nids arbitrary: st)
  case Nil
  then show ?case by simp
next
  case (Cons nid1 rest)
  show ?case
  proof (cases rest)
    case Nil
    then show ?thesis using Cons.prems by simp
  next
    case (Cons nid2 rest')
    have "\<forall>cr \<in> set (fst (intersectedLoop c primaryWay pft (entity g nid1) (entity g nid2) g
             (tr (edgeExtent (entity g nid1) (entity g nid2)) g) st)). Q cr"
      by (rule intersectedLoop_all[OF Cons.prems]) (rule assms(2))
    from Cons.IH[OF this] show ?thesis using Cons by (simp add: Let_def)
  qed
qed

lemma findCrossingsByWay_all:
  assumes "\<And>pft n1 n2 w checked oneOnly infos cr.
           getFeatureTypeForCrossingCheck primaryWay g = Some pft \<Longrightarrow>
           etype primaryWay = TypeWay \<Longrightarrow>
           candidateCrossings c primaryWay pft n1 n2 g checked w = Some (oneOnly, infos) \<Longrightarrow>
           cr \<in> set infos \<Longrightarrow> Q cr"
  shows "\<forall>cr \<in> set (findCrossingsByWay c primaryWay g tr). Q cr"
proof (cases "etype primaryWay = TypeWay")
  case False
  then show ?thesis by (simp add: findCrossingsByWay_def)
next
  case True
  show ?thesis
  proof (cases "getFeatureTypeForCrossingCheck primaryWay g")
    case None
    then show ?thesis by (simp add: findCrossingsByWay_def)
  next
    case (Some pft)
    have "\<forall>cr \<in> set (fst (primaryEdgesLoop c primaryWay pft g tr (nodes primaryWay) ([], {}))). Q cr"
      by (rule primaryEdgesLoop_all) (use assms Some True in auto)
    then show ?thesis using Some True by (simp add: findCrossingsByWay_def)
  qed
qed


lemma candidateCrossings_member:
  assumes "candidateCrossings c primaryWay pft n1 n2 g checked w = Some (oneOnly, infos)"
    and "cr \<in> set infos"
  obtains wft ci where
    "getFeatureTypeForCrossingCheck w g = Some wft"
    "ci \<in> set (crossCoordsLoop c n1 n2 oneOnly (childNodes g w))"
    "cr = \<lparr>ways = (primaryWay, w), featureTypes = (pft, wft),
           edges = ((eid n1, eid n2), edge ci), crossPoint = point ci\<rparr>"
proof -
  from candidateCrossings_Some[OF assms(1)] obtain wft where
    t: "getFeatureTypeForCrossingCheck w g = Some wft"
    and infos: "infos = map (\<lambda>ci. \<lparr>ways = (primaryWay, w), featureTypes = (pft, wft),
                            edges = ((eid n1, eid n2), edge ci), crossPoint = point ci\<rparr>)
                    (findEdgeToWayCrossCoords c n1 n2 w g oneOnly)"
    by blast
  from assms(2) obtain ci where
    "ci \<in> set (findEdgeToWayCrossCoords c n1 n2 w g oneOnly)"
    "cr = \<lparr>ways = (primaryWay, w), featureTypes = (pft, wft),
           edges = ((eid n1, eid n2), edge ci), crossPoint = point ci\<rparr>"
    unfolding infos by auto
  then show thesis using that t by (simp add: findEdgeToWayCrossCoords_def)
qed


section \<open>Connection tags of a highway and a waterway\<close>

lemma highwaysDisallowingFords_values:
  "indexOfFound highwaysDisallowingFords v \<longleftrightarrow>
     v \<in> {Some ''motorway'', Some ''motorway_link'', Some ''trunk'', Some ''trunk_link'',
          Some ''primary'', Some ''primary_link'', Some ''secondary'', Some ''secondary_link''}"
  by (cases v) (simp_all add: indexOfFound_def highwaysDisallowingFords_def)

text \<open>
  Claim C4.  For a pair of a highway and a waterway, in either order,
  \<^verbatim>\<open>tagsForConnectionNodeIfAllowed\<close> returns \<^verbatim>\<open>{ford: yes}\<close>, unless both
  entities have a tunnel tag other than "no", or both have a bridge tag other than "no",
  or the highway value of either entity is one of motorway, motorway_link, trunk,
  trunk_link, primary, primary_link, secondary, secondary_link; in each of these cases it
  returns \<^verbatim>\<open>null\<close>.
\<close>

theorem ford_unless_structure_or_major_road:
  assumes "(getFeatureTypeForTags (tags e1) = Some Highway \<and>
            getFeatureTypeForTags (tags e2) = Some Waterway) \<or>
           (getFeatureTypeForTags (tags e1) = Some Waterway \<and>
            getFeatureTypeForTags (tags e2) = Some Highway)"
  shows "tagsForConnectionNodeIfAllowed e1 e2 =
     (if (hasTag (tags e1) ''tunnel'' \<and> hasTag (tags e2) ''tunnel'') \<or>
         (hasTag (tags e1) ''bridge'' \<and> hasTag (tags e2) ''bridge'') \<or>
         tags e1 ''highway'' \<in>
           {Some ''motorway'', Some ''motorway_link'', Some ''trunk'', Some ''trunk_link'',
            Some ''primary'', Some ''primary_link'', Some ''secondary'', Some ''secondary_link''} \<or>
         tags e2 ''highway'' \<in>
           {Some ''motorway'', Some ''motorway_link'', Some ''trunk'', Some ''trunk_link'',
            Some ''primary'', Some ''primary_link'', Some ''secondary'', Some ''secondary_link''}
      then None
      else Some [''ford'' \<mapsto> ''yes''])"
proof -
  have differ: "getFeatureTypeForTags (tags e1) \<noteq> getFeatureTypeForTags (tags e2)"
    using assms by auto
  have highway: "getFeatureTypeForTags (tags e1) = Some Highway \<or>
                 getFeatureTypeForTags (tags e2) = Some Highway"
    using assms by auto
  have waterway: "getFeatureTypeForTags (tags e1) = Some Waterway \<or>
                  getFeatureTypeForTags (tags e2) = Some Waterway"
    using assms by auto
  have no_railway: "\<not> (getFeatureTypeForTags (tags e1) = Some Railway \<or>
                        getFeatureTypeForTags (tags e2) = Some Railway)"
    using assms by auto
  show ?thesis
    unfolding tagsForConnectionNodeIfAllowed_def Let_def highwaysDisallowingFords_values
    by (simp only: differ highway waterway no_railway if_True if_False) simp
qed

lemmas classifier_defs =
  getFeatureTypeForTags_def hasTag_def indexOfFound_def
  waterways_def ignoredHighways_def ignoredRailways_def

lemmas example_entity_defs =
  mkWay_def mkNode_def mkRelation_def exampleRoad_def exampleStream_def exampleFootway_def
  examplePath_def exampleBuilding_def exampleOuter1_def exampleOuter2_def
  exampleMultipolygon_def exampleSideRoad_def exampleFootbridge_def exampleDitch_def
  exampleTrack_def
  exampleCorridorLevelNo_def exampleCorridor_def

lemmas example_world_defs =
  exampleGraph_def exampleTree_def exampleCollaborators_def exampleContext_def lookupEntity_def
  exampleEntities_def edgeExtent_def extentOfLocs_def extentsMeet_def exampleWayIds_def
  planarLineIntersection_def vecCross_def

theorem ford_unless_structure_or_major_road_witness:
  "getFeatureTypeForTags (tags exampleRoad) = Some Highway \<and>
   getFeatureTypeForTags (tags exampleStream) = Some Waterway \<and>
   tagsForConnectionNodeIfAllowed exampleRoad exampleStream = Some [''ford'' \<mapsto> ''yes'']"
proof -
  have types: "getFeatureTypeForTags (tags exampleRoad) = Some Highway \<and>
               getFeatureTypeForTags (tags exampleStream) = Some Waterway"
    by (simp add: classifier_defs example_entity_defs)
  then have "(getFeatureTypeForTags (tags exampleRoad) = Some Highway \<and>
              getFeatureTypeForTags (tags exampleStream) = Some Waterway) \<or>
             (getFeatureTypeForTags (tags exampleRoad) = Some Waterway \<and>
              getFeatureTypeForTags (tags exampleStream) = Some Highway)"
    by simp
  from ford_unless_structure_or_major_road[OF this] types show ?thesis
    by (simp add: hasTag_def example_entity_defs)
qed


section \<open>Tags with the value "no"\<close>

lemmas legit_defs = isLegitCrossing_def getFeatureWithFeatureTypeTagsForWay_def
  extendTagsByInferredLayer_def tagsImplyIndoors_def allowsBridge_def allowsTunnel_def
  allowsStructures_def canCover_def

lemma extend_hasTag_other:
  "key \<noteq> ''layer'' \<Longrightarrow> hasTag (extendTagsByInferredLayer ts w) key = hasTag ts key"
  by (simp add: extendTagsByInferredLayer_def hasTag_def)

lemma extend_other:
  "key \<noteq> ''layer'' \<Longrightarrow> extendTagsByInferredLayer ts w key = ts key"
  by (simp add: extendTagsByInferredLayer_def)

lemma extend_no_as_absent:
  assumes "key \<in> {''bridge'', ''tunnel'', ''covered'', ''layer''}"
    and "ts key = Some ''no''" and "layer w' = layer w"
  shows "hasTag (extendTagsByInferredLayer (ts(key := None)) w') k =
           hasTag (extendTagsByInferredLayer ts w) k"
    and "k \<in> {''level'', ''layer'', ''highway''} \<Longrightarrow>
           extendTagsByInferredLayer (ts(key := None)) w' k = extendTagsByInferredLayer ts w k"
proof -
  have same: "extendTagsByInferredLayer (ts(key := None)) w' =
      (if key = ''layer'' then extendTagsByInferredLayer ts w
       else (extendTagsByInferredLayer ts w)(key := None))"
    using assms(2,3) by (auto simp: extendTagsByInferredLayer_def hasTag_def)
  have no: "key \<noteq> ''layer'' \<Longrightarrow> extendTagsByInferredLayer ts w key = Some ''no''"
    using assms(2) by (simp add: extendTagsByInferredLayer_def)
  show "hasTag (extendTagsByInferredLayer (ts(key := None)) w') k =
           hasTag (extendTagsByInferredLayer ts w) k"
    using no by (simp add: same hasTag_def)
  show "extendTagsByInferredLayer (ts(key := None)) w' k = extendTagsByInferredLayer ts w k"
    if "k \<in> {''level'', ''layer'', ''highway''}"
  proof (cases "key = ''layer''")
    case True
    then show ?thesis using same by simp
  next
    case False
    then have "key \<in> {''bridge'', ''tunnel'', ''covered''}" using assms(1) by simp
    then have "k \<noteq> key" using that by auto
    then show ?thesis using False by (simp add: same)
  qed
qed

text \<open>
  Claim C10, as stated: throughout the legitimacy rules a tag whose value is "no" is
  treated as absent, so that a bridge, tunnel, covered or level tag with the value "no"
  never makes a crossing legitimate, exactly as if the tag were missing.  This fails for
  the level tag: two corridors, one of them with \<^verbatim>\<open>level=no\<close> and the other
  without a level, are indoors on different levels for
  \<^verbatim>\<open>tags1.level !== tags2.level\<close>, and their crossing is legitimate; without
  the tag it is not.
\<close>

theorem level_no_counterexample:
  "isLegitCrossing exampleCorridorLevelNo Highway exampleCorridor Highway exampleGraph \<and>
   \<not> isLegitCrossing (exampleCorridorLevelNo\<lparr>tags := (tags exampleCorridorLevelNo)(''level'' := None)\<rparr>)
        Highway exampleCorridor Highway exampleGraph"
  by (simp add: legit_defs classifier_defs example_entity_defs Let_def)

lemma indoors_extend:
  "tagsImplyIndoors (extendTagsByInferredLayer ts w) = tagsImplyIndoors ts"
  by (simp add: tagsImplyIndoors_def extend_hasTag_other extend_other)

lemma indoors_on_different_levels:
  assumes "tagsImplyIndoors (tags (getFeatureWithFeatureTypeTagsForWay way1 g))"
    and "tagsImplyIndoors (tags (getFeatureWithFeatureTypeTagsForWay way2 g))"
    and "tags (getFeatureWithFeatureTypeTagsForWay way1 g) ''level'' \<noteq>
         tags (getFeatureWithFeatureTypeTagsForWay way2 g) ''level''"
  shows "isLegitCrossing way1 ft1 way2 ft2 g"
  using assms by (simp add: isLegitCrossing_def Let_def indoors_extend extend_other)

text \<open>
  Claim C10, amended.
  \<^item> A bridge, tunnel, covered or layer tag whose value is "no" is treated as absent:
    when the feature of a way (the way or its parent relation) has such a tag, the
    legitimacy of a crossing with any other way is the same, in both argument orders, as
    for a way whose feature has the same tags without it, provided that
    \<^verbatim>\<open>way.layer()\<close> gives the same layer for the two ways.  (The method is not
    part of the source file; the layer it gives is a field of the way in this model.)
  \<^item> A level tag with the value "no" does not make a feature indoors: the indoor test
    is the same with the tag and without it.
  \<^item> The two level values are compared as they are: when both features are indoors,
    one with \<^verbatim>\<open>level=no\<close> and the other with no level tag or with another
    level value, the crossing is legitimate in both argument orders.
\<close>

theorem no_value_as_absent:
  "(key \<in> {''bridge'', ''tunnel'', ''covered'', ''layer''} \<and>
    tags (getFeatureWithFeatureTypeTagsForWay way1 g) key = Some ''no'' \<and>
    tags (getFeatureWithFeatureTypeTagsForWay way1' g) =
      (tags (getFeatureWithFeatureTypeTagsForWay way1 g))(key := None) \<and>
    layer way1' = layer way1 \<longrightarrow>
      isLegitCrossing way1' ft1 way2 ft2 g = isLegitCrossing way1 ft1 way2 ft2 g \<and>
      isLegitCrossing way2 ft2 way1' ft1 g = isLegitCrossing way2 ft2 way1 ft1 g) \<and>
   tagsImplyIndoors (ts(''level'' \<mapsto> ''no'')) = tagsImplyIndoors (ts(''level'' := None)) \<and>
   (tagsImplyIndoors (tags (getFeatureWithFeatureTypeTagsForWay way3 g)) \<and>
    tagsImplyIndoors (tags (getFeatureWithFeatureTypeTagsForWay way4 g)) \<and>
    tags (getFeatureWithFeatureTypeTagsForWay way3 g) ''level'' = Some ''no'' \<and>
    tags (getFeatureWithFeatureTypeTagsForWay way4 g) ''level'' \<noteq> Some ''no'' \<longrightarrow>
      isLegitCrossing way3 ft3 way4 ft4 g \<and> isLegitCrossing way4 ft4 way3 ft3 g)"
proof (intro conjI impI)
  assume h: "key \<in> {''bridge'', ''tunnel'', ''covered'', ''layer''} \<and>
    tags (getFeatureWithFeatureTypeTagsForWay way1 g) key = Some ''no'' \<and>
    tags (getFeatureWithFeatureTypeTagsForWay way1' g) =
      (tags (getFeatureWithFeatureTypeTagsForWay way1 g))(key := None) \<and>
    layer way1' = layer way1"
  then have k: "key \<in> {''bridge'', ''tunnel'', ''covered'', ''layer''}"
    and no: "tags (getFeatureWithFeatureTypeTagsForWay way1 g) key = Some ''no''"
    and without: "tags (getFeatureWithFeatureTypeTagsForWay way1' g) =
      (tags (getFeatureWithFeatureTypeTagsForWay way1 g))(key := None)"
    and l: "layer way1' = layer way1"
    by simp_all
  note obs = extend_no_as_absent[of key "tags (getFeatureWithFeatureTypeTagsForWay way1 g)"
      way1' way1, OF k no l]
  show "isLegitCrossing way1' ft1 way2 ft2 g = isLegitCrossing way1 ft1 way2 ft2 g"
    unfolding isLegitCrossing_def Let_def tagsImplyIndoors_def without
    by (simp only: obs insertI1 insertI2)
  show "isLegitCrossing way2 ft2 way1' ft1 g = isLegitCrossing way2 ft2 way1 ft1 g"
    unfolding isLegitCrossing_def Let_def tagsImplyIndoors_def without
    by (simp only: obs insertI1 insertI2)
next
  show "tagsImplyIndoors (ts(''level'' \<mapsto> ''no'')) = tagsImplyIndoors (ts(''level'' := None))"
    by (simp add: tagsImplyIndoors_def hasTag_def)
next
  assume h: "tagsImplyIndoors (tags (getFeatureWithFeatureTypeTagsForWay way3 g)) \<and>
    tagsImplyIndoors (tags (getFeatureWithFeatureTypeTagsForWay way4 g)) \<and>
    tags (getFeatureWithFeatureTypeTagsForWay way3 g) ''level'' = Some ''no'' \<and>
    tags (getFeatureWithFeatureTypeTagsForWay way4 g) ''level'' \<noteq> Some ''no''"
  then have i3: "tagsImplyIndoors (tags (getFeatureWithFeatureTypeTagsForWay way3 g))"
    and i4: "tagsImplyIndoors (tags (getFeatureWithFeatureTypeTagsForWay way4 g))"
    and d: "tags (getFeatureWithFeatureTypeTagsForWay way3 g) ''level'' \<noteq>
            tags (getFeatureWithFeatureTypeTagsForWay way4 g) ''level''"
    by auto
  show "isLegitCrossing way3 ft3 way4 ft4 g"
    using i3 i4 d by (rule indoors_on_different_levels)
  show "isLegitCrossing way4 ft4 way3 ft3 g"
    using i4 i3 d[symmetric] by (rule indoors_on_different_levels)
qed

theorem no_value_as_absent_witness:
  "''bridge'' \<in> {''bridge'', ''tunnel'', ''covered'', ''layer''} \<and>
   tags (getFeatureWithFeatureTypeTagsForWay
           (exampleRoad\<lparr>tags := (tags exampleRoad)(''bridge'' \<mapsto> ''no'')\<rparr>) exampleGraph) ''bridge'' = Some ''no'' \<and>
   tags (getFeatureWithFeatureTypeTagsForWay exampleRoad exampleGraph) =
     (tags (getFeatureWithFeatureTypeTagsForWay
              (exampleRoad\<lparr>tags := (tags exampleRoad)(''bridge'' \<mapsto> ''no'')\<rparr>) exampleGraph))(''bridge'' := None) \<and>
   layer exampleRoad = layer (exampleRoad\<lparr>tags := (tags exampleRoad)(''bridge'' \<mapsto> ''no'')\<rparr>) \<and>
   isLegitCrossing exampleRoad Highway exampleStream Waterway exampleGraph =
     isLegitCrossing (exampleRoad\<lparr>tags := (tags exampleRoad)(''bridge'' \<mapsto> ''no'')\<rparr>)
       Highway exampleStream Waterway exampleGraph \<and>
   isLegitCrossing exampleStream Waterway exampleRoad Highway exampleGraph =
     isLegitCrossing exampleStream Waterway
       (exampleRoad\<lparr>tags := (tags exampleRoad)(''bridge'' \<mapsto> ''no'')\<rparr>) Highway exampleGraph \<and>
   tagsImplyIndoors (tags (getFeatureWithFeatureTypeTagsForWay exampleCorridorLevelNo exampleGraph)) \<and>
   tagsImplyIndoors (tags (getFeatureWithFeatureTypeTagsForWay exampleCorridor exampleGraph)) \<and>
   tags (getFeatureWithFeatureTypeTagsForWay exampleCorridorLevelNo exampleGraph) ''level'' =
     Some ''no'' \<and>
   tags (getFeatureWithFeatureTypeTagsForWay exampleCorridor exampleGraph) ''level'' \<noteq>
     Some ''no'' \<and>
   isLegitCrossing exampleCorridorLevelNo Highway exampleCorridor Highway exampleGraph \<and>
   isLegitCrossing exampleCorridor Highway exampleCorridorLevelNo Highway exampleGraph"
proof -
  let ?w = "exampleRoad\<lparr>tags := (tags exampleRoad)(''bridge'' \<mapsto> ''no'')\<rparr>"
  have k: "''bridge'' \<in> {''bridge'', ''tunnel'', ''covered'', ''layer''}" by simp
  have a: "tags (getFeatureWithFeatureTypeTagsForWay ?w exampleGraph) ''bridge'' = Some ''no''"
    by (simp add: getFeatureWithFeatureTypeTagsForWay_def classifier_defs example_entity_defs)
  have b: "tags (getFeatureWithFeatureTypeTagsForWay exampleRoad exampleGraph) =
     (tags (getFeatureWithFeatureTypeTagsForWay ?w exampleGraph))(''bridge'' := None)"
    by (simp add: getFeatureWithFeatureTypeTagsForWay_def classifier_defs example_entity_defs)
  have l: "layer exampleRoad = layer ?w" by simp
  have i3: "tagsImplyIndoors (tags (getFeatureWithFeatureTypeTagsForWay exampleCorridorLevelNo exampleGraph))"
    and i4: "tagsImplyIndoors (tags (getFeatureWithFeatureTypeTagsForWay exampleCorridor exampleGraph))"
    and l3: "tags (getFeatureWithFeatureTypeTagsForWay exampleCorridorLevelNo exampleGraph) ''level'' =
      Some ''no''"
    and l4: "tags (getFeatureWithFeatureTypeTagsForWay exampleCorridor exampleGraph) ''level'' \<noteq>
      Some ''no''"
    by (simp_all add: getFeatureWithFeatureTypeTagsForWay_def tagsImplyIndoors_def classifier_defs
        example_entity_defs)
  note th = no_value_as_absent[of "''bridge''" ?w exampleGraph exampleRoad Highway exampleStream
      Waterway Map.empty exampleCorridorLevelNo exampleCorridor Highway Highway]
  from th k a b l have first:
    "isLegitCrossing exampleRoad Highway exampleStream Waterway exampleGraph =
       isLegitCrossing ?w Highway exampleStream Waterway exampleGraph"
    "isLegitCrossing exampleStream Waterway exampleRoad Highway exampleGraph =
       isLegitCrossing exampleStream Waterway ?w Highway exampleGraph"
    by blast+
  from th i3 i4 l3 l4 have second:
    "isLegitCrossing exampleCorridorLevelNo Highway exampleCorridor Highway exampleGraph"
    "isLegitCrossing exampleCorridor Highway exampleCorridorLevelNo Highway exampleGraph"
    by blast+
  from k a b l first second i3 i4 l3 l4 show ?thesis by blast
qed


section \<open>The legitimacy gate of the detection\<close>

lemma bridge_on_one_side_is_legit:
  assumes "allowsBridge ft1" "allowsBridge ft2"
    and "hasTag (tags (getFeatureWithFeatureTypeTagsForWay way1 g)) ''bridge'' \<noteq>
         hasTag (tags (getFeatureWithFeatureTypeTagsForWay way2 g)) ''bridge''"
  shows "isLegitCrossing way1 ft1 way2 ft2 g"
  using assms
  unfolding isLegitCrossing_def Let_def
  by (auto simp: extend_hasTag_other)

text \<open>
  Claim C1.  Let the primary way and the candidate both have a feature type.  A candidate
  that reaches the legitimacy check (a way, not yet marked, other than the primary way)
  is skipped if and only if \<^verbatim>\<open>isLegitCrossing\<close> is true in at least one of
  the two argument orders; and when it is true in one of the orders, the detection on the
  primary way produces no crossing with this candidate.  In particular, when both
  feature types allow bridges and exactly one of the two features has a bridge tag
  other than "no", the check is true in both orders and no crossing of the pair is
  produced, whichever of the two ways is the primary way.
\<close>

theorem suppressed_iff_legit_in_an_order:
  assumes "getFeatureTypeForCrossingCheck primaryWay g = Some pft"
    and "getFeatureTypeForCrossingCheck w g = Some wft"
  shows "(etype w = TypeWay \<and> eid w \<notin> checked \<and> eid w \<noteq> eid primaryWay \<longrightarrow>
            (candidateCrossings c primaryWay pft n1 n2 g checked w = None \<longleftrightarrow>
               isLegitCrossing primaryWay pft w wft g \<or> isLegitCrossing w wft primaryWay pft g)) \<and>
         (isLegitCrossing primaryWay pft w wft g \<or> isLegitCrossing w wft primaryWay pft g \<longrightarrow>
            (\<forall>cr \<in> set (findCrossingsByWay c primaryWay g tr). snd (ways cr) \<noteq> w)) \<and>
         (allowsBridge pft \<and> allowsBridge wft \<and>
          hasTag (tags (getFeatureWithFeatureTypeTagsForWay primaryWay g)) ''bridge'' \<noteq>
          hasTag (tags (getFeatureWithFeatureTypeTagsForWay w g)) ''bridge'' \<longrightarrow>
            isLegitCrossing primaryWay pft w wft g \<and> isLegitCrossing w wft primaryWay pft g \<and>
            (\<forall>cr \<in> set (findCrossingsByWay c primaryWay g tr). snd (ways cr) \<noteq> w) \<and>
            (\<forall>cr \<in> set (findCrossingsByWay c w g tr). snd (ways cr) \<noteq> primaryWay))"
proof -
  have gate: "candidateCrossings c primaryWay pft n1 n2 g checked w = None \<longleftrightarrow>
      isLegitCrossing primaryWay pft w wft g \<or> isLegitCrossing w wft primaryWay pft g"
    if "etype w = TypeWay" "eid w \<notin> checked" "eid w \<noteq> eid primaryWay"
    using that assms(2) by (simp add: candidateCrossings_def Let_def)
  have none: "\<forall>cr \<in> set (findCrossingsByWay c a g tr). snd (ways cr) \<noteq> b"
    if types: "getFeatureTypeForCrossingCheck a g = Some fa" "getFeatureTypeForCrossingCheck b g = Some fb"
      and legit: "isLegitCrossing a fa b fb g \<or> isLegitCrossing b fb a fa g"
    for a b fa fb
  proof (rule findCrossingsByWay_all)
    fix pft' m1 m2 w' chk oneOnly infos cr
    assume "getFeatureTypeForCrossingCheck a g = Some pft'"
      and some: "candidateCrossings c a pft' m1 m2 g chk w' = Some (oneOnly, infos)"
      and cr: "cr \<in> set infos"
    then have fa: "pft' = fa" using types by simp
    from candidateCrossings_Some[OF some] obtain wft' where
      w': "getFeatureTypeForCrossingCheck w' g = Some wft'"
        "\<not> isLegitCrossing a pft' w' wft' g" "\<not> isLegitCrossing w' wft' a pft' g"
      and infos: "infos = map (\<lambda>ci. \<lparr>ways = (a, w'), featureTypes = (pft', wft'),
                            edges = ((eid m1, eid m2), edge ci), crossPoint = point ci\<rparr>)
                    (findEdgeToWayCrossCoords c m1 m2 w' g oneOnly)"
      by blast
    from cr infos have "snd (ways cr) = w'" by auto
    then show "snd (ways cr) \<noteq> b" using w' fa types legit by auto
  qed
  have bridge: "isLegitCrossing primaryWay pft w wft g \<and> isLegitCrossing w wft primaryWay pft g"
    if "allowsBridge pft" "allowsBridge wft"
      "hasTag (tags (getFeatureWithFeatureTypeTagsForWay primaryWay g)) ''bridge'' \<noteq>
       hasTag (tags (getFeatureWithFeatureTypeTagsForWay w g)) ''bridge''"
    using that bridge_on_one_side_is_legit[of pft wft primaryWay g w]
      bridge_on_one_side_is_legit[of wft pft w g primaryWay] by auto
  show ?thesis
    using gate none[OF assms(1,2)] none[OF assms(2,1)] bridge by blast
qed

theorem suppressed_iff_legit_in_an_order_witness:
  "getFeatureTypeForCrossingCheck exampleRoad exampleGraph = Some Highway \<and>
   getFeatureTypeForCrossingCheck exampleFootbridge exampleGraph = Some Highway \<and>
   etype exampleFootbridge = TypeWay \<and> eid exampleFootbridge \<notin> {} \<and>
   eid exampleFootbridge \<noteq> eid exampleRoad \<and>
   allowsBridge Highway \<and>
   \<not> hasTag (tags (getFeatureWithFeatureTypeTagsForWay exampleRoad exampleGraph)) ''bridge'' \<and>
   hasTag (tags (getFeatureWithFeatureTypeTagsForWay exampleFootbridge exampleGraph)) ''bridge'' \<and>
   isLegitCrossing exampleRoad Highway exampleFootbridge Highway exampleGraph \<and>
   isLegitCrossing exampleFootbridge Highway exampleRoad Highway exampleGraph \<and>
   candidateCrossings exampleCollaborators exampleRoad Highway
     (entity exampleGraph ''n1'') (entity exampleGraph ''n2'') exampleGraph {} exampleFootbridge = None \<and>
   exampleFootbridge \<notin> set (map (\<lambda>cr. snd (ways cr))
      (findCrossingsByWay exampleCollaborators exampleRoad exampleGraph exampleTree)) \<and>
   exampleRoad \<notin> set (map (\<lambda>cr. snd (ways cr))
      (findCrossingsByWay exampleCollaborators exampleFootbridge exampleGraph exampleTree))"
proof -
  have t1: "getFeatureTypeForCrossingCheck exampleRoad exampleGraph = Some Highway"
    and t2: "getFeatureTypeForCrossingCheck exampleFootbridge exampleGraph = Some Highway"
    by (simp_all add: getFeatureTypeForCrossingCheck_def getFeatureWithFeatureTypeTagsForWay_def
        classifier_defs example_entity_defs)
  have w: "etype exampleFootbridge = TypeWay" "eid exampleFootbridge \<notin> {}"
    "eid exampleFootbridge \<noteq> eid exampleRoad"
    by (simp_all add: example_entity_defs)
  have b: "allowsBridge Highway"
    "\<not> hasTag (tags (getFeatureWithFeatureTypeTagsForWay exampleRoad exampleGraph)) ''bridge''"
    "hasTag (tags (getFeatureWithFeatureTypeTagsForWay exampleFootbridge exampleGraph)) ''bridge''"
    by (simp_all add: allowsBridge_def getFeatureWithFeatureTypeTagsForWay_def
        classifier_defs example_entity_defs)
  from suppressed_iff_legit_in_an_order[OF t1 t2, of "{}" exampleCollaborators
      "entity exampleGraph ''n1''" "entity exampleGraph ''n2''" exampleTree] t1 t2 w b
  show ?thesis by auto
qed


section \<open>Nodes shared by the two edges\<close>

text \<open>
  Claim C2.  For every primary edge \<open>(n1, n2)\<close> and every candidate way, no edge that
  \<^verbatim>\<open>findEdgeToWayCrossCoords\<close> reports has a node id in common with
  \<open>{n1, n2}\<close>; hence in every crossing that \<^verbatim>\<open>findCrossingsByWay\<close> reports
  the two edges have no node in common: edges that meet at a shared node give no crossing.
\<close>

theorem shared_endpoint_never_reported:
  "(\<forall>ci \<in> set (findEdgeToWayCrossCoords c n1 n2 w g oneOnly).
      {fst (edge ci), snd (edge ci)} \<inter> {eid n1, eid n2} = {}) \<and>
   (\<forall>cr \<in> set (findCrossingsByWay c primaryWay g tr).
      {fst (snd (edges cr)), snd (snd (edges cr))} \<inter>
      {fst (fst (edges cr)), snd (fst (edges cr))} = {})"
proof
  show "\<forall>ci \<in> set (findEdgeToWayCrossCoords c n1 n2 w g oneOnly).
      {fst (edge ci), snd (edge ci)} \<inter> {eid n1, eid n2} = {}"
    using crossCoordsLoop_no_shared_node[of _ c n1 n2 oneOnly "childNodes g w"]
    by (auto simp: findEdgeToWayCrossCoords_def)
  show "\<forall>cr \<in> set (findCrossingsByWay c primaryWay g tr).
      {fst (snd (edges cr)), snd (snd (edges cr))} \<inter>
      {fst (fst (edges cr)), snd (fst (edges cr))} = {}"
  proof (rule findCrossingsByWay_all)
    fix pft m1 m2 w' chk oneOnly' infos cr
    assume some: "candidateCrossings c primaryWay pft m1 m2 g chk w' = Some (oneOnly', infos)"
      and cr: "cr \<in> set infos"
    from candidateCrossings_member[OF some cr] obtain wft ci where
      ci: "ci \<in> set (crossCoordsLoop c m1 m2 oneOnly' (childNodes g w'))"
        and e: "cr = \<lparr>ways = (primaryWay, w'), featureTypes = (pft, wft),
           edges = ((eid m1, eid m2), edge ci), crossPoint = point ci\<rparr>"
      by blast
    from crossCoordsLoop_no_shared_node[OF ci] e
    show "{fst (snd (edges cr)), snd (snd (edges cr))} \<inter>
      {fst (fst (edges cr)), snd (fst (edges cr))} = {}" by auto
  qed
qed

theorem shared_endpoint_never_reported_witness:
  "findEdgeToWayCrossCoords exampleCollaborators (entity exampleGraph ''n1'') (entity exampleGraph ''n2'')
     exampleStream exampleGraph False = [\<lparr>edge = (''n3'', ''n4''), point = (1/2, 0)\<rparr>] \<and>
   {''n3'', ''n4''} \<inter> {''n1'', ''n2''} = {} \<and>
   planarLineIntersection ((0, 0), (4, 0)) ((4, 3), (4, 0)) = Some (4, 0) \<and>
   findEdgeToWayCrossCoords exampleCollaborators (entity exampleGraph ''n1'') (entity exampleGraph ''n2'')
     exampleSideRoad exampleGraph False = []"
proof -
  let ?n1 = "entity exampleGraph ''n1''" and ?n2 = "entity exampleGraph ''n2''"
  have found: "findEdgeToWayCrossCoords exampleCollaborators ?n1 ?n2
     exampleStream exampleGraph False = [\<lparr>edge = (''n3'', ''n4''), point = (1/2, 0)\<rparr>]"
    by code_simp
  have ids: "eid ?n1 = ''n1''" "eid ?n2 = ''n2''" by code_simp+
  have touch: "planarLineIntersection ((0, 0), (4, 0)) ((4, 3), (4, 0)) = Some (4, 0)"
    by code_simp
  have skipped: "findEdgeToWayCrossCoords exampleCollaborators ?n1 ?n2
     exampleSideRoad exampleGraph False = []"
    by code_simp
  from shared_endpoint_never_reported[of exampleCollaborators ?n1 ?n2 exampleStream exampleGraph False]
  have "{''n3'', ''n4''} \<inter> {''n1'', ''n2''} = {}"
    unfolding found ids by simp
  with found touch skipped show ?thesis by blast
qed


section \<open>The validation on the example map\<close>

lemmas detection_defs = findCrossingsByWay_def getFeatureTypeForCrossingCheck_def
  candidateCrossings_def findEdgeToWayCrossCoords_def

lemma foldl_append_concat:
  "foldl (\<lambda>array w. array @ f w) acc ws = acc @ concat (map f ws)"
  by (induction ws arbitrary: acc) simp_all

lemma validationCrossings_concat:
  "validationCrossings c ent ctx =
     concat (map (\<lambda>w. findCrossingsByWay c w (graph ctx) (tree ctx)) (waysToCheck ent ctx))"
  by (simp add: validationCrossings_def foldl_append_concat)

lemma example_ditch_crossings:
  "findCrossingsByWay exampleCollaborators exampleDitch exampleGraph exampleTree =
     [exampleDitchCrossing]"
  by (simp add: detection_defs legit_defs classifier_defs example_entity_defs example_world_defs
      exampleDitchCrossing_def exampleTrackCrossing_def Let_def)


lemma example_feature_types:
  "getFeatureTypeForCrossingCheck exampleTrack exampleGraph = Some Highway"
  "getFeatureTypeForCrossingCheck exampleStream exampleGraph = Some Waterway"
  "getFeatureTypeForCrossingCheck exampleDitch exampleGraph = Some Waterway"
  "getFeatureTypeForCrossingCheck exampleOuter1 exampleGraph = Some Building"
  "getFeatureTypeForCrossingCheck exampleOuter2 exampleGraph = Some Building"
  by (simp_all add: getFeatureTypeForCrossingCheck_def getFeatureWithFeatureTypeTagsForWay_def
      classifier_defs example_entity_defs exampleGraph_def)

lemma example_ways_to_check:
  "waysToCheck exampleDitch exampleContext = [exampleDitch]"
  "waysToCheck exampleTrack exampleContext = [exampleTrack]"
  by (simp_all add: waysToCheck_def classifier_defs example_entity_defs)

lemma example_context_fields:
  "graph exampleContext = exampleGraph" "tree exampleContext = exampleTree"
  by (simp_all add: exampleContext_def)

lemma toNumber_not_negative: "\<not> toNumber b < 0"
  by (simp add: toNumber_def)

lemma example_sort_keeps:
  "arraySort exampleCollaborators (\<lambda>entity1 entity2. toNumber (f entity1 entity2)) p = p"
  by (simp add: exampleCollaborators_def sortAskingSecondFirst_def toNumber_not_negative)

lemma example_ditch_validation:
  "validation exampleCollaborators exampleDitch exampleContext =
     [createIssue exampleCollaborators exampleDitchCrossing exampleContext]"
  by (simp add: validation_def validationCrossings_concat example_ways_to_check
      example_context_fields example_ditch_crossings)



section \<open>The connective fix\<close>

lemma same_category_no_tags:
  assumes "getFeatureTypeForTags (tags e1) = getFeatureTypeForTags (tags e2)"
    and "getFeatureTypeForTags (tags e1) = Some Waterway \<or> getFeatureTypeForTags (tags e1) = Some Railway"
  shows "tagsForConnectionNodeIfAllowed e1 e2 = Some Map.empty"
  using assms by (auto simp: tagsForConnectionNodeIfAllowed_def Let_def)

text \<open>
  Claim C6, as stated: a "connect features" fix appears in the fix list of an issue only
  when a non-empty connection tag set exists for the pair, and in particular no connective
  fix is offered for two waterways or for two railways; every issue contains the
  "reposition features" fix.  The first part fails: for two waterways
  \<^verbatim>\<open>tagsForConnectionNodeIfAllowed\<close> returns the empty object
  \<^verbatim>\<open>{}\<close>, which is not \<^verbatim>\<open>null\<close>, and the issue of the ditch that
  crosses the stream has the connective fix.
\<close>

theorem connect_fix_for_waterways_counterexample:
  "getFeatureTypeForTags (tags exampleDitch) = Some Waterway \<and>
   getFeatureTypeForTags (tags exampleStream) = Some Waterway \<and>
   tagsForConnectionNodeIfAllowed exampleDitch exampleStream = Some Map.empty \<and>
   map (\<lambda>i. (eid (fst (entities i)), eid (snd (entities i))))
       (validation exampleCollaborators exampleDitch exampleContext) = [(''w12'', ''w2'')] \<and>
   map (\<lambda>i. map (\<lambda>f. (title f, \<not> Option.is_none (onClick f))) (issueFixes i))
       (validation exampleCollaborators exampleDitch exampleContext) =
     [[(''issues.fix.connect_features.title'', True),
       (''issues.fix.use_tunnel.title'', False),
       (''issues.fix.reposition_features.title'', False)]]"
proof -
  have t: "getFeatureTypeForTags (tags exampleDitch) = Some Waterway"
    "getFeatureTypeForTags (tags exampleStream) = Some Waterway"
    by (simp_all add: classifier_defs example_entity_defs)
  have e: "tagsForConnectionNodeIfAllowed exampleDitch exampleStream = Some Map.empty"
    using t by (simp add: tagsForConnectionNodeIfAllowed_def)
  have v1: "map (\<lambda>i. (eid (fst (entities i)), eid (snd (entities i))))
       (validation exampleCollaborators exampleDitch exampleContext) = [(''w12'', ''w2'')]"
    unfolding example_ditch_validation by code_simp
  have v2: "map (\<lambda>i. map (\<lambda>f. (title f, \<not> Option.is_none (onClick f))) (issueFixes i))
       (validation exampleCollaborators exampleDitch exampleContext) =
     [[(''issues.fix.connect_features.title'', True),
       (''issues.fix.use_tunnel.title'', False),
       (''issues.fix.reposition_features.title'', False)]]"
    unfolding example_ditch_validation by code_simp
  from t e v1 v2 show ?thesis by blast
qed

text \<open>
  Claim C6, amended: a "connect features" fix appears in the fix list of an issue exactly
  when \<^verbatim>\<open>tagsForConnectionNodeIfAllowed\<close> returns a tag set for the two
  entities of the issue, and this set may be empty.  The connective fix is the only fix
  with an action, and its action is the connect-ways action at the crossing point with
  these tags and the two edges.  For two waterways or two railways the tag set is the
  empty one and the connective fix is offered.  The last fix of every issue is the
  "reposition features" fix, which has no action.
\<close>

theorem connect_fix_iff_connection_tags:
  "(let iss = createIssue c crossing ctx;
        ct = tagsForConnectionNodeIfAllowed (fst (entities iss)) (snd (entities iss))
    in connectionTags (info iss) = ct \<and>
       ((\<exists>f \<in> set (issueFixes iss). onClick f \<noteq> None) \<longleftrightarrow> ct \<noteq> None) \<and>
       (\<forall>f \<in> set (issueFixes iss). onClick f \<noteq> None \<longrightarrow>
          title f = translate c ''issues.fix.connect_features.title'' [] \<and>
          (\<exists>ts. ct = Some ts \<and>
             onClick f = Some (actionConnectCrossingWays c (issueLoc iss) ts
                                 [fst (infoEdges (info iss)), snd (infoEdges (info iss))]))) \<and>
       (getFeatureTypeForTags (tags (fst (entities iss))) =
          getFeatureTypeForTags (tags (snd (entities iss))) \<and>
        (getFeatureTypeForTags (tags (fst (entities iss))) = Some Waterway \<or>
         getFeatureTypeForTags (tags (fst (entities iss))) = Some Railway) \<longrightarrow>
          ct = Some Map.empty \<and> (\<exists>f \<in> set (issueFixes iss). onClick f \<noteq> None)) \<and>
       last (issueFixes iss) =
         \<lparr>title = translate c ''issues.fix.reposition_features.title'' [], onClick = None\<rparr>)"
proof -
  define iss where "iss = createIssue c crossing ctx"
  define ct where "ct = tagsForConnectionNodeIfAllowed (fst (entities iss)) (snd (entities iss))"
  have tags_eq: "connectionTags (info iss) = ct"
    by (simp add: iss_def ct_def createIssue_def Let_def)
  have proj: "issueLoc iss = crossPoint crossing" "infoEdges (info iss) = edges crossing"
    by (simp_all add: iss_def createIssue_def Let_def)
  have fixes_eq: "\<exists>u. issueFixes iss =
      (case ct of None \<Rightarrow> []
       | Some ts \<Rightarrow> [\<lparr>title = translate c ''issues.fix.connect_features.title'' [],
            onClick = Some (actionConnectCrossingWays c (issueLoc iss) ts
                              [fst (infoEdges (info iss)), snd (infoEdges (info iss))])\<rparr>]) @
      [\<lparr>title = u, onClick = None\<rparr>,
       \<lparr>title = translate c ''issues.fix.reposition_features.title'' [], onClick = None\<rparr>]"
    unfolding proj by (simp add: iss_def ct_def createIssue_def Let_def)
  then obtain u where fx: "issueFixes iss =
      (case ct of None \<Rightarrow> []
       | Some ts \<Rightarrow> [\<lparr>title = translate c ''issues.fix.connect_features.title'' [],
            onClick = Some (actionConnectCrossingWays c (issueLoc iss) ts
                              [fst (infoEdges (info iss)), snd (infoEdges (info iss))])\<rparr>]) @
      [\<lparr>title = u, onClick = None\<rparr>,
       \<lparr>title = translate c ''issues.fix.reposition_features.title'' [], onClick = None\<rparr>]"
    by blast
  have a: "(\<exists>f \<in> set (issueFixes iss). onClick f \<noteq> None) \<longleftrightarrow> ct \<noteq> None"
    unfolding fx by (cases ct) auto
  have b: "\<forall>f \<in> set (issueFixes iss). onClick f \<noteq> None \<longrightarrow>
          title f = translate c ''issues.fix.connect_features.title'' [] \<and>
          (\<exists>ts. ct = Some ts \<and>
             onClick f = Some (actionConnectCrossingWays c (issueLoc iss) ts
                                 [fst (infoEdges (info iss)), snd (infoEdges (info iss))]))"
    unfolding fx by (cases ct) auto
  have d: "ct = Some Map.empty \<and> (\<exists>f \<in> set (issueFixes iss). onClick f \<noteq> None)"
    if "getFeatureTypeForTags (tags (fst (entities iss))) =
          getFeatureTypeForTags (tags (snd (entities iss)))"
      "getFeatureTypeForTags (tags (fst (entities iss))) = Some Waterway \<or>
       getFeatureTypeForTags (tags (fst (entities iss))) = Some Railway"
    using same_category_no_tags[OF that] a by (simp add: ct_def)
  have e: "last (issueFixes iss) =
         \<lparr>title = translate c ''issues.fix.reposition_features.title'' [], onClick = None\<rparr>"
    unfolding fx by simp
  show ?thesis
    unfolding Let_def iss_def[symmetric] ct_def[symmetric]
    using tags_eq a b d e by blast
qed

theorem connect_fix_iff_connection_tags_witness:
  "entities (createIssue exampleCollaborators exampleDitchCrossing exampleContext) =
     (exampleDitch, exampleStream) \<and>
   getFeatureTypeForTags (tags exampleDitch) = Some Waterway \<and>
   getFeatureTypeForTags (tags exampleStream) = Some Waterway \<and>
   connectionTags (info (createIssue exampleCollaborators exampleDitchCrossing exampleContext)) =
     Some Map.empty \<and>
   (\<exists>f \<in> set (issueFixes (createIssue exampleCollaborators exampleDitchCrossing exampleContext)).
      onClick f \<noteq> None) \<and>
   last (issueFixes (createIssue exampleCollaborators exampleDitchCrossing exampleContext)) =
     \<lparr>title = translate exampleCollaborators ''issues.fix.reposition_features.title'' [],
      onClick = None\<rparr>"
proof -
  define iss where "iss = createIssue exampleCollaborators exampleDitchCrossing exampleContext"
  have cmp: "\<not> compareWays exampleCollaborators exampleGraph exampleDitch exampleStream"
    by code_simp
  have ents: "entities iss = (exampleDitch, exampleStream)"
    using cmp
    by (simp add: iss_def createIssue_def Let_def example_sort_keeps example_context_fields
        exampleDitchCrossing_def getFeatureWithFeatureTypeTagsForWay_def classifier_defs
        example_entity_defs)
  have types: "getFeatureTypeForTags (tags exampleDitch) = Some Waterway"
    "getFeatureTypeForTags (tags exampleStream) = Some Waterway"
    by (simp_all add: classifier_defs example_entity_defs)
  note th = connect_fix_iff_connection_tags[of exampleCollaborators exampleDitchCrossing exampleContext,
      unfolded Let_def, folded iss_def, unfolded ents fst_conv snd_conv]
  from th types have "connectionTags (info iss) = Some Map.empty"
    "\<exists>f \<in> set (issueFixes iss). onClick f \<noteq> None"
    "last (issueFixes iss) =
       \<lparr>title = translate exampleCollaborators ''issues.fix.reposition_features.title'' [],
        onClick = None\<rparr>"
    by simp_all
  with ents types show ?thesis unfolding iss_def by blast
qed

section \<open>The order of the two entities of an issue\<close>

lemma featureTypeName_inject: "featureTypeName a = featureTypeName b \<longleftrightarrow> a = b"
  by (cases a; cases b) simp_all







section \<open>The connect-ways action near existing nodes\<close>

text \<open>
  Claim C7.  When, for each of the two crossing edges, the closer of the two end nodes of
  the edge is within 0.75 of the crossing location (the source tests
  \<^verbatim>\<open>distance < 0.75\<close>), the action is the merge of the new node and these two
  nodes at the crossing location, applied to the graph that holds the new node; no edge
  is split: the result is the same whatever \<^verbatim>\<open>actionAddMidpoint\<close> does.
\<close>

theorem near_endpoints_are_merged:
  assumes "distance (geoSphericalClosestNode c
              [entity (replace c (osmNode c l ts) g) (fst e1),
               entity (replace c (osmNode c l ts) g) (snd e1)] l) < 0.75"
    and "distance (geoSphericalClosestNode c
              [entity (replace c (osmNode c l ts) g) (fst e2),
               entity (replace c (osmNode c l ts) g) (snd e2)] l) < 0.75"
  shows "actionConnectCrossingWays c l ts [e1, e2] g =
     actionMergeNodes c
       [eid (osmNode c l ts),
        eid (closestNode (geoSphericalClosestNode c
              [entity (replace c (osmNode c l ts) g) (fst e1),
               entity (replace c (osmNode c l ts) g) (snd e1)] l)),
        eid (closestNode (geoSphericalClosestNode c
              [entity (replace c (osmNode c l ts) g) (fst e2),
               entity (replace c (osmNode c l ts) g) (snd e2)] l))]
       l (replace c (osmNode c l ts) g) \<and>
     (\<forall>split. actionConnectCrossingWays (c\<lparr>actionAddMidpoint := split\<rparr>) l ts [e1, e2] g =
              actionConnectCrossingWays c l ts [e1, e2] g)"
  using assms
  by (simp add: actionConnectCrossingWays_def Let_def mergeThresholdInMeters_def)

theorem near_endpoints_are_merged_witness:
  "distance (geoSphericalClosestNode exampleCollaborators
      [entity (replace exampleCollaborators
                 (osmNode exampleCollaborators (1/2, 0) [''ford'' \<mapsto> ''yes'']) exampleGraph) ''n1'',
       entity (replace exampleCollaborators
                 (osmNode exampleCollaborators (1/2, 0) [''ford'' \<mapsto> ''yes'']) exampleGraph) ''n2'']
      (1/2, 0)) < 0.75 \<and>
   distance (geoSphericalClosestNode exampleCollaborators
      [entity (replace exampleCollaborators
                 (osmNode exampleCollaborators (1/2, 0) [''ford'' \<mapsto> ''yes'']) exampleGraph) ''n3'',
       entity (replace exampleCollaborators
                 (osmNode exampleCollaborators (1/2, 0) [''ford'' \<mapsto> ''yes'']) exampleGraph) ''n4'']
      (1/2, 0)) < 0.75 \<and>
   nodes (entity (actionConnectCrossingWays exampleCollaborators (1/2, 0) [''ford'' \<mapsto> ''yes'']
                    [(''n1'', ''n2''), (''n3'', ''n4'')] exampleGraph) ''w1'') = [''n3'', ''n2''] \<and>
   nodes (entity (actionConnectCrossingWays exampleCollaborators (1/2, 0) [''ford'' \<mapsto> ''yes'']
                    [(''n1'', ''n2''), (''n3'', ''n4'')] exampleGraph) ''w2'') = [''n3'', ''n4''] \<and>
   loc (entity (actionConnectCrossingWays exampleCollaborators (1/2, 0) [''ford'' \<mapsto> ''yes'']
                    [(''n1'', ''n2''), (''n3'', ''n4'')] exampleGraph) ''n3'') = (1/2, 0)"
proof -
  let ?c = exampleCollaborators and ?l = "(1/2, 0) :: loc" and ?ts = "[''ford'' \<mapsto> ''yes'']"
  let ?g1 = "replace ?c (osmNode ?c ?l ?ts) exampleGraph"
  have d1: "distance (geoSphericalClosestNode ?c
      [entity ?g1 (fst (''n1'', ''n2'')), entity ?g1 (snd (''n1'', ''n2''))] ?l) < 0.75"
    by code_simp
  have d2: "distance (geoSphericalClosestNode ?c
      [entity ?g1 (fst (''n3'', ''n4'')), entity ?g1 (snd (''n3'', ''n4''))] ?l) < 0.75"
    by code_simp
  note eq = near_endpoints_are_merged[OF d1 d2, THEN conjunct1]
  have r1: "nodes (entity (actionConnectCrossingWays ?c ?l ?ts
                    [(''n1'', ''n2''), (''n3'', ''n4'')] exampleGraph) ''w1'') = [''n3'', ''n2'']"
    unfolding eq by code_simp
  have r2: "nodes (entity (actionConnectCrossingWays ?c ?l ?ts
                    [(''n1'', ''n2''), (''n3'', ''n4'')] exampleGraph) ''w2'') = [''n3'', ''n4'']"
    unfolding eq by code_simp
  have r3: "loc (entity (actionConnectCrossingWays ?c ?l ?ts
                    [(''n1'', ''n2''), (''n3'', ''n4'')] exampleGraph) ''n3'') = (1/2, 0)"
    unfolding eq by code_simp
  from d1 d2 r1 r2 r3 show ?thesis by simp
qed

section \<open>Ways that are tagged on a parent relation\<close>

text \<open>
  Claim C8.  For a way whose own tags have no feature type and that has a parent relation
  with a feature type, the feature of the way is the first such parent relation, and the
  feature type for the crossing check is the one of this relation.  The way takes part in
  the detection under this feature type: as a primary way, \<^verbatim>\<open>findCrossingsByWay\<close>
  runs its loop with it, and every crossing it reports carries it; as a candidate, the
  way is not skipped for the lack of a feature type, and the crossings reported with it
  carry the feature type of the relation.  The validation of a building multipolygon
  runs the detection on each member way.
\<close>

theorem parent_relation_category:
  assumes "getFeatureTypeForTags (tags w) = None"
    and "find (\<lambda>rel. getFeatureTypeForTags (tags rel) \<noteq> None) (parentRelations g w) = Some rel"
  shows "getFeatureWithFeatureTypeTagsForWay w g = rel \<and>
     getFeatureTypeForCrossingCheck w g = getFeatureTypeForTags (tags rel) \<and>
     getFeatureTypeForCrossingCheck w g \<noteq> None \<and>
     (\<forall>cr \<in> set (findCrossingsByWay c w g tr).
        Some (fst (featureTypes cr)) = getFeatureTypeForTags (tags rel)) \<and>
     (\<forall>cr \<in> set (findCrossingsByWay c p g tr).
        snd (ways cr) = w \<longrightarrow> Some (snd (featureTypes cr)) = getFeatureTypeForTags (tags rel)) \<and>
     (etype w = TypeWay \<longrightarrow>
        findCrossingsByWay c w g tr =
          fst (primaryEdgesLoop c w (the (getFeatureTypeForTags (tags rel))) g tr (nodes w) ([], {}))) \<and>
     (etype w = TypeWay \<and> eid w \<notin> checked \<and> eid w \<noteq> eid p \<longrightarrow>
        candidateCrossings c p pft n1 n2 g checked w =
          (let wft = the (getFeatureTypeForTags (tags rel));
               oneOnly = (pft = Building \<or> wft = Building)
           in if isLegitCrossing p pft w wft g \<or> isLegitCrossing w wft p pft g then None
              else Some (oneOnly,
                     map (\<lambda>ci. \<lparr>ways = (p, w), featureTypes = (pft, wft),
                                 edges = ((eid n1, eid n2), edge ci), crossPoint = point ci\<rparr>)
                         (findEdgeToWayCrossCoords c n1 n2 w g oneOnly)))) \<and>
     (etype r = TypeRelation \<and> tags r ''type'' = Some ''multipolygon'' \<and>
      hasTag (tags r) ''building'' \<and> m \<in> set (members r) \<and> hasEntity ctx m \<and>
      entity (graph ctx) m = w \<and> etype w = TypeWay \<and> graph ctx = g \<and> tree ctx = tr \<longrightarrow>
        set (findCrossingsByWay c w g tr) \<subseteq> set (validationCrossings c r ctx))"
proof -
  have typed: "getFeatureTypeForTags (tags rel) \<noteq> None"
    using assms(2) by (auto simp: find_Some_iff)
  have feature: "getFeatureWithFeatureTypeTagsForWay w g = rel"
    using assms by (simp add: getFeatureWithFeatureTypeTagsForWay_def)
  then have check: "getFeatureTypeForCrossingCheck w g = getFeatureTypeForTags (tags rel)"
    by (simp add: getFeatureTypeForCrossingCheck_def)
  from typed obtain ft where ft: "getFeatureTypeForTags (tags rel) = Some ft" by blast
  have primary: "\<forall>cr \<in> set (findCrossingsByWay c w g tr).
        Some (fst (featureTypes cr)) = getFeatureTypeForTags (tags rel)"
  proof (rule findCrossingsByWay_all)
    fix pft' m1 m2 w' chk oneOnly infos cr
    assume "getFeatureTypeForCrossingCheck w g = Some pft'"
      and some: "candidateCrossings c w pft' m1 m2 g chk w' = Some (oneOnly, infos)"
      and cr: "cr \<in> set infos"
    then show "Some (fst (featureTypes cr)) = getFeatureTypeForTags (tags rel)"
      using check by (auto elim!: candidateCrossings_member)
  qed
  have candidate: "\<forall>cr \<in> set (findCrossingsByWay c p g tr).
        snd (ways cr) = w \<longrightarrow> Some (snd (featureTypes cr)) = getFeatureTypeForTags (tags rel)"
  proof (rule findCrossingsByWay_all)
    fix pft' m1 m2 w' chk oneOnly infos cr
    assume some: "candidateCrossings c p pft' m1 m2 g chk w' = Some (oneOnly, infos)"
      and cr: "cr \<in> set infos"
    then show "snd (ways cr) = w \<longrightarrow> Some (snd (featureTypes cr)) = getFeatureTypeForTags (tags rel)"
      using check by (auto elim!: candidateCrossings_member)
  qed
  have as_primary: "findCrossingsByWay c w g tr =
          fst (primaryEdgesLoop c w (the (getFeatureTypeForTags (tags rel))) g tr (nodes w) ([], {}))"
    if "etype w = TypeWay"
    using that check ft by (simp add: findCrossingsByWay_def)
  have as_candidate: "candidateCrossings c p pft n1 n2 g checked w =
          (let wft = the (getFeatureTypeForTags (tags rel));
               oneOnly = (pft = Building \<or> wft = Building)
           in if isLegitCrossing p pft w wft g \<or> isLegitCrossing w wft p pft g then None
              else Some (oneOnly,
                     map (\<lambda>ci. \<lparr>ways = (p, w), featureTypes = (pft, wft),
                                 edges = ((eid n1, eid n2), edge ci), crossPoint = point ci\<rparr>)
                         (findEdgeToWayCrossCoords c n1 n2 w g oneOnly)))"
    if "etype w = TypeWay" "eid w \<notin> checked" "eid w \<noteq> eid p"
    using that check ft by (simp add: candidateCrossings_def Let_def)
  have member: "set (findCrossingsByWay c w g tr) \<subseteq> set (validationCrossings c r ctx)"
    if r: "etype r = TypeRelation" "tags r ''type'' = Some ''multipolygon''"
      "hasTag (tags r) ''building''" "m \<in> set (members r)" "hasEntity ctx m"
      "entity (graph ctx) m = w" "etype w = TypeWay" "graph ctx = g" "tree ctx = tr"
  proof -
    have "getFeatureTypeForTags (tags r) = Some Building"
      using r(3) by (simp add: getFeatureTypeForTags_def)
    then have "w \<in> set (waysToCheck r ctx)"
      using r by (auto simp: waysToCheck_def Let_def)
    then show ?thesis
      using r(8,9) by (auto simp: validationCrossings_concat)
  qed
  show ?thesis
    using feature check typed primary candidate as_primary as_candidate member
    by (intro conjI impI; (elim conjE)?; simp)
qed

theorem parent_relation_category_witness:
  "getFeatureTypeForTags (tags exampleOuter1) = None \<and>
   find (\<lambda>rel. getFeatureTypeForTags (tags rel) \<noteq> None) (parentRelations exampleGraph exampleOuter1) =
     Some exampleMultipolygon \<and>
   getFeatureWithFeatureTypeTagsForWay exampleOuter1 exampleGraph = exampleMultipolygon \<and>
   getFeatureTypeForCrossingCheck exampleOuter1 exampleGraph = Some Building \<and>
   map (\<lambda>cr. (eid (snd (ways cr)), featureTypes cr))
     (findCrossingsByWay exampleCollaborators exampleOuter1 exampleGraph exampleTree) =
     [(''w7'', (Building, Building))] \<and>
   map (\<lambda>cr. (eid (snd (ways cr)), featureTypes cr))
     (findCrossingsByWay exampleCollaborators exampleOuter2 exampleGraph exampleTree) =
     [(''w6'', (Building, Building))] \<and>
   set (findCrossingsByWay exampleCollaborators exampleOuter1 exampleGraph exampleTree) \<subseteq>
     set (validationCrossings exampleCollaborators exampleMultipolygon exampleContext)"
proof -
  have a: "getFeatureTypeForTags (tags exampleOuter1) = None"
    by (simp add: classifier_defs example_entity_defs)
  have b: "find (\<lambda>rel. getFeatureTypeForTags (tags rel) \<noteq> None)
      (parentRelations exampleGraph exampleOuter1) = Some exampleMultipolygon"
    by (simp add: classifier_defs example_entity_defs exampleGraph_def)
  have t: "getFeatureTypeForTags (tags exampleMultipolygon) = Some Building"
    by (simp add: classifier_defs example_entity_defs)
  note th = parent_relation_category[OF a b, of exampleCollaborators exampleTree exampleOuter2 "{}"
      Building "entity exampleGraph ''n17''" "entity exampleGraph ''n18''"
      exampleMultipolygon "''w6''" exampleContext]
  have r: "etype exampleMultipolygon = TypeRelation \<and>
      tags exampleMultipolygon ''type'' = Some ''multipolygon'' \<and>
      hasTag (tags exampleMultipolygon) ''building'' \<and> ''w6'' \<in> set (members exampleMultipolygon) \<and>
      hasEntity exampleContext ''w6'' \<and> entity (graph exampleContext) ''w6'' = exampleOuter1 \<and>
      etype exampleOuter1 = TypeWay \<and> graph exampleContext = exampleGraph \<and>
      tree exampleContext = exampleTree"
    by (simp add: hasTag_def example_entity_defs example_world_defs)
  have c1: "map (\<lambda>cr. (eid (snd (ways cr)), featureTypes cr))
     (findCrossingsByWay exampleCollaborators exampleOuter1 exampleGraph exampleTree) =
     [(''w7'', (Building, Building))]"
    by code_simp
  have c2: "map (\<lambda>cr. (eid (snd (ways cr)), featureTypes cr))
     (findCrossingsByWay exampleCollaborators exampleOuter2 exampleGraph exampleTree) =
     [(''w6'', (Building, Building))]"
    by code_simp
  have f: "getFeatureWithFeatureTypeTagsForWay exampleOuter1 exampleGraph = exampleMultipolygon"
    by (rule th[THEN conjunct1])
  have k: "getFeatureTypeForCrossingCheck exampleOuter1 exampleGraph = Some Building"
    using th[THEN conjunct2, THEN conjunct1] t by simp
  have v: "set (findCrossingsByWay exampleCollaborators exampleOuter1 exampleGraph exampleTree) \<subseteq>
     set (validationCrossings exampleCollaborators exampleMultipolygon exampleContext)"
    by (rule th[THEN conjunct2, THEN conjunct2, THEN conjunct2, THEN conjunct2, THEN conjunct2,
          THEN conjunct2, THEN conjunct2, THEN mp, OF r])
  from a b c1 c2 f k v show ?thesis by blast
qed


section \<open>One crossing for a pair with a building\<close>

lemma candidateCrossings_infos_candidate:
  assumes "candidateCrossings c primaryWay pft n1 n2 g checked w' = Some (oneOnly, infos)"
  shows "\<forall>cr \<in> set infos. snd (ways cr) = w'"
  using candidateCrossings_Some[OF assms] by auto

lemma candidateCrossings_oneOnly_length:
  assumes "candidateCrossings c primaryWay pft n1 n2 g checked w' = Some (True, infos)"
  shows "length infos \<le> 1"
proof -
  from candidateCrossings_Some[OF assms] have
    "length infos = length (findEdgeToWayCrossCoords c n1 n2 w' g True)" by auto
  then show ?thesis
    using crossCoordsLoop_oneOnly_length[of c n1 n2 "childNodes g w'"]
    by (simp add: findEdgeToWayCrossCoords_def)
qed

lemma intersectedLoop_one_only:
  assumes "pft = Building \<or> getFeatureTypeForCrossingCheck w g = Some Building"
    and "length (filter (\<lambda>cr. snd (ways cr) = w) (fst st)) \<le> 1"
    and "(\<exists>cr \<in> set (fst st). snd (ways cr) = w) \<longrightarrow> eid w \<in> snd st"
  shows "length (filter (\<lambda>cr. snd (ways cr) = w)
            (fst (intersectedLoop c primaryWay pft n1 n2 g ws st))) \<le> 1 \<and>
         ((\<exists>cr \<in> set (fst (intersectedLoop c primaryWay pft n1 n2 g ws st)). snd (ways cr) = w) \<longrightarrow>
            eid w \<in> snd (intersectedLoop c primaryWay pft n1 n2 g ws st))"
  using assms(2,3)
proof (induction ws arbitrary: st)
  case Nil
  then show ?case by simp
next
  case (Cons w' ws)
  obtain infos0 checked where st: "st = (infos0, checked)" by (cases st)
  show ?case
  proof (cases "candidateCrossings c primaryWay pft n1 n2 g checked w'")
    case None
    then show ?thesis using Cons.IH[of st] Cons.prems st by simp
  next
    case (Some r)
    obtain oneOnly infos where r: "r = (oneOnly, infos)" by (cases r)
    note some = Some[unfolded r]
    let ?st' = "(infos0 @ infos, if oneOnly \<and> infos \<noteq> [] then insert (eid w') checked else checked)"
    from candidateCrossings_Some[OF some] obtain wft where
      unmarked: "eid w' \<notin> checked"
      and wft: "getFeatureTypeForCrossingCheck w' g = Some wft"
      and one: "oneOnly = (pft = Building \<or> wft = Building)"
      by blast
    have cand: "\<forall>cr \<in> set infos. snd (ways cr) = w'"
      by (rule candidateCrossings_infos_candidate[OF some])
    have inv: "length (filter (\<lambda>cr. snd (ways cr) = w) (fst ?st')) \<le> 1 \<and>
        ((\<exists>cr \<in> set (fst ?st'). snd (ways cr) = w) \<longrightarrow> eid w \<in> snd ?st')"
    proof (cases "w' = w")
      case True
      then have oneOnly using assms(1) wft one by auto
      then have len: "length infos \<le> 1"
        using candidateCrossings_oneOnly_length[of c primaryWay pft n1 n2 g checked w' infos] some
        by simp
      have "\<not> (\<exists>cr \<in> set infos0. snd (ways cr) = w)"
        using Cons.prems(2) unmarked True st by auto
      then have "filter (\<lambda>cr. snd (ways cr) = w) infos0 = []"
        by (auto simp: filter_empty_conv)
      moreover have "filter (\<lambda>cr. snd (ways cr) = w) infos = infos"
        using cand True by (auto simp: filter_id_conv)
      ultimately show ?thesis
        using len \<open>oneOnly\<close> True \<open>\<not> (\<exists>cr \<in> set infos0. snd (ways cr) = w)\<close> by auto
    next
      case False
      then have "filter (\<lambda>cr. snd (ways cr) = w) infos = []"
        using cand by (auto simp: filter_empty_conv)
      moreover have "\<not> (\<exists>cr \<in> set infos. snd (ways cr) = w)"
        using cand False by auto
      ultimately show ?thesis
        using Cons.prems st by auto
    qed
    from Cons.IH[of ?st'] inv show ?thesis
      using Some r st by simp
  qed
qed

lemma primaryEdgesLoop_one_only:
  assumes "pft = Building \<or> getFeatureTypeForCrossingCheck w g = Some Building"
    and "length (filter (\<lambda>cr. snd (ways cr) = w) (fst st)) \<le> 1"
    and "(\<exists>cr \<in> set (fst st). snd (ways cr) = w) \<longrightarrow> eid w \<in> snd st"
  shows "length (filter (\<lambda>cr. snd (ways cr) = w)
            (fst (primaryEdgesLoop c primaryWay pft g tr nids st))) \<le> 1 \<and>
         ((\<exists>cr \<in> set (fst (primaryEdgesLoop c primaryWay pft g tr nids st)). snd (ways cr) = w) \<longrightarrow>
            eid w \<in> snd (primaryEdgesLoop c primaryWay pft g tr nids st))"
  using assms(2,3)
proof (induction nids arbitrary: st)
  case Nil
  then show ?case by simp
next
  case (Cons nid1 rest)
  show ?case
  proof (cases rest)
    case Nil
    then show ?thesis using Cons.prems by simp
  next
    case (Cons nid2 rest')
    let ?st' = "intersectedLoop c primaryWay pft (entity g nid1) (entity g nid2) g
             (tr (edgeExtent (entity g nid1) (entity g nid2)) g) st"
    from intersectedLoop_one_only[OF assms(1) Cons.prems]
    have "length (filter (\<lambda>cr. snd (ways cr) = w) (fst ?st')) \<le> 1"
      "(\<exists>cr \<in> set (fst ?st'). snd (ways cr) = w) \<longrightarrow> eid w \<in> snd ?st'"
      by blast+
    from Cons.IH[OF this] show ?thesis using Cons by (simp add: Let_def)
  qed
qed

lemma findCrossingsByWay_one_only:
  assumes "getFeatureTypeForCrossingCheck primaryWay g = Some Building \<or>
           getFeatureTypeForCrossingCheck w g = Some Building"
  shows "length (filter (\<lambda>cr. snd (ways cr) = w) (findCrossingsByWay c primaryWay g tr)) \<le> 1"
proof (cases "etype primaryWay = TypeWay")
  case False
  then show ?thesis by (simp add: findCrossingsByWay_def)
next
  case True
  show ?thesis
  proof (cases "getFeatureTypeForCrossingCheck primaryWay g")
    case None
    then show ?thesis by (simp add: findCrossingsByWay_def)
  next
    case (Some pft)
    then have "pft = Building \<or> getFeatureTypeForCrossingCheck w g = Some Building"
      using assms by auto
    from primaryEdgesLoop_one_only[OF this, of "([], {})" c primaryWay tr "nodes primaryWay"]
    show ?thesis using Some True by (simp add: findCrossingsByWay_def)
  qed
qed


section \<open>Every crossing of a pair without a building\<close>

lemma crossCoordsLoop_complete:
  assumes "Suc j < length nds"
    and "eid (nds ! j) \<noteq> eid n1" "eid (nds ! j) \<noteq> eid n2"
    and "eid (nds ! Suc j) \<noteq> eid n1" "eid (nds ! Suc j) \<noteq> eid n2"
    and "geoLineIntersection c (loc n1, loc n2) (loc (nds ! j), loc (nds ! Suc j)) = Some p"
  shows "\<lparr>edge = (eid (nds ! j), eid (nds ! Suc j)), point = p\<rparr>
           \<in> set (crossCoordsLoop c n1 n2 False nds)"
  using assms
proof (induction nds arbitrary: j)
  case Nil
  then show ?case by simp
next
  case (Cons nA rest)
  then obtain nB rest' where rest: "rest = nB # rest'" by (cases rest) auto
  show ?case
  proof (cases j)
    case 0
    then show ?thesis using Cons.prems rest by (simp split: option.splits)
  next
    case (Suc k)
    then have "\<lparr>edge = (eid (rest ! k), eid (rest ! Suc k)), point = p\<rparr>
           \<in> set (crossCoordsLoop c n1 n2 False rest)"
      using Cons.IH[of k] Cons.prems by simp
    then show ?thesis using Suc rest by (auto split: option.splits)
  qed
qed

lemma intersectedLoop_mono:
  "set (fst st) \<subseteq> set (fst (intersectedLoop c primaryWay pft n1 n2 g ws st))"
proof (induction ws arbitrary: st)
  case Nil
  then show ?case by simp
next
  case (Cons w' ws)
  obtain infos0 checked where st: "st = (infos0, checked)" by (cases st)
  show ?case
  proof (cases "candidateCrossings c primaryWay pft n1 n2 g checked w'")
    case None
    then show ?thesis using Cons.IH[of st] st by simp
  next
    case (Some r)
    obtain oneOnly infos where r: "r = (oneOnly, infos)" by (cases r)
    show ?thesis
      using Cons.IH[of "(infos0 @ infos,
          if oneOnly \<and> infos \<noteq> [] then insert (eid w') checked else checked)"] Some r st
      by auto
  qed
qed

lemma primaryEdgesLoop_mono:
  "set (fst st) \<subseteq> set (fst (primaryEdgesLoop c primaryWay pft g tr nids st))"
proof (induction nids arbitrary: st)
  case Nil
  then show ?case by simp
next
  case (Cons nid1 rest)
  show ?case
  proof (cases rest)
    case Nil
    then show ?thesis by simp
  next
    case (Cons nid2 rest')
    show ?thesis
      using Cons.IH[of "intersectedLoop c primaryWay pft (entity g nid1) (entity g nid2) g
             (tr (edgeExtent (entity g nid1) (entity g nid2)) g) st"]
        intersectedLoop_mono[of st c primaryWay pft "entity g nid1" "entity g nid2" g
             "tr (edgeExtent (entity g nid1) (entity g nid2)) g"] Cons
      by (auto simp: Let_def)
  qed
qed

lemma intersectedLoop_checked:
  assumes "x \<in> snd (intersectedLoop c primaryWay pft n1 n2 g ws st)"
  shows "x \<in> snd st \<or>
     (\<exists>w' \<in> set ws. eid w' = x \<and>
        (pft = Building \<or> getFeatureTypeForCrossingCheck w' g = Some Building))"
  using assms
proof (induction ws arbitrary: st)
  case Nil
  then show ?case by simp
next
  case (Cons w' ws)
  obtain infos0 checked where st: "st = (infos0, checked)" by (cases st)
  show ?case
  proof (cases "candidateCrossings c primaryWay pft n1 n2 g checked w'")
    case None
    then show ?thesis using Cons.IH[of st] Cons.prems st by auto
  next
    case (Some r)
    obtain oneOnly infos where r: "r = (oneOnly, infos)" by (cases r)
    let ?st' = "(infos0 @ infos, if oneOnly \<and> infos \<noteq> [] then insert (eid w') checked else checked)"
    from candidateCrossings_Some[OF Some[unfolded r]] obtain wft where
      wft: "getFeatureTypeForCrossingCheck w' g = Some wft"
      and one: "oneOnly = (pft = Building \<or> wft = Building)"
      by blast
    have "x \<in> snd (intersectedLoop c primaryWay pft n1 n2 g ws ?st')"
      using Cons.prems Some r st by simp
    from Cons.IH[OF this] show ?thesis
      using st wft one by (auto split: if_splits)
  qed
qed

lemma primaryEdgesLoop_checked:
  assumes "x \<in> snd (primaryEdgesLoop c primaryWay pft g tr nids st)"
  shows "x \<in> snd st \<or>
     (\<exists>ext. \<exists>w' \<in> set (tr ext g). eid w' = x \<and>
        (pft = Building \<or> getFeatureTypeForCrossingCheck w' g = Some Building))"
  using assms
proof (induction nids arbitrary: st)
  case Nil
  then show ?case by simp
next
  case (Cons nid1 rest)
  show ?case
  proof (cases rest)
    case Nil
    then show ?thesis using Cons.prems by simp
  next
    case (Cons nid2 rest')
    let ?ws = "tr (edgeExtent (entity g nid1) (entity g nid2)) g"
    let ?st' = "intersectedLoop c primaryWay pft (entity g nid1) (entity g nid2) g ?ws st"
    have "x \<in> snd (primaryEdgesLoop c primaryWay pft g tr rest ?st')"
      using Cons.prems Cons by (simp add: Let_def)
    from Cons.IH[OF this] show ?thesis
      using intersectedLoop_checked[of x c primaryWay pft "entity g nid1" "entity g nid2" g ?ws st]
      by blast
  qed
qed

lemma candidateCrossings_checked_irrelevant:
  assumes "eid w \<notin> checked" "eid w \<notin> checked'"
  shows "candidateCrossings c primaryWay pft n1 n2 g checked w =
         candidateCrossings c primaryWay pft n1 n2 g checked' w"
  using assms by (simp add: candidateCrossings_def)

lemma intersectedLoop_complete:
  assumes "w \<in> set ws" and "eid w \<notin> snd st"
    and "\<forall>w' \<in> set ws. eid w' = eid w \<longrightarrow>
           \<not> (pft = Building \<or> getFeatureTypeForCrossingCheck w' g = Some Building)"
    and "candidateCrossings c primaryWay pft n1 n2 g {} w = Some (oneOnly, infos)"
  shows "set infos \<subseteq> set (fst (intersectedLoop c primaryWay pft n1 n2 g ws st))"
  using assms(1,2,3)
proof (induction ws arbitrary: st)
  case Nil
  then show ?case by simp
next
  case (Cons w' ws)
  obtain infos0 checked where st: "st = (infos0, checked)" by (cases st)
  have unmarked: "eid w \<notin> checked" using Cons.prems(2) st by simp
  show ?case
  proof (cases "w' = w")
    case True
    have "candidateCrossings c primaryWay pft n1 n2 g checked w' = Some (oneOnly, infos)"
      using assms(4) candidateCrossings_checked_irrelevant[of w checked "{}"] unmarked True
      by simp
    then have "intersectedLoop c primaryWay pft n1 n2 g (w' # ws) st =
        intersectedLoop c primaryWay pft n1 n2 g ws
          (infos0 @ infos, if oneOnly \<and> infos \<noteq> [] then insert (eid w') checked else checked)"
      using st by simp
    then show ?thesis
      using intersectedLoop_mono[of "(infos0 @ infos,
          if oneOnly \<and> infos \<noteq> [] then insert (eid w') checked else checked)"
          c primaryWay pft n1 n2 g ws]
      by auto
  next
    case False
    then have mem: "w \<in> set ws" using Cons.prems(1) by simp
    have rest: "\<forall>w' \<in> set ws. eid w' = eid w \<longrightarrow>
           \<not> (pft = Building \<or> getFeatureTypeForCrossingCheck w' g = Some Building)"
      using Cons.prems(3) by simp
    show ?thesis
    proof (cases "candidateCrossings c primaryWay pft n1 n2 g checked w'")
      case None
      then show ?thesis using Cons.IH[OF mem _ rest, of st] Cons.prems(2) st by simp
    next
      case (Some r)
      obtain oneOnly' infos' where r: "r = (oneOnly', infos')" by (cases r)
      let ?st' = "(infos0 @ infos',
          if oneOnly' \<and> infos' \<noteq> [] then insert (eid w') checked else checked)"
      from candidateCrossings_Some[OF Some[unfolded r]] obtain wft where
        wft: "getFeatureTypeForCrossingCheck w' g = Some wft"
        and one: "oneOnly' = (pft = Building \<or> wft = Building)"
        by blast
      have "eid w \<notin> snd ?st'"
        using unmarked Cons.prems(3) wft one by auto
      from Cons.IH[OF mem this rest] show ?thesis
        using Some r st by simp
    qed
  qed
qed

lemma primaryEdgesLoop_complete:
  assumes "Suc i < length nids"
    and "w \<in> set (tr (edgeExtent (entity g (nids ! i)) (entity g (nids ! Suc i))) g)"
    and "eid w \<notin> snd st"
    and "\<forall>ext. \<forall>w' \<in> set (tr ext g). eid w' = eid w \<longrightarrow>
           \<not> (pft = Building \<or> getFeatureTypeForCrossingCheck w' g = Some Building)"
    and "candidateCrossings c primaryWay pft (entity g (nids ! i)) (entity g (nids ! Suc i)) g {} w =
           Some (oneOnly, infos)"
  shows "set infos \<subseteq> set (fst (primaryEdgesLoop c primaryWay pft g tr nids st))"
  using assms(1,2,3,5)
proof (induction nids arbitrary: i st)
  case Nil
  then show ?case by simp
next
  case (Cons nid1 rest)
  then obtain nid2 rest' where rest: "rest = nid2 # rest'" by (cases rest) auto
  let ?ws = "tr (edgeExtent (entity g nid1) (entity g nid2)) g"
  let ?st' = "intersectedLoop c primaryWay pft (entity g nid1) (entity g nid2) g ?ws st"
  have step: "primaryEdgesLoop c primaryWay pft g tr (nid1 # rest) st =
      primaryEdgesLoop c primaryWay pft g tr rest ?st'"
    using rest by (simp add: Let_def)
  show ?case
  proof (cases i)
    case 0
    have "set infos \<subseteq> set (fst ?st')"
    proof (rule intersectedLoop_complete)
      show "w \<in> set ?ws" using Cons.prems(2) 0 rest by simp
      show "eid w \<notin> snd st" by (rule Cons.prems(3))
      show "\<forall>w' \<in> set ?ws. eid w' = eid w \<longrightarrow>
           \<not> (pft = Building \<or> getFeatureTypeForCrossingCheck w' g = Some Building)"
        using assms(4) by blast
      show "candidateCrossings c primaryWay pft (entity g nid1) (entity g nid2) g {} w =
          Some (oneOnly, infos)"
        using Cons.prems(4) 0 rest by simp
    qed
    then show ?thesis
      using primaryEdgesLoop_mono[of ?st' c primaryWay pft g tr rest] step by auto
  next
    case (Suc k)
    have unmarked: "eid w \<notin> snd ?st'"
      using intersectedLoop_checked[of "eid w" c primaryWay pft "entity g nid1" "entity g nid2" g ?ws st]
        Cons.prems(3) assms(4) by blast
    have "set infos \<subseteq> set (fst (primaryEdgesLoop c primaryWay pft g tr rest ?st'))"
    proof (rule Cons.IH[of k])
      show "Suc k < length rest" using Cons.prems(1) Suc by simp
      show "w \<in> set (tr (edgeExtent (entity g (rest ! k)) (entity g (rest ! Suc k))) g)"
        using Cons.prems(2) Suc by simp
      show "eid w \<notin> snd ?st'" by (rule unmarked)
      show "candidateCrossings c primaryWay pft (entity g (rest ! k)) (entity g (rest ! Suc k)) g {} w =
          Some (oneOnly, infos)"
        using Cons.prems(4) Suc by simp
    qed
    then show ?thesis using step by simp
  qed
qed

lemma findCrossingsByWay_primary:
  "\<forall>cr \<in> set (findCrossingsByWay c primaryWay g tr). fst (ways cr) = primaryWay"
  by (rule findCrossingsByWay_all) (auto elim!: candidateCrossings_member)

lemma findCrossingsByWay_complete:
  assumes "etype primaryWay = TypeWay"
    and "getFeatureTypeForCrossingCheck primaryWay g = Some pft" and "pft \<noteq> Building"
    and "Suc i < length (nodes primaryWay)"
    and n1: "n1 = entity g (nodes primaryWay ! i)" and n2: "n2 = entity g (nodes primaryWay ! Suc i)"
    and "w \<in> set (tr (edgeExtent n1 n2) g)" and "etype w = TypeWay" and "eid w \<noteq> eid primaryWay"
    and "getFeatureTypeForCrossingCheck w g = Some wft" and "wft \<noteq> Building"
    and "\<not> isLegitCrossing primaryWay pft w wft g" and "\<not> isLegitCrossing w wft primaryWay pft g"
    and unique: "\<forall>ext. \<forall>w' \<in> set (tr ext g).
       eid w' = eid w \<longrightarrow> getFeatureTypeForCrossingCheck w' g \<noteq> Some Building"
    and len: "Suc j < length (childNodes g w)"
    and nA: "nA = childNodes g w ! j" and nB: "nB = childNodes g w ! Suc j"
    and ids: "eid nA \<noteq> eid n1" "eid nA \<noteq> eid n2" "eid nB \<noteq> eid n1" "eid nB \<noteq> eid n2"
    and meet: "geoLineIntersection c (loc n1, loc n2) (loc nA, loc nB) = Some p"
  shows "\<lparr>ways = (primaryWay, w), featureTypes = (pft, wft),
       edges = ((eid n1, eid n2), (eid nA, eid nB)), crossPoint = p\<rparr>
        \<in> set (findCrossingsByWay c primaryWay g tr)"
proof -
  let ?cr = "\<lparr>ways = (primaryWay, w), featureTypes = (pft, wft),
       edges = ((eid n1, eid n2), (eid nA, eid nB)), crossPoint = p\<rparr>"
  let ?infos = "map (\<lambda>ci. \<lparr>ways = (primaryWay, w), featureTypes = (pft, wft),
                            edges = ((eid n1, eid n2), edge ci), crossPoint = point ci\<rparr>)
                    (findEdgeToWayCrossCoords c n1 n2 w g False)"
  have cand: "candidateCrossings c primaryWay pft n1 n2 g {} w = Some (False, ?infos)"
    using assms(3,8,9,10,11,12,13) by (simp add: candidateCrossings_def Let_def)
  have "\<lparr>edge = (eid (childNodes g w ! j), eid (childNodes g w ! Suc j)), point = p\<rparr>
      \<in> set (crossCoordsLoop c n1 n2 False (childNodes g w))"
    using len ids meet unfolding nA nB by (rule crossCoordsLoop_complete)
  then have "\<lparr>edge = (eid nA, eid nB), point = p\<rparr> \<in> set (findEdgeToWayCrossCoords c n1 n2 w g False)"
    by (simp add: findEdgeToWayCrossCoords_def nA nB)
  then have "?cr \<in> (\<lambda>ci. \<lparr>ways = (primaryWay, w), featureTypes = (pft, wft),
                            edges = ((eid n1, eid n2), edge ci), crossPoint = point ci\<rparr>) `
                set (findEdgeToWayCrossCoords c n1 n2 w g False)"
    by force
  then have mem: "?cr \<in> set ?infos" by simp
  have "set ?infos \<subseteq> set (fst (primaryEdgesLoop c primaryWay pft g tr (nodes primaryWay) ([], {})))"
  proof (rule primaryEdgesLoop_complete[where i = i and w = w and oneOnly = False])
    show "Suc i < length (nodes primaryWay)" by (rule assms(4))
    show "w \<in> set (tr (edgeExtent (entity g (nodes primaryWay ! i))
                                   (entity g (nodes primaryWay ! Suc i))) g)"
      using assms(7) by (simp add: n1 n2)
    show "eid w \<notin> snd ([], {})" by simp
    show "\<forall>ext. \<forall>w' \<in> set (tr ext g). eid w' = eid w \<longrightarrow>
           \<not> (pft = Building \<or> getFeatureTypeForCrossingCheck w' g = Some Building)"
      using unique assms(3) by blast
    show "candidateCrossings c primaryWay pft (entity g (nodes primaryWay ! i))
            (entity g (nodes primaryWay ! Suc i)) g {} w = Some (False, ?infos)"
      using cand by (simp add: n1 n2)
  qed
  with mem show ?thesis
    using assms(1,2) by (auto simp: findCrossingsByWay_def)
qed

text \<open>
  Claim C3, as stated: in every validation pass in which one of the two features of a
  pair is a building, at most one crossing, hence at most one issue, is emitted for that
  unordered pair.  This fails for the validation of a building multipolygon whose member
  ways cross each other: the detection runs once on each member way, the marks of
  \<^verbatim>\<open>checkedSingleCrossingWays\<close> are local to one run, and the pair is
  reported once from each side.
\<close>

theorem one_issue_per_pair_counterexample:
  "getFeatureTypeForCrossingCheck exampleOuter1 exampleGraph = Some Building \<and>
   getFeatureTypeForCrossingCheck exampleOuter2 exampleGraph = Some Building \<and>
   map (\<lambda>cr. (eid (fst (ways cr)), eid (snd (ways cr)), edges cr, crossPoint cr))
     (validationCrossings exampleCollaborators exampleMultipolygon exampleContext) =
     [(''w6'', ''w7'', ((''n15'', ''n16''), (''n17'', ''n18'')), (11, 11)),
      (''w7'', ''w6'', ((''n17'', ''n18''), (''n15'', ''n16'')), (11, 11))] \<and>
   length (validation exampleCollaborators exampleMultipolygon exampleContext) = 2"
proof -
  have v: "map (\<lambda>cr. (eid (fst (ways cr)), eid (snd (ways cr)), edges cr, crossPoint cr))
     (validationCrossings exampleCollaborators exampleMultipolygon exampleContext) =
     [(''w6'', ''w7'', ((''n15'', ''n16''), (''n17'', ''n18'')), (11, 11)),
      (''w7'', ''w6'', ((''n17'', ''n18''), (''n15'', ''n16'')), (11, 11))]"
    by code_simp
  have "length (validation exampleCollaborators exampleMultipolygon exampleContext) =
      length (map (\<lambda>cr. (eid (fst (ways cr)), eid (snd (ways cr)), edges cr, crossPoint cr))
     (validationCrossings exampleCollaborators exampleMultipolygon exampleContext))"
    by (simp add: validation_def)
  then have "length (validation exampleCollaborators exampleMultipolygon exampleContext) = 2"
    unfolding v by simp
  with v example_feature_types(4,5) show ?thesis by blast
qed

text \<open>
  Claim C3, amended: in every run of \<^verbatim>\<open>findCrossingsByWay\<close> (one primary
  way) in which the primary way or the candidate is a building, at most one crossing is
  emitted for this candidate, however many intersections there are; every crossing of a
  run has the primary way as its first way, so the validation of a way emits at most one
  crossing, hence at most one issue, for such a pair.  When neither the primary way nor
  the candidate is a building, every intersection is reported: for every primary edge,
  every candidate way that the index returns for it (a way other than the primary way,
  with a feature type, not legitimate in either order, the index returning no building
  under its id) and every edge of the candidate that shares no node with the primary edge
  and meets it in a point, the crossing of the two edges at this point is emitted.
\<close>

theorem one_crossing_per_building_pair:
  "(getFeatureTypeForCrossingCheck primaryWay g = Some Building \<or>
    getFeatureTypeForCrossingCheck w g = Some Building \<longrightarrow>
      length (filter (\<lambda>cr. snd (ways cr) = w) (findCrossingsByWay c primaryWay g tr)) \<le> 1) \<and>
   (\<forall>cr \<in> set (findCrossingsByWay c primaryWay g tr). fst (ways cr) = primaryWay) \<and>
   (etype primaryWay = TypeWay \<and>
    (getFeatureTypeForCrossingCheck primaryWay (graph ctx) = Some Building \<or>
     getFeatureTypeForCrossingCheck w (graph ctx) = Some Building) \<longrightarrow>
      length (filter (\<lambda>cr. snd (ways cr) = w) (validationCrossings c primaryWay ctx)) \<le> 1) \<and>
   (etype primaryWay = TypeWay \<and>
    getFeatureTypeForCrossingCheck primaryWay g = Some pft \<and> pft \<noteq> Building \<and>
    Suc i < length (nodes primaryWay) \<and>
    n1 = entity g (nodes primaryWay ! i) \<and> n2 = entity g (nodes primaryWay ! Suc i) \<and>
    w \<in> set (tr (edgeExtent n1 n2) g) \<and> etype w = TypeWay \<and> eid w \<noteq> eid primaryWay \<and>
    getFeatureTypeForCrossingCheck w g = Some wft \<and> wft \<noteq> Building \<and>
    \<not> isLegitCrossing primaryWay pft w wft g \<and> \<not> isLegitCrossing w wft primaryWay pft g \<and>
    (\<forall>ext. \<forall>w' \<in> set (tr ext g).
       eid w' = eid w \<longrightarrow> getFeatureTypeForCrossingCheck w' g \<noteq> Some Building) \<and>
    Suc j < length (childNodes g w) \<and>
    nA = childNodes g w ! j \<and> nB = childNodes g w ! Suc j \<and>
    eid nA \<noteq> eid n1 \<and> eid nA \<noteq> eid n2 \<and> eid nB \<noteq> eid n1 \<and> eid nB \<noteq> eid n2 \<and>
    geoLineIntersection c (loc n1, loc n2) (loc nA, loc nB) = Some p \<longrightarrow>
      \<lparr>ways = (primaryWay, w), featureTypes = (pft, wft),
       edges = ((eid n1, eid n2), (eid nA, eid nB)), crossPoint = p\<rparr>
        \<in> set (findCrossingsByWay c primaryWay g tr))"
proof (intro conjI impI)
  assume "getFeatureTypeForCrossingCheck primaryWay g = Some Building \<or>
    getFeatureTypeForCrossingCheck w g = Some Building"
  then show "length (filter (\<lambda>cr. snd (ways cr) = w) (findCrossingsByWay c primaryWay g tr)) \<le> 1"
    by (rule findCrossingsByWay_one_only)
next
  show "\<forall>cr \<in> set (findCrossingsByWay c primaryWay g tr). fst (ways cr) = primaryWay"
    by (rule findCrossingsByWay_primary)
next
  assume a: "etype primaryWay = TypeWay \<and>
    (getFeatureTypeForCrossingCheck primaryWay (graph ctx) = Some Building \<or>
     getFeatureTypeForCrossingCheck w (graph ctx) = Some Building)"
  then have "waysToCheck primaryWay ctx = [] \<or> waysToCheck primaryWay ctx = [primaryWay]"
    by (simp add: waysToCheck_def)
  then show "length (filter (\<lambda>cr. snd (ways cr) = w) (validationCrossings c primaryWay ctx)) \<le> 1"
    using findCrossingsByWay_one_only[of primaryWay "graph ctx" w c "tree ctx"] a
    by (auto simp: validationCrossings_concat)
next
  assume "etype primaryWay = TypeWay \<and>
    getFeatureTypeForCrossingCheck primaryWay g = Some pft \<and> pft \<noteq> Building \<and>
    Suc i < length (nodes primaryWay) \<and>
    n1 = entity g (nodes primaryWay ! i) \<and> n2 = entity g (nodes primaryWay ! Suc i) \<and>
    w \<in> set (tr (edgeExtent n1 n2) g) \<and> etype w = TypeWay \<and> eid w \<noteq> eid primaryWay \<and>
    getFeatureTypeForCrossingCheck w g = Some wft \<and> wft \<noteq> Building \<and>
    \<not> isLegitCrossing primaryWay pft w wft g \<and> \<not> isLegitCrossing w wft primaryWay pft g \<and>
    (\<forall>ext. \<forall>w' \<in> set (tr ext g).
       eid w' = eid w \<longrightarrow> getFeatureTypeForCrossingCheck w' g \<noteq> Some Building) \<and>
    Suc j < length (childNodes g w) \<and>
    nA = childNodes g w ! j \<and> nB = childNodes g w ! Suc j \<and>
    eid nA \<noteq> eid n1 \<and> eid nA \<noteq> eid n2 \<and> eid nB \<noteq> eid n1 \<and> eid nB \<noteq> eid n2 \<and>
    geoLineIntersection c (loc n1, loc n2) (loc nA, loc nB) = Some p"
  then show "\<lparr>ways = (primaryWay, w), featureTypes = (pft, wft),
       edges = ((eid n1, eid n2), (eid nA, eid nB)), crossPoint = p\<rparr>
        \<in> set (findCrossingsByWay c primaryWay g tr)"
    by (elim conjE) (rule findCrossingsByWay_complete; assumption)
qed

lemma exampleTree_subset:
  "w' \<in> set (exampleTree ext exampleGraph) \<Longrightarrow> w' \<in> set (map (entity exampleGraph) exampleWayIds)"
  by (simp add: exampleTree_def)

lemma example_path_id_unique:
  "\<forall>ext. \<forall>w' \<in> set (exampleTree ext exampleGraph).
     eid w' = eid examplePath \<longrightarrow> getFeatureTypeForCrossingCheck w' exampleGraph \<noteq> Some Building"
proof (intro allI ballI impI)
  fix ext w'
  assume m: "w' \<in> set (exampleTree ext exampleGraph)" and i: "eid w' = eid examplePath"
  from m have "w' \<in> set (map (entity exampleGraph) exampleWayIds)"
    by (rule exampleTree_subset)
  then have "w' \<in> {exampleRoad, exampleStream, exampleFootway, examplePath, exampleBuilding,
      exampleOuter1, exampleOuter2, exampleSideRoad, exampleFootbridge, exampleDitch, exampleTrack}"
    by (simp add: exampleGraph_def exampleWayIds_def lookupEntity_def exampleEntities_def
        mkNode_def example_entity_defs)
  with i have "w' = examplePath"
    by (auto simp: example_entity_defs)
  then show "getFeatureTypeForCrossingCheck w' exampleGraph \<noteq> Some Building"
    by (simp add: getFeatureTypeForCrossingCheck_def getFeatureWithFeatureTypeTagsForWay_def
        classifier_defs example_entity_defs)
qed

lemma example_path_in_tree:
  "examplePath \<in> set (exampleTree (edgeExtent (entity exampleGraph (nodes exampleRoad ! 0))
      (entity exampleGraph (nodes exampleRoad ! Suc 0))) exampleGraph)"
  by (simp add: example_world_defs example_entity_defs)


theorem one_crossing_per_building_pair_witness:
  "getFeatureTypeForCrossingCheck exampleBuilding exampleGraph = Some Building \<and>
   length (findEdgeToWayCrossCoords exampleCollaborators (entity exampleGraph ''n1'')
             (entity exampleGraph ''n2'') exampleBuilding exampleGraph False) = 2 \<and>
   length (filter (\<lambda>cr. snd (ways cr) = exampleBuilding)
      (findCrossingsByWay exampleCollaborators exampleRoad exampleGraph exampleTree)) \<le> 1 \<and>
   map (\<lambda>cr. (eid (snd (ways cr)), crossPoint cr))
      (findCrossingsByWay exampleCollaborators exampleRoad exampleGraph exampleTree) =
     [(''w2'', (1/2, 0)), (''w3'', (2, 0)), (''w4'', (1, 0)), (''w4'', (3/2, 0)), (''w5'', (3, 0))] \<and>
   getFeatureTypeForCrossingCheck exampleRoad exampleGraph = Some Highway \<and>
   getFeatureTypeForCrossingCheck examplePath exampleGraph = Some Highway \<and>
   \<not> isLegitCrossing exampleRoad Highway examplePath Highway exampleGraph \<and>
   \<not> isLegitCrossing examplePath Highway exampleRoad Highway exampleGraph \<and>
   geoLineIntersection exampleCollaborators ((0, 0), (4, 0)) ((3/2, 1), (3/2, -1)) = Some (3/2, 0) \<and>
   \<lparr>ways = (exampleRoad, examplePath), featureTypes = (Highway, Highway),
     edges = ((''n1'', ''n2''), (''n9'', ''n10'')), crossPoint = (3/2, 0)\<rparr>
     \<in> set (findCrossingsByWay exampleCollaborators exampleRoad exampleGraph exampleTree)"
proof -
  let ?c = exampleCollaborators and ?g = exampleGraph
  let ?n1 = "entity ?g (nodes exampleRoad ! 0)" and ?n2 = "entity ?g (nodes exampleRoad ! Suc 0)"
  let ?nA = "childNodes ?g examplePath ! 2" and ?nB = "childNodes ?g examplePath ! Suc 2"
  have tb: "getFeatureTypeForCrossingCheck exampleBuilding ?g = Some Building"
    and tr: "getFeatureTypeForCrossingCheck exampleRoad ?g = Some Highway"
    and tp: "getFeatureTypeForCrossingCheck examplePath ?g = Some Highway"
    by (simp_all add: getFeatureTypeForCrossingCheck_def getFeatureWithFeatureTypeTagsForWay_def
        classifier_defs example_entity_defs)
  have two: "length (findEdgeToWayCrossCoords ?c (entity ?g ''n1'') (entity ?g ''n2'')
      exampleBuilding ?g False) = 2"
    by code_simp
  have all: "map (\<lambda>cr. (eid (snd (ways cr)), crossPoint cr))
      (findCrossingsByWay ?c exampleRoad ?g exampleTree) =
     [(''w2'', (1/2, 0)), (''w3'', (2, 0)), (''w4'', (1, 0)), (''w4'', (3/2, 0)), (''w5'', (3, 0))]"
    by code_simp
  have one: "length (filter (\<lambda>cr. snd (ways cr) = exampleBuilding)
      (findCrossingsByWay ?c exampleRoad ?g exampleTree)) \<le> 1"
    using one_crossing_per_building_pair[of exampleRoad ?g exampleBuilding ?c exampleTree,
        THEN conjunct1] tb by simp
  have l1: "\<not> isLegitCrossing exampleRoad Highway examplePath Highway ?g"
    and l2: "\<not> isLegitCrossing examplePath Highway exampleRoad Highway ?g"
    by (simp_all add: legit_defs classifier_defs example_entity_defs Let_def)
  have nodes: "?n1 = mkNode ''n1'' (0, 0)" "?n2 = mkNode ''n2'' (4, 0)"
    "?nA = mkNode ''n9'' (3/2, 1)" "?nB = mkNode ''n10'' (3/2, -1)"
    by (simp_all add: exampleGraph_def lookupEntity_def exampleEntities_def example_entity_defs)
  have nodes3: "childNodes ?g examplePath ! 3 = mkNode ''n10'' (3/2, -1)"
    using nodes(4) by simp
  have meet: "geoLineIntersection ?c ((0, 0), (4, 0)) ((3/2, 1), (3/2, -1)) = Some (3/2, 0)"
    by code_simp
  have hyps: "etype exampleRoad = TypeWay \<and>
    getFeatureTypeForCrossingCheck exampleRoad ?g = Some Highway \<and> Highway \<noteq> Building \<and>
    Suc 0 < length (nodes exampleRoad) \<and>
    ?n1 = entity ?g (nodes exampleRoad ! 0) \<and> ?n2 = entity ?g (nodes exampleRoad ! Suc 0) \<and>
    examplePath \<in> set (exampleTree (edgeExtent ?n1 ?n2) ?g) \<and> etype examplePath = TypeWay \<and>
    eid examplePath \<noteq> eid exampleRoad \<and>
    getFeatureTypeForCrossingCheck examplePath ?g = Some Highway \<and> Highway \<noteq> Building \<and>
    \<not> isLegitCrossing exampleRoad Highway examplePath Highway ?g \<and>
    \<not> isLegitCrossing examplePath Highway exampleRoad Highway ?g \<and>
    (\<forall>ext. \<forall>w' \<in> set (exampleTree ext ?g).
       eid w' = eid examplePath \<longrightarrow> getFeatureTypeForCrossingCheck w' ?g \<noteq> Some Building) \<and>
    Suc 2 < length (childNodes ?g examplePath) \<and>
    ?nA = childNodes ?g examplePath ! 2 \<and> ?nB = childNodes ?g examplePath ! Suc 2 \<and>
    eid ?nA \<noteq> eid ?n1 \<and> eid ?nA \<noteq> eid ?n2 \<and> eid ?nB \<noteq> eid ?n1 \<and> eid ?nB \<noteq> eid ?n2 \<and>
    geoLineIntersection ?c (loc ?n1, loc ?n2) (loc ?nA, loc ?nB) = Some (3/2, 0)"
  proof (intro conjI)
    show "examplePath \<in> set (exampleTree (edgeExtent ?n1 ?n2) ?g)"
      by (rule example_path_in_tree)
    show "\<forall>ext. \<forall>w' \<in> set (exampleTree ext ?g).
       eid w' = eid examplePath \<longrightarrow> getFeatureTypeForCrossingCheck w' ?g \<noteq> Some Building"
      by (rule example_path_id_unique)
    show "geoLineIntersection ?c (loc ?n1, loc ?n2) (loc ?nA, loc ?nB) = Some (3/2, 0)"
      unfolding nodes using meet by (simp add: mkNode_def)
    show "Suc 2 < length (childNodes ?g examplePath)"
      by (simp add: exampleGraph_def example_entity_defs)
  qed (simp_all add: tr tp l1 l2 nodes nodes3 mkNode_def, simp_all add: example_entity_defs)
  have "\<lparr>ways = (exampleRoad, examplePath), featureTypes = (Highway, Highway),
       edges = ((eid ?n1, eid ?n2), (eid ?nA, eid ?nB)), crossPoint = (3/2, 0)\<rparr>
        \<in> set (findCrossingsByWay ?c exampleRoad ?g exampleTree)"
    by (rule one_crossing_per_building_pair[where primaryWay = exampleRoad and g = ?g
          and w = examplePath and c = ?c and tr = exampleTree and pft = Highway and wft = Highway
          and i = 0 and j = 2 and ?n1.0 = ?n1 and ?n2.0 = ?n2 and nA = ?nA and nB = ?nB
          and p = "(3/2, 0)",
          THEN conjunct2, THEN conjunct2, THEN conjunct2, THEN mp, OF hyps])
  then have rep: "\<lparr>ways = (exampleRoad, examplePath), featureTypes = (Highway, Highway),
     edges = ((''n1'', ''n2''), (''n9'', ''n10'')), crossPoint = (3/2, 0)\<rparr>
     \<in> set (findCrossingsByWay ?c exampleRoad ?g exampleTree)"
    unfolding nodes by (simp add: mkNode_def)
  from tb two one all tr tp l1 l2 meet rep show ?thesis by blast
qed


section \<open>Node lists under the graph actions\<close>

lemma hasEdge_in_set: "hasEdge e xs \<Longrightarrow> fst e \<in> set xs \<and> snd e \<in> set xs"
  by (induction e xs rule: hasEdge.induct) auto

lemma set_insertMidpoint: "set xs \<subseteq> set (insertMidpoint e n xs)"
  by (induction e n xs rule: insertMidpoint.induct) auto

lemma insertMidpoint_hd: "insertMidpoint e n (x # xs) = x # tl (insertMidpoint e n (x # xs))"
  by (cases xs) auto

lemma insertMidpoint_member:
  "hasEdge e xs \<or> hasEdge (snd e, fst e) xs \<Longrightarrow> n \<in> set (insertMidpoint e n xs)"
  by (induction e n xs rule: insertMidpoint.induct) auto

lemma hasEdge_insertMidpoint_old:
  assumes "n \<noteq> fst d" "n \<noteq> snd d"
  shows "hasEdge d (insertMidpoint e n xs) \<longleftrightarrow>
         hasEdge d xs \<and> d \<noteq> e \<and> d \<noteq> (snd e, fst e)"
  using assms
proof (induction e n xs rule: insertMidpoint.induct)
  case (1 e n x y rest)
  obtain z zs where z: "insertMidpoint e n (y # rest) = z # zs" "z = y"
    using insertMidpoint_hd[of e n y rest] by auto
  show ?case
    using 1 z by (cases d; cases e) auto
qed auto

lemma hasEdge_map:
  "hasEdge (u, v) (map r xs) \<longleftrightarrow> (\<exists>u' v'. hasEdge (u', v') xs \<and> r u' = u \<and> r v' = v)"
proof (induction xs rule: induct_list012)
  case (3 x y zs)
  then show ?case by (auto 4 4)
qed auto

lemma entity_modelReplace:
  "entity (modelReplace e g) i = (if i = eid e then e else entity g i)"
  by (simp add: modelReplace_def)

lemma entity_mapEntities: "entity (mapEntities f g) i = f (entity g i)"
  by (simp add: mapEntities_def)

lemma entity_modelAddMidpoint:
  "entity (modelAddMidpoint l e n g) i =
     (let x = (if i = eid n then n\<lparr>loc := l\<rparr> else entity g i)
      in if etype x = TypeWay then x\<lparr>nodes := insertMidpoint e (eid n) (nodes x)\<rparr> else x)"
  by (simp add: modelAddMidpoint_def entity_mapEntities entity_modelReplace Let_def)

lemma entity_modelMergeNodes:
  "2 \<le> length ids \<Longrightarrow>
   entity (modelMergeNodes ids l g) i =
     (let x = entity g i
      in if etype x = TypeWay
           then x\<lparr>nodes := map (\<lambda>k. if k \<in> set ids then last ids else k) (nodes x)\<rparr>
         else if eid x = last ids then x\<lparr>loc := l\<rparr>
         else x)"
  by (simp add: modelMergeNodes_def entity_mapEntities Let_def)

lemma resolves_modelReplace: "resolvesChildNodes (modelReplace e g)"
  by (simp add: resolvesChildNodes_def modelReplace_def)

lemma resolves_mapEntities: "resolvesChildNodes (mapEntities f g)"
  by (simp add: resolvesChildNodes_def mapEntities_def)

lemma resolves_modelAddMidpoint: "resolvesChildNodes (modelAddMidpoint l e n g)"
  by (simp add: modelAddMidpoint_def resolves_mapEntities)

lemma resolves_modelMergeNodes:
  "resolvesChildNodes g \<Longrightarrow> resolvesChildNodes (modelMergeNodes ids l g)"
  by (simp add: modelMergeNodes_def resolves_mapEntities Let_def)

lemma crossing_edges_share_no_node:
  "\<forall>cr \<in> set (findCrossingsByWay c primaryWay g tr).
     \<not> (j \<in> {fst (fst (edges cr)), snd (fst (edges cr))} \<and>
        j \<in> {fst (snd (edges cr)), snd (snd (edges cr))})"
proof (rule findCrossingsByWay_all)
  fix pft m1 m2 w' chk oneOnly infos cr
  assume some: "candidateCrossings c primaryWay pft m1 m2 g chk w' = Some (oneOnly, infos)"
    and cr: "cr \<in> set infos"
  from candidateCrossings_member[OF some cr] obtain wft ci where
    ci: "ci \<in> set (crossCoordsLoop c m1 m2 oneOnly (childNodes g w'))"
    and e: "cr = \<lparr>ways = (primaryWay, w'), featureTypes = (pft, wft),
           edges = ((eid m1, eid m2), edge ci), crossPoint = point ci\<rparr>"
    by blast
  from crossCoordsLoop_no_shared_node[OF ci] e
  show "\<not> (j \<in> {fst (fst (edges cr)), snd (fst (edges cr))} \<and>
        j \<in> {fst (snd (edges cr)), snd (snd (edges cr))})"
    by auto
qed

lemma validationCrossings_share_no_node:
  "\<forall>cr \<in> set (validationCrossings c ent ctx).
     \<not> (j \<in> {fst (fst (edges cr)), snd (fst (edges cr))} \<and>
        j \<in> {fst (snd (edges cr)), snd (snd (edges cr))})"
  using crossing_edges_share_no_node[of c _ "graph ctx" "tree ctx" j]
  by (auto simp: validationCrossings_concat)


section \<open>Connecting two crossing edges\<close>

lemma rename_fixed:
  "k \<notin> set ids \<Longrightarrow> (if k \<in> set ids then last ids else k) = k"
  by simp

lemma connect_edges_round_trip:
  assumes prims: "replace c = modelReplace" "actionAddMidpoint c = modelAddMidpoint"
      "actionMergeNodes c = modelMergeNodes"
    and closest: "\<And>ns p. ns \<noteq> [] \<Longrightarrow> closestNode (geoSphericalClosestNode c ns p) \<in> set ns"
    and stored: "\<And>i. eid (entity g i) = i"
    and new: "etype (osmNode c l ts) = TypeNode"
      "eid (osmNode c l ts) \<notin> {a, b, x, y, pid, wid}"
    and ways: "etype (entity g pid) = TypeWay" "hasEdge (a, b) (nodes (entity g pid))"
      "etype (entity g wid) = TypeWay" "hasEdge (x, y) (nodes (entity g wid))"
    and apart: "{a, b} \<inter> {x, y} = {}"
    and nds: "etype (entity g a) = TypeNode" "etype (entity g b) = TypeNode"
      "etype (entity g x) = TypeNode" "etype (entity g y) = TypeNode"
  shows "\<exists>j. loc (entity (actionConnectCrossingWays c l ts [(a, b), (x, y)] g) j) = l \<and>
      j \<in> set (nodes (entity (actionConnectCrossingWays c l ts [(a, b), (x, y)] g) pid)) \<and>
      j \<in> set (nodes (entity (actionConnectCrossingWays c l ts [(a, b), (x, y)] g) wid)) \<and>
      (\<forall>i. etype (entity (actionConnectCrossingWays c l ts [(a, b), (x, y)] g) i) = TypeWay \<longrightarrow>
         (\<forall>d \<in> {(a, b), (b, a), (x, y), (y, x)}.
            hasEdge d (nodes (entity (actionConnectCrossingWays c l ts [(a, b), (x, y)] g) i)) \<longrightarrow>
            j = fst d \<or> j = snd d)) \<and>
      resolvesChildNodes (actionConnectCrossingWays c l ts [(a, b), (x, y)] g) \<and>
      (\<forall>ent ctx. graph ctx = actionConnectCrossingWays c l ts [(a, b), (x, y)] g \<longrightarrow>
         (\<forall>cr \<in> set (validationCrossings c ent ctx).
            \<not> (j \<in> {fst (fst (edges cr)), snd (fst (edges cr))} \<and>
               j \<in> {fst (snd (edges cr)), snd (snd (edges cr))})))"
proof -
  define n where "n = osmNode c l ts"
  define nid where "nid = eid n"
  define g1 where "g1 = modelReplace n g"
  define g' where "g' = actionConnectCrossingWays c l ts [(a, b), (x, y)] g"
  have fresh: "nid \<noteq> a" "nid \<noteq> b" "nid \<noteq> x" "nid \<noteq> y" "nid \<noteq> pid" "nid \<noteq> wid"
    using new(2) by (auto simp: nid_def n_def)
  have n_node: "etype n = TypeNode" using new(1) by (simp add: n_def)
  have g1: "entity g1 i = (if i = nid then n else entity g i)" for i
    by (simp add: g1_def entity_modelReplace nid_def)
  have mem_ab: "a \<in> set (nodes (entity g pid))" "b \<in> set (nodes (entity g pid))"
    using hasEdge_in_set[OF ways(2)] by simp_all
  have mem_xy: "x \<in> set (nodes (entity g wid))" "y \<in> set (nodes (entity g wid))"
    using hasEdge_in_set[OF ways(4)] by simp_all
  have xy_ab: "x \<noteq> a" "x \<noteq> b" "y \<noteq> a" "y \<noteq> b" using apart by auto
  \<comment> \<open>the node that is closest to the crossing is one of the two nodes of the edge\<close>
  have pick: "eid (closestNode (geoSphericalClosestNode c [entity G u, entity G v] l)) \<in> {u, v}"
    if "entity G u = entity g u" "entity G v = entity g v" for G u v
    using closest[of "[entity G u, entity G v]" l] that stored by auto
  let ?far = "\<lambda>G e. \<not> distance (geoSphericalClosestNode c [entity G (fst e), entity G (snd e)] l)
                        < mergeThresholdInMeters"
  let ?m = "\<lambda>G e. eid (closestNode (geoSphericalClosestNode c [entity G (fst e), entity G (snd e)] l))"
  define gA where "gA = (if ?far g1 (a, b) then modelAddMidpoint l (a, b) n g1 else g1)"
  define m1 where "m1 = ?m g1 (a, b)"
  define m2 where "m2 = ?m gA (x, y)"
  have gA_nodes: "entity gA k = entity g k" if "k \<in> {a, b, x, y}" for k
    using that nds fresh
    by (auto simp: gA_def g1 entity_modelAddMidpoint Let_def nid_def[symmetric])
  have m1: "m1 \<in> {a, b}"
    unfolding m1_def using pick[of g1 a b] fresh by (simp add: g1)
  have m2: "m2 \<in> {x, y}"
    unfolding m2_def using pick[of gA x y] gA_nodes by simp
  have unfolded: "g' =
      (let gB = (if ?far gA (x, y) then modelAddMidpoint l (x, y) n gA else gA);
           ids = [nid] @ (if ?far g1 (a, b) then [] else [m1]) @ (if ?far gA (x, y) then [] else [m2])
       in if length ids > 1 then modelMergeNodes ids l gB else gB)"
    by (simp add: g'_def actionConnectCrossingWays_def prims Let_def gA_def m1_def m2_def
        n_def[symmetric] nid_def[symmetric] g1_def[symmetric])
  have shared: "\<forall>ent ctx. graph ctx = g' \<longrightarrow>
         (\<forall>cr \<in> set (validationCrossings c ent ctx).
            \<not> (j \<in> {fst (fst (edges cr)), snd (fst (edges cr))} \<and>
               j \<in> {fst (snd (edges cr)), snd (snd (edges cr))}))" for j
    using validationCrossings_share_no_node by blast
  have main: "\<exists>j. loc (entity g' j) = l \<and>
      j \<in> set (nodes (entity g' pid)) \<and> j \<in> set (nodes (entity g' wid)) \<and>
      (\<forall>i. etype (entity g' i) = TypeWay \<longrightarrow>
         (\<forall>d \<in> {(a, b), (b, a), (x, y), (y, x)}.
            hasEdge d (nodes (entity g' i)) \<longrightarrow> j = fst d \<or> j = snd d))"
  proof (cases "?far g1 (a, b)")
    case far1: True
    then have gA: "gA = modelAddMidpoint l (a, b) n g1" by (simp add: gA_def)
    have gA_ent: "entity gA i =
        (let z = (if i = nid then n\<lparr>loc := l\<rparr> else entity g i)
         in if etype z = TypeWay then z\<lparr>nodes := insertMidpoint (a, b) nid (nodes z)\<rparr> else z)" for i
      by (simp add: gA entity_modelAddMidpoint g1 nid_def[symmetric] Let_def)
    show ?thesis
    proof (cases "?far gA (x, y)")
      case far2: True
      have g'_eq: "g' = modelAddMidpoint l (x, y) n gA"
        using far1 far2 by (simp add: unfolded)
      have ent: "entity g' i =
        (if i = nid then n\<lparr>loc := l\<rparr>
         else if etype (entity g i) = TypeWay
           then (entity g i)\<lparr>nodes :=
                  insertMidpoint (x, y) nid (insertMidpoint (a, b) nid (nodes (entity g i)))\<rparr>
         else entity g i)" for i
        by (simp add: g'_eq entity_modelAddMidpoint gA_ent nid_def[symmetric] Let_def n_node)
      have "loc (entity g' nid) = l" by (simp add: ent n_node)
      moreover have "nid \<in> set (nodes (entity g' pid))"
        using fresh ways(1,2) insertMidpoint_member[of "(a, b)" "nodes (entity g pid)" nid]
          set_insertMidpoint[of "insertMidpoint (a, b) nid (nodes (entity g pid))" "(x, y)" nid]
        by (auto simp: ent Let_def)
      moreover have "nid \<in> set (nodes (entity g' wid))"
        using fresh ways(3,4) xy_ab
          insertMidpoint_member[of "(x, y)" "insertMidpoint (a, b) nid (nodes (entity g wid))" nid]
        by (simp add: ent hasEdge_insertMidpoint_old)
      moreover have "\<not> hasEdge d (nodes (entity g' i))"
        if "etype (entity g' i) = TypeWay" "d \<in> {(a, b), (b, a), (x, y), (y, x)}" for i d
        using that fresh n_node
        by (auto simp: ent Let_def hasEdge_insertMidpoint_old split: if_splits)
      ultimately show ?thesis by blast
    next
      case near2: False
      have g'_eq: "g' = modelMergeNodes [nid, m2] l gA"
        using far1 near2 by (simp add: unfolded)
      have m2_node: "etype (entity g m2) = TypeNode" "m2 \<noteq> nid" "m2 \<noteq> a" "m2 \<noteq> b"
        using m2 nds fresh xy_ab by auto
      have ent: "entity g' i =
        (if i = nid then n\<lparr>loc := l\<rparr>
         else if etype (entity g i) = TypeWay
           then (entity g i)\<lparr>nodes := map (\<lambda>k. if k = nid \<or> k = m2 then m2 else k)
                                  (insertMidpoint (a, b) nid (nodes (entity g i)))\<rparr>
         else if i = m2 then (entity g i)\<lparr>loc := l\<rparr>
         else entity g i)" for i
        using m2_node(2)
        by (simp add: g'_eq entity_modelMergeNodes gA_ent Let_def n_node stored nid_def[symmetric])
      have "loc (entity g' m2) = l" using m2_node stored by (simp add: ent)
      moreover have "m2 \<in> set (nodes (entity g' pid))"
        using fresh ways(1,2) insertMidpoint_member[of "(a, b)" "nodes (entity g pid)" nid]
        by (force simp: ent)
      moreover have "m2 \<in> set (nodes (entity g' wid))"
      proof -
        have "m2 \<in> set (insertMidpoint (a, b) nid (nodes (entity g wid)))"
          using m2 mem_xy set_insertMidpoint[of "nodes (entity g wid)" "(a, b)" nid] by auto
        then show ?thesis using fresh ways(3) by (force simp: ent)
      qed
      moreover have "m2 = fst d \<or> m2 = snd d"
        if "etype (entity g' i) = TypeWay" "d \<in> {(a, b), (b, a), (x, y), (y, x)}"
          "hasEdge d (nodes (entity g' i))" for i d
      proof (cases "d \<in> {(x, y), (y, x)}")
        case True
        then show ?thesis
          using that(3) hasEdge_in_set[OF that(3)] m2 that(1) fresh n_node
          by (auto simp: ent Let_def hasEdge_map split: if_splits)
      next
        case False
        then have d: "d = (a, b) \<or> d = (b, a)" using that(2) by auto
        have way: "i \<noteq> nid" "etype (entity g i) = TypeWay"
          using that(1) n_node by (auto simp: ent Let_def split: if_splits)
        from that(3) way obtain u v where
          uv: "hasEdge (u, v) (insertMidpoint (a, b) nid (nodes (entity g i)))"
            "(if u = nid \<or> u = m2 then m2 else u) = fst d"
            "(if v = nid \<or> v = m2 then m2 else v) = snd d"
          by (cases d) (auto simp: ent hasEdge_map)
        from uv(2,3) d m2_node have "u = fst d" "v = snd d"
          by (auto split: if_splits)
        with uv(1) d fresh have False
          by (auto simp: hasEdge_insertMidpoint_old)
        then show ?thesis ..
      qed
      ultimately show ?thesis by blast
    qed
  next
    case near1: False
    then have gA: "gA = g1" by (simp add: gA_def)
    have m1_node: "etype (entity g m1) = TypeNode" "m1 \<noteq> nid" "m1 \<noteq> x" "m1 \<noteq> y"
      using m1 nds fresh xy_ab by auto
    show ?thesis
    proof (cases "?far gA (x, y)")
      case far2: True
      have g'_eq: "g' = modelMergeNodes [nid, m1] l (modelAddMidpoint l (x, y) n g1)"
        using near1 far2 gA by (simp add: unfolded)
      have ent: "entity g' i =
        (if i = nid then n\<lparr>loc := l\<rparr>
         else if etype (entity g i) = TypeWay
           then (entity g i)\<lparr>nodes := map (\<lambda>k. if k = nid \<or> k = m1 then m1 else k)
                                  (insertMidpoint (x, y) nid (nodes (entity g i)))\<rparr>
         else if i = m1 then (entity g i)\<lparr>loc := l\<rparr>
         else entity g i)" for i
        using m1_node(2)
        by (simp add: g'_eq entity_modelMergeNodes entity_modelAddMidpoint g1 nid_def[symmetric]
            Let_def n_node stored)
      have "loc (entity g' m1) = l" using m1_node stored by (simp add: ent)
      moreover have "m1 \<in> set (nodes (entity g' wid))"
        using fresh ways(3,4) insertMidpoint_member[of "(x, y)" "nodes (entity g wid)" nid]
        by (force simp: ent)
      moreover have "m1 \<in> set (nodes (entity g' pid))"
      proof -
        have "m1 \<in> set (insertMidpoint (x, y) nid (nodes (entity g pid)))"
          using m1 mem_ab set_insertMidpoint[of "nodes (entity g pid)" "(x, y)" nid] by auto
        then show ?thesis using fresh ways(1) by (force simp: ent)
      qed
      moreover have "m1 = fst d \<or> m1 = snd d"
        if "etype (entity g' i) = TypeWay" "d \<in> {(a, b), (b, a), (x, y), (y, x)}"
          "hasEdge d (nodes (entity g' i))" for i d
      proof (cases "d \<in> {(a, b), (b, a)}")
        case True
        then show ?thesis using m1 by auto
      next
        case False
        then have d: "d = (x, y) \<or> d = (y, x)" using that(2) by auto
        have way: "i \<noteq> nid" "etype (entity g i) = TypeWay"
          using that(1) n_node by (auto simp: ent Let_def split: if_splits)
        from that(3) way obtain u v where
          uv: "hasEdge (u, v) (insertMidpoint (x, y) nid (nodes (entity g i)))"
            "(if u = nid \<or> u = m1 then m1 else u) = fst d"
            "(if v = nid \<or> v = m1 then m1 else v) = snd d"
          by (cases d) (auto simp: ent hasEdge_map)
        from uv(2,3) d m1_node have "u = fst d" "v = snd d"
          by (auto split: if_splits)
        with uv(1) d fresh have False
          by (auto simp: hasEdge_insertMidpoint_old)
        then show ?thesis ..
      qed
      ultimately show ?thesis by blast
    next
      case near2: False
      have g'_eq: "g' = modelMergeNodes [nid, m1, m2] l g1"
        using near1 near2 gA by (simp add: unfolded)
      have m2_node: "etype (entity g m2) = TypeNode" "m2 \<noteq> nid" "m2 \<noteq> a" "m2 \<noteq> b"
        using m2 nds fresh xy_ab by auto
      have ent: "entity g' i =
        (if i = nid then n
         else if etype (entity g i) = TypeWay
           then (entity g i)\<lparr>nodes := map (\<lambda>k. if k = nid \<or> k = m1 \<or> k = m2 then m2 else k)
                                  (nodes (entity g i))\<rparr>
         else if i = m2 then (entity g i)\<lparr>loc := l\<rparr>
         else entity g i)" for i
        using m2_node(2)
        by (simp add: g'_eq entity_modelMergeNodes g1 Let_def n_node stored nid_def[symmetric])
      have "loc (entity g' m2) = l" using m2_node stored by (simp add: ent)
      moreover have "m2 \<in> set (nodes (entity g' pid))"
        using fresh ways(1) m1 mem_ab by (force simp: ent)
      moreover have "m2 \<in> set (nodes (entity g' wid))"
        using fresh ways(3) m2 mem_xy by (force simp: ent)
      moreover have "m2 = fst d \<or> m2 = snd d"
        if "etype (entity g' i) = TypeWay" "d \<in> {(a, b), (b, a), (x, y), (y, x)}"
          "hasEdge d (nodes (entity g' i))" for i d
      proof (cases "d \<in> {(x, y), (y, x)}")
        case True
        then show ?thesis using m2 by auto
      next
        case False
        then have d: "d = (a, b) \<or> d = (b, a)" using that(2) by auto
        have way: "i \<noteq> nid" "etype (entity g i) = TypeWay"
          using that(1) n_node by (auto simp: ent Let_def split: if_splits)
        from that(3) way obtain u v where
          uv: "(if u = nid \<or> u = m1 \<or> u = m2 then m2 else u) = fst d"
            "(if v = nid \<or> v = m1 \<or> v = m2 then m2 else v) = snd d"
          by (cases d) (auto simp: ent hasEdge_map)
        from uv d m2_node m1 have False
          by (auto split: if_splits)
        then show ?thesis ..
      qed
      ultimately show ?thesis by blast
    qed
  qed
  have resolves: "resolvesChildNodes g'"
    by (cases "?far g1 (a, b)"; cases "?far gA (x, y)")
       (simp_all add: unfolded gA_def g1_def resolves_modelAddMidpoint resolves_modelReplace
          resolves_modelMergeNodes)
  from main shared resolves show ?thesis
    unfolding g'_def by blast
qed


section \<open>Where a reported crossing comes from\<close>

lemma crossCoordsLoop_edge:
  "ci \<in> set (crossCoordsLoop c n1 n2 oneOnly nds) \<Longrightarrow> hasEdge (edge ci) (map eid nds)"
  by (induction c n1 n2 oneOnly nds rule: crossCoordsLoop.induct)
     (auto split: if_splits option.splits)

lemma intersectedLoop_origin:
  assumes "cr \<in> set (fst (intersectedLoop c primaryWay pft n1 n2 g ws st))"
  shows "cr \<in> set (fst st) \<or>
     (\<exists>w \<in> set ws. \<exists>chk oneOnly infos.
        candidateCrossings c primaryWay pft n1 n2 g chk w = Some (oneOnly, infos) \<and> cr \<in> set infos)"
  using assms
proof (induction ws arbitrary: st)
  case Nil
  then show ?case by simp
next
  case (Cons w' ws)
  obtain infos0 checked where st: "st = (infos0, checked)" by (cases st)
  show ?case
  proof (cases "candidateCrossings c primaryWay pft n1 n2 g checked w'")
    case None
    then show ?thesis using Cons.IH[of st] Cons.prems st by auto
  next
    case (Some r)
    obtain oneOnly infos where r: "r = (oneOnly, infos)" by (cases r)
    let ?st' = "(infos0 @ infos, if oneOnly \<and> infos \<noteq> [] then insert (eid w') checked else checked)"
    have "cr \<in> set (fst (intersectedLoop c primaryWay pft n1 n2 g ws ?st'))"
      using Cons.prems Some r st by simp
    from Cons.IH[OF this] show ?thesis
      using Some r st by auto
  qed
qed

lemma primaryEdgesLoop_origin:
  assumes "cr \<in> set (fst (primaryEdgesLoop c primaryWay pft g tr nids st))"
  shows "cr \<in> set (fst st) \<or>
     (\<exists>nid1 nid2. hasEdge (nid1, nid2) nids \<and>
        (\<exists>w \<in> set (tr (edgeExtent (entity g nid1) (entity g nid2)) g). \<exists>chk oneOnly infos.
           candidateCrossings c primaryWay pft (entity g nid1) (entity g nid2) g chk w =
             Some (oneOnly, infos) \<and> cr \<in> set infos))"
  using assms
proof (induction nids arbitrary: st)
  case Nil
  then show ?case by simp
next
  case (Cons nid1 rest)
  show ?case
  proof (cases rest)
    case Nil
    then show ?thesis using Cons.prems by simp
  next
    case (Cons nid2 rest')
    let ?ws = "tr (edgeExtent (entity g nid1) (entity g nid2)) g"
    let ?st' = "intersectedLoop c primaryWay pft (entity g nid1) (entity g nid2) g ?ws st"
    have "cr \<in> set (fst (primaryEdgesLoop c primaryWay pft g tr rest ?st'))"
      using Cons.prems Cons by (simp add: Let_def)
    from Cons.IH[OF this] show ?thesis
    proof
      assume "cr \<in> set (fst ?st')"
      from intersectedLoop_origin[OF this] show ?thesis
      proof
        assume "cr \<in> set (fst st)"
        then show ?thesis by simp
      next
        assume "\<exists>w \<in> set ?ws. \<exists>chk oneOnly infos.
          candidateCrossings c primaryWay pft (entity g nid1) (entity g nid2) g chk w =
            Some (oneOnly, infos) \<and> cr \<in> set infos"
        moreover have "hasEdge (nid1, nid2) (nid1 # rest)" using Cons by simp
        ultimately show ?thesis by blast
      qed
    next
      assume "\<exists>nid1 nid2. hasEdge (nid1, nid2) rest \<and>
        (\<exists>w \<in> set (tr (edgeExtent (entity g nid1) (entity g nid2)) g). \<exists>chk oneOnly infos.
           candidateCrossings c primaryWay pft (entity g nid1) (entity g nid2) g chk w =
             Some (oneOnly, infos) \<and> cr \<in> set infos)"
      then obtain k1 k2 where "hasEdge (k1, k2) rest"
        "\<exists>w \<in> set (tr (edgeExtent (entity g k1) (entity g k2)) g). \<exists>chk oneOnly infos.
           candidateCrossings c primaryWay pft (entity g k1) (entity g k2) g chk w =
             Some (oneOnly, infos) \<and> cr \<in> set infos"
        by blast
      moreover from this(1) have "hasEdge (k1, k2) (nid1 # rest)" using Cons by simp
      ultimately show ?thesis by blast
    qed
  qed
qed

lemma findCrossingsByWay_origin:
  assumes "cr \<in> set (findCrossingsByWay c primaryWay g tr)"
  obtains nid1 nid2 w ext ci oneOnly pft wft where
    "etype primaryWay = TypeWay" "hasEdge (nid1, nid2) (nodes primaryWay)"
    "w \<in> set (tr ext g)" "etype w = TypeWay"
    "ci \<in> set (crossCoordsLoop c (entity g nid1) (entity g nid2) oneOnly (childNodes g w))"
    "cr = \<lparr>ways = (primaryWay, w), featureTypes = (pft, wft),
           edges = ((eid (entity g nid1), eid (entity g nid2)), edge ci), crossPoint = point ci\<rparr>"
proof -
  from assms have way: "etype primaryWay = TypeWay"
    by (auto simp: findCrossingsByWay_def split: if_splits)
  with assms obtain pft where
    "cr \<in> set (fst (primaryEdgesLoop c primaryWay pft g tr (nodes primaryWay) ([], {})))"
    by (auto simp: findCrossingsByWay_def split: option.splits)
  from primaryEdgesLoop_origin[OF this] obtain nid1 nid2 w chk oneOnly infos where
    e: "hasEdge (nid1, nid2) (nodes primaryWay)"
    and w: "w \<in> set (tr (edgeExtent (entity g nid1) (entity g nid2)) g)"
    and some: "candidateCrossings c primaryWay pft (entity g nid1) (entity g nid2) g chk w =
             Some (oneOnly, infos)"
    and cr: "cr \<in> set infos"
    by auto
  from candidateCrossings_Some[OF some] have wway: "etype w = TypeWay" by simp
  from candidateCrossings_member[OF some cr] obtain wft ci where
    "ci \<in> set (crossCoordsLoop c (entity g nid1) (entity g nid2) oneOnly (childNodes g w))"
    "cr = \<lparr>ways = (primaryWay, w), featureTypes = (pft, wft),
           edges = ((eid (entity g nid1), eid (entity g nid2)), edge ci), crossPoint = point ci\<rparr>"
    by blast
  with way e w wway show thesis using that by blast
qed

lemma connect_fix_action:
  assumes "f \<in> set (issueFixes (createIssue c crossing ctx))" and "onClick f = Some act"
  obtains ts where
    "act = actionConnectCrossingWays c (crossPoint crossing) ts [fst (edges crossing), snd (edges crossing)]"
  using assms by (auto simp: createIssue_def Let_def split: option.splits)


section \<open>The connective fix followed by the validation\<close>

text \<open>
  Claim C9.  Let a crossing be found for a way of the graph, and let the action of a fix
  of its issue be applied to the graph (the only fix with an action is the connective
  one).  Then there is a junction node at the crossing location that is a node of both
  ways; every way that still holds one of the two crossing edges, in either direction, has
  the junction node as an end of it (so the edges were split at the junction node or had
  one end merged into it); the new graph still resolves the child nodes of its ways; and
  the validation of any entity in the new graph, with any tree, reports no crossing
  between an edge through the junction node and another edge through the junction node:
  two edges that share a node are never compared.  The graph actions
  \<^verbatim>\<open>graph.replace\<close>, \<^verbatim>\<open>actionAddMidpoint\<close> and \<^verbatim>\<open>actionMergeNodes\<close>
  are the ones of the section on the generic graph actions; the closest-node search
  returns one of the nodes it is given; the new node is a node with an id that no way
  has and that is on no way; the graph stores every entity under its own id, resolves
  child nodes, and the nodes of its ways are nodes.
\<close>

theorem connect_fix_round_trip:
  assumes prims: "replace c = modelReplace" "actionAddMidpoint c = modelAddMidpoint"
      "actionMergeNodes c = modelMergeNodes"
    and closest: "\<And>ns p. ns \<noteq> [] \<Longrightarrow> closestNode (geoSphericalClosestNode c ns p) \<in> set ns"
    and new: "\<And>l ts. etype (osmNode c l ts) = TypeNode"
    and fresh: "\<And>l ts i. etype (entity g i) = TypeWay \<Longrightarrow>
                  eid (osmNode c l ts) \<noteq> i \<and> eid (osmNode c l ts) \<notin> set (nodes (entity g i))"
    and stored: "\<And>i. eid (entity g i) = i"
    and resolves: "resolvesChildNodes g"
    and way_nodes: "\<And>i k. etype (entity g i) = TypeWay \<Longrightarrow> k \<in> set (nodes (entity g i)) \<Longrightarrow>
                      etype (entity g k) = TypeNode"
    and index: "\<And>ext w. w \<in> set (tr ext g) \<Longrightarrow> entity g (eid w) = w"
    and primary: "entity g (eid primaryWay) = primaryWay"
    and reported: "cr \<in> set (findCrossingsByWay c primaryWay g tr)"
    and clicked: "f \<in> set (issueFixes (createIssue c cr ctx))" "onClick f = Some act"
  shows "\<exists>j. loc (entity (act g) j) = crossPoint cr \<and>
      j \<in> set (nodes (entity (act g) (eid (fst (ways cr))))) \<and>
      j \<in> set (nodes (entity (act g) (eid (snd (ways cr))))) \<and>
      (\<forall>i. etype (entity (act g) i) = TypeWay \<longrightarrow>
         (\<forall>d \<in> {fst (edges cr), (snd (fst (edges cr)), fst (fst (edges cr))),
                  snd (edges cr), (snd (snd (edges cr)), fst (snd (edges cr)))}.
            hasEdge d (nodes (entity (act g) i)) \<longrightarrow> j = fst d \<or> j = snd d)) \<and>
      resolvesChildNodes (act g) \<and>
      (\<forall>ent ctx'. graph ctx' = act g \<longrightarrow>
         (\<forall>cr' \<in> set (validationCrossings c ent ctx').
            \<not> (j \<in> {fst (fst (edges cr')), snd (fst (edges cr'))} \<and>
               j \<in> {fst (snd (edges cr')), snd (snd (edges cr'))})))"
proof -
  from findCrossingsByWay_origin[OF reported]
  obtain a b w ext ci oneOnly pft wft where
    pway: "etype primaryWay = TypeWay" and ab: "hasEdge (a, b) (nodes primaryWay)"
    and w: "w \<in> set (tr ext g)" and wway: "etype w = TypeWay"
    and ci: "ci \<in> set (crossCoordsLoop c (entity g a) (entity g b) oneOnly (childNodes g w))"
    and cr: "cr = \<lparr>ways = (primaryWay, w), featureTypes = (pft, wft),
           edges = ((eid (entity g a), eid (entity g b)), edge ci), crossPoint = point ci\<rparr>"
    by blast
  obtain x y where xy: "edge ci = (x, y)" by (cases "edge ci")
  from connect_fix_action[OF clicked] obtain ts where
    act: "act = actionConnectCrossingWays c (crossPoint cr) ts [fst (edges cr), snd (edges cr)]"
    by blast
  have edges: "edges cr = ((a, b), (x, y))" and point: "crossPoint cr = point ci"
    and ways: "ways cr = (primaryWay, w)"
    by (simp_all add: cr stored xy)
  have act': "act g = actionConnectCrossingWays c (point ci) ts [(a, b), (x, y)] g"
    by (simp add: act edges point)
  have gw: "entity g (eid w) = w" using index[OF w] .
  have "map eid (childNodes g w) = nodes w"
    using resolves stored by (simp add: resolvesChildNodes_def map_idI)
  with crossCoordsLoop_edge[OF ci] have xyw: "hasEdge (x, y) (nodes w)"
    by (simp add: xy)
  from crossCoordsLoop_no_shared_node[OF ci] have apart: "{a, b} \<inter> {x, y} = {}"
    by (auto simp: xy stored)
  have nds: "etype (entity g a) = TypeNode" "etype (entity g b) = TypeNode"
    "etype (entity g x) = TypeNode" "etype (entity g y) = TypeNode"
    using way_nodes[of "eid primaryWay"] way_nodes[of "eid w"] primary gw pway wway
      hasEdge_in_set[OF ab] hasEdge_in_set[OF xyw]
    by simp_all
  have fresh': "eid (osmNode c (point ci) ts) \<notin> {a, b, x, y, eid primaryWay, eid w}"
    using fresh[of "eid primaryWay" "point ci" ts] fresh[of "eid w" "point ci" ts]
      primary gw pway wway hasEdge_in_set[OF ab] hasEdge_in_set[OF xyw]
    by auto
  from connect_edges_round_trip[OF prims closest stored new fresh']
    primary gw pway wway ab xyw apart nds
  show ?thesis
    unfolding act' edges point ways fst_conv snd_conv by simp
qed


section \<open>The round trip on the example map\<close>

lemma planarClosestNode_member:
  "ns \<noteq> [] \<Longrightarrow> closestNode (planarClosestNode ns p) \<in> set ns"
  by (induction ns p rule: planarClosestNode.induct) (auto simp: Let_def)

lemma lookupEntity_eid: "eid (lookupEntity es i) = i"
  by (auto simp: lookupEntity_def mkNode_def find_Some_iff split: option.splits)

lemma example_stored: "eid (entity exampleGraph i) = i"
  by (simp add: exampleGraph_def lookupEntity_eid)

lemma example_ways:
  assumes "etype (entity exampleGraph i) = TypeWay"
  shows "entity exampleGraph i \<in> {exampleRoad, exampleStream, exampleFootway, examplePath,
      exampleBuilding, exampleOuter1, exampleOuter2, exampleSideRoad, exampleFootbridge,
      exampleDitch, exampleTrack}"
proof (cases "find (\<lambda>e. eid e = i) exampleEntities")
  case None
  then show ?thesis using assms by (simp add: exampleGraph_def lookupEntity_def mkNode_def)
next
  case (Some e)
  then have "e \<in> set exampleEntities" by (auto simp: find_Some_iff)
  moreover have "etype e = TypeWay" "entity exampleGraph i = e"
    using assms Some by (simp_all add: exampleGraph_def lookupEntity_def)
  ultimately show ?thesis
    by (auto simp: exampleEntities_def mkNode_def exampleMultipolygon_def mkRelation_def)
qed

lemma example_way_nodes:
  assumes "etype (entity exampleGraph i) = TypeWay" "k \<in> set (nodes (entity exampleGraph i))"
  shows "etype (entity exampleGraph k) = TypeNode \<and> k \<noteq> ''n-1''"
proof -
  have "\<forall>e \<in> {exampleRoad, exampleStream, exampleFootway, examplePath,
      exampleBuilding, exampleOuter1, exampleOuter2, exampleSideRoad, exampleFootbridge,
      exampleDitch, exampleTrack}. \<forall>k \<in> set (nodes e).
        etype (entity exampleGraph k) = TypeNode \<and> k \<noteq> ''n-1''"
    by (simp add: example_entity_defs exampleGraph_def lookupEntity_def exampleEntities_def)
  then show ?thesis using example_ways[OF assms(1)] assms(2) by blast
qed

lemma example_way_ids:
  assumes "etype (entity exampleGraph i) = TypeWay"
  shows "i \<noteq> ''n-1''"
proof -
  have "\<forall>e \<in> {exampleRoad, exampleStream, exampleFootway, examplePath,
      exampleBuilding, exampleOuter1, exampleOuter2, exampleSideRoad, exampleFootbridge,
      exampleDitch, exampleTrack}. eid e \<noteq> ''n-1''"
    by (simp add: example_entity_defs)
  then show ?thesis using example_ways[OF assms] example_stored[of i] by metis
qed

lemma example_index:
  assumes "w \<in> set (exampleTree ext exampleGraph)"
  shows "entity exampleGraph (eid w) = w"
proof -
  from exampleTree_subset[OF assms] obtain i where "w = entity exampleGraph i" by auto
  then show ?thesis by (simp add: example_stored)
qed


lemma example_footway_reported:
  "exampleFootwayCrossing \<in> set (findCrossingsByWay exampleCollaborators exampleRoad exampleGraph exampleTree)"
proof -
  let ?c = exampleCollaborators and ?g = exampleGraph
  let ?n1 = "entity ?g (nodes exampleRoad ! 0)" and ?n2 = "entity ?g (nodes exampleRoad ! Suc 0)"
  let ?nA = "childNodes ?g exampleFootway ! 0" and ?nB = "childNodes ?g exampleFootway ! Suc 0"
  have nodes: "?n1 = mkNode ''n1'' (0, 0)" "?n2 = mkNode ''n2'' (4, 0)"
    "?nA = mkNode ''n5'' (2, -2)" "?nB = mkNode ''n6'' (2, 2)"
    by (simp_all add: exampleGraph_def lookupEntity_def exampleEntities_def example_entity_defs)
  have tr: "getFeatureTypeForCrossingCheck exampleRoad ?g = Some Highway"
    and tf: "getFeatureTypeForCrossingCheck exampleFootway ?g = Some Highway"
    by (simp_all add: getFeatureTypeForCrossingCheck_def getFeatureWithFeatureTypeTagsForWay_def
        classifier_defs example_entity_defs)
  have same: "entity ?g (eid exampleFootway) = exampleFootway"
    by (simp add: exampleGraph_def lookupEntity_def exampleEntities_def example_entity_defs)
  have "\<lparr>ways = (exampleRoad, exampleFootway), featureTypes = (Highway, Highway),
       edges = ((eid ?n1, eid ?n2), (eid ?nA, eid ?nB)), crossPoint = (2, 0)\<rparr>
        \<in> set (findCrossingsByWay ?c exampleRoad ?g exampleTree)"
  proof (rule findCrossingsByWay_complete[where i = 0 and j = 0])
    show "exampleFootway \<in> set (exampleTree (edgeExtent ?n1 ?n2) ?g)"
      by (simp add: example_world_defs example_entity_defs)
    show "\<forall>ext. \<forall>w' \<in> set (exampleTree ext ?g).
       eid w' = eid exampleFootway \<longrightarrow> getFeatureTypeForCrossingCheck w' ?g \<noteq> Some Building"
      using example_index same tf by (metis featureType.distinct(1) option.inject)
    show "\<not> isLegitCrossing exampleRoad Highway exampleFootway Highway ?g"
      "\<not> isLegitCrossing exampleFootway Highway exampleRoad Highway ?g"
      by (simp_all add: legit_defs classifier_defs example_entity_defs Let_def)
    show "geoLineIntersection ?c (loc ?n1, loc ?n2) (loc ?nA, loc ?nB) = Some (2, 0)"
      unfolding nodes
      by (simp add: mkNode_def exampleCollaborators_def planarLineIntersection_def vecCross_def)
    show "Suc 0 < length (childNodes ?g exampleFootway)"
      by (simp add: exampleGraph_def example_entity_defs)
  qed (simp_all add: tr tf nodes mkNode_def, simp_all add: example_entity_defs)
  then show ?thesis
    unfolding nodes exampleFootwayCrossing_def by (simp add: mkNode_def)
qed

lemma example_footway_fix:
  "onClick (hd (issueFixes (createIssue exampleCollaborators exampleFootwayCrossing exampleContext))) =
     Some (actionConnectCrossingWays exampleCollaborators (2, 0) [''highway'' \<mapsto> ''crossing'']
             [(''n1'', ''n2''), (''n5'', ''n6'')]) \<and>
   hd (issueFixes (createIssue exampleCollaborators exampleFootwayCrossing exampleContext))
     \<in> set (issueFixes (createIssue exampleCollaborators exampleFootwayCrossing exampleContext))"
proof -
  have cmp: "\<not> compareWays exampleCollaborators exampleGraph exampleRoad exampleFootway"
    by code_simp
  have ents: "entities (createIssue exampleCollaborators exampleFootwayCrossing exampleContext) =
      (exampleRoad, exampleFootway)"
    using cmp
    by (simp add: createIssue_def Let_def example_sort_keeps example_context_fields
        exampleFootwayCrossing_def getFeatureWithFeatureTypeTagsForWay_def classifier_defs
        example_entity_defs)
  have ct: "tagsForConnectionNodeIfAllowed exampleRoad exampleFootway =
      Some [''highway'' \<mapsto> ''crossing'']"
    by (simp add: tagsForConnectionNodeIfAllowed_def classifier_defs pathHighways_def
        example_entity_defs Let_def)
  have "issueFixes (createIssue exampleCollaborators exampleFootwayCrossing exampleContext) \<noteq> []"
    by (simp add: createIssue_def Let_def)
  moreover have "onClick (hd (issueFixes (createIssue exampleCollaborators exampleFootwayCrossing
      exampleContext))) =
     Some (actionConnectCrossingWays exampleCollaborators (2, 0) [''highway'' \<mapsto> ''crossing'']
             [(''n1'', ''n2''), (''n5'', ''n6'')])"
    using ents ct
    by (simp add: createIssue_def Let_def exampleFootwayCrossing_def)
  ultimately show ?thesis by simp
qed

theorem connect_fix_round_trip_witness:
  "exampleFootwayCrossing \<in>
     set (findCrossingsByWay exampleCollaborators exampleRoad exampleGraph exampleTree) \<and>
   onClick (hd (issueFixes (createIssue exampleCollaborators exampleFootwayCrossing exampleContext))) =
     Some (actionConnectCrossingWays exampleCollaborators (2, 0) [''highway'' \<mapsto> ''crossing'']
             [(''n1'', ''n2''), (''n5'', ''n6'')]) \<and>
   (\<exists>j. loc (entity exampleConnectedGraph j) = (2, 0) \<and>
      j \<in> set (nodes (entity exampleConnectedGraph ''w1'')) \<and>
      j \<in> set (nodes (entity exampleConnectedGraph ''w3'')) \<and>
      (\<forall>ent ctx'. graph ctx' = exampleConnectedGraph \<longrightarrow>
         (\<forall>cr' \<in> set (validationCrossings exampleCollaborators ent ctx').
            \<not> (j \<in> {fst (fst (edges cr')), snd (fst (edges cr'))} \<and>
               j \<in> {fst (snd (edges cr')), snd (snd (edges cr'))})))) \<and>
   nodes (entity exampleConnectedGraph ''w1'') = [''n1'', ''n-1'', ''n2''] \<and>
   nodes (entity exampleConnectedGraph ''w3'') = [''n5'', ''n-1'', ''n6''] \<and>
   loc (entity exampleConnectedGraph ''n-1'') = (2, 0) \<and>
   map (\<lambda>cr. eid (snd (ways cr)))
     (findCrossingsByWay exampleCollaborators exampleRoad exampleGraph exampleTree) =
     [''w2'', ''w3'', ''w4'', ''w4'', ''w5''] \<and>
   map (\<lambda>cr. eid (snd (ways cr)))
     (findCrossingsByWay exampleCollaborators (entity exampleConnectedGraph ''w1'')
        exampleConnectedGraph exampleTree) =
     [''w2'', ''w4'', ''w4'', ''w5'']"
proof -
  let ?c = exampleCollaborators
  let ?act = "actionConnectCrossingWays ?c (2, 0) [''highway'' \<mapsto> ''crossing'']
             [(''n1'', ''n2''), (''n5'', ''n6'')]"
  let ?f = "hd (issueFixes (createIssue ?c exampleFootwayCrossing exampleContext))"
  have g': "?act exampleGraph = exampleConnectedGraph"
    by (simp add: exampleConnectedGraph_def)
  have rt: "\<exists>j. loc (entity (?act exampleGraph) j) = crossPoint exampleFootwayCrossing \<and>
      j \<in> set (nodes (entity (?act exampleGraph) (eid (fst (ways exampleFootwayCrossing))))) \<and>
      j \<in> set (nodes (entity (?act exampleGraph) (eid (snd (ways exampleFootwayCrossing))))) \<and>
      (\<forall>i. etype (entity (?act exampleGraph) i) = TypeWay \<longrightarrow>
         (\<forall>d \<in> {fst (edges exampleFootwayCrossing),
                  (snd (fst (edges exampleFootwayCrossing)), fst (fst (edges exampleFootwayCrossing))),
                  snd (edges exampleFootwayCrossing),
                  (snd (snd (edges exampleFootwayCrossing)), fst (snd (edges exampleFootwayCrossing)))}.
            hasEdge d (nodes (entity (?act exampleGraph) i)) \<longrightarrow> j = fst d \<or> j = snd d)) \<and>
      resolvesChildNodes (?act exampleGraph) \<and>
      (\<forall>ent ctx'. graph ctx' = ?act exampleGraph \<longrightarrow>
         (\<forall>cr' \<in> set (validationCrossings ?c ent ctx').
            \<not> (j \<in> {fst (fst (edges cr')), snd (fst (edges cr'))} \<and>
               j \<in> {fst (snd (edges cr')), snd (snd (edges cr'))})))"
  proof (rule connect_fix_round_trip[where c = ?c and g = exampleGraph and act = ?act
        and cr = exampleFootwayCrossing and tr = exampleTree and primaryWay = exampleRoad
        and f = ?f and ctx = exampleContext])
    show "replace ?c = modelReplace" "actionAddMidpoint ?c = modelAddMidpoint"
      "actionMergeNodes ?c = modelMergeNodes"
      by (simp_all add: exampleCollaborators_def)
    show "closestNode (geoSphericalClosestNode ?c ns p) \<in> set ns" if "ns \<noteq> []" for ns p
      using planarClosestNode_member[OF that] by (simp add: exampleCollaborators_def)
    show "etype (osmNode ?c l ts) = TypeNode" for l ts
      by (simp add: exampleCollaborators_def mkNode_def)
    show "eid (osmNode ?c l ts) \<noteq> i \<and> eid (osmNode ?c l ts) \<notin> set (nodes (entity exampleGraph i))"
      if "etype (entity exampleGraph i) = TypeWay" for l ts i
      using example_way_ids[OF that] example_way_nodes[OF that]
      by (auto simp: exampleCollaborators_def mkNode_def)
    show "eid (entity exampleGraph i) = i" for i by (rule example_stored)
    show "resolvesChildNodes exampleGraph"
      by (simp add: resolvesChildNodes_def exampleGraph_def)
    show "etype (entity exampleGraph k) = TypeNode"
      if "etype (entity exampleGraph i) = TypeWay" "k \<in> set (nodes (entity exampleGraph i))" for i k
      using example_way_nodes[OF that] by simp
    show "entity exampleGraph (eid w) = w" if "w \<in> set (exampleTree ext exampleGraph)" for ext w
      using that by (rule example_index)
    show "entity exampleGraph (eid exampleRoad) = exampleRoad"
      by (simp add: exampleGraph_def lookupEntity_def exampleEntities_def example_entity_defs)
    show "exampleFootwayCrossing \<in> set (findCrossingsByWay ?c exampleRoad exampleGraph exampleTree)"
      by (rule example_footway_reported)
    show "?f \<in> set (issueFixes (createIssue ?c exampleFootwayCrossing exampleContext))"
      using example_footway_fix by simp
    show "onClick ?f = Some ?act"
      using example_footway_fix by simp
  qed
  then have rt': "\<exists>j. loc (entity exampleConnectedGraph j) = (2, 0) \<and>
      j \<in> set (nodes (entity exampleConnectedGraph ''w1'')) \<and>
      j \<in> set (nodes (entity exampleConnectedGraph ''w3'')) \<and>
      (\<forall>ent ctx'. graph ctx' = exampleConnectedGraph \<longrightarrow>
         (\<forall>cr' \<in> set (validationCrossings ?c ent ctx').
            \<not> (j \<in> {fst (fst (edges cr')), snd (fst (edges cr'))} \<and>
               j \<in> {fst (snd (edges cr')), snd (snd (edges cr'))})))"
    unfolding g' by (simp add: exampleFootwayCrossing_def example_entity_defs) blast
  have n1: "nodes (entity exampleConnectedGraph ''w1'') = [''n1'', ''n-1'', ''n2'']"
    and n3: "nodes (entity exampleConnectedGraph ''w3'') = [''n5'', ''n-1'', ''n6'']"
    and lj: "loc (entity exampleConnectedGraph ''n-1'') = (2, 0)"
    by code_simp+
  have before: "map (\<lambda>cr. eid (snd (ways cr)))
     (findCrossingsByWay ?c exampleRoad exampleGraph exampleTree) =
     [''w2'', ''w3'', ''w4'', ''w4'', ''w5'']"
    by code_simp
  have after: "map (\<lambda>cr. eid (snd (ways cr)))
     (findCrossingsByWay ?c (entity exampleConnectedGraph ''w1'') exampleConnectedGraph exampleTree) =
     [''w2'', ''w4'', ''w4'', ''w5'']"
    by code_simp
  from example_footway_reported example_footway_fix rt' n1 n3 lj before after
  show ?thesis by blast
qed


end
